theory Spec2Isabelle
  imports Main "HOL-Library.Sublist" "HOL-Library.AList"
begin

section \<open>Strings and JSON values\<close>

text \<open>
  A Python \<^verbatim>\<open>str\<close> is a sequence of Unicode code points, so it is modelled as a list of
  code points. The ASCII literals of the scripts are written through \<open>ascii\<close>; the
  Chinese literals are given by their code points.
\<close>

type_synonym str = "nat list"

definition ascii :: "string \<Rightarrow> str" where
  "ascii s = map of_char s"

text \<open>\<^verbatim>\<open>'\<close>U+4E0B U+7EBF\<^verbatim>\<open>'\<close>, the name of the offline group.\<close>

definition offline_name :: str where
  "offline_name = [19979, 32447]"

text \<open>\<^verbatim>\<open>'\<close>U+65E0 U+9700 U+4FEE U+6539\<^verbatim>\<open>'\<close>, the "no change needed" sentinel of the CSV.\<close>

definition no_change_name :: str where
  "no_change_name = [26080, 38656, 20462, 25913]"

text \<open>\<^verbatim>\<open>"\<close>U+672A U+77E5 U+9519 U+8BEF\<^verbatim>\<open>"\<close>, the default error message of \<^verbatim>\<open>_call_api\<close>.\<close>

definition unknown_error :: str where
  "unknown_error = [26410, 30693, 38169, 35823]"

text \<open>\<^verbatim>\<open>'\<close>U+672A U+77E5 U+540D U+79F0\<^verbatim>\<open>'\<close>, the default host name of the rollback script.\<close>

definition unknown_name :: str where
  "unknown_name = [26410, 30693, 21517, 31216]"

text \<open>
  JSON values as Python holds them after \<^verbatim>\<open>response.json()\<close>, and as the scripts build
  them for request parameters. The keys of an object are the ASCII literals of the
  scripts, written as HOL strings; an object is the list of its items. Numbers are
  integers: no script reads a number of a reply.
\<close>

datatype json =
    JNull
  | JBool bool
  | JNum int
  | JStr str
  | JList "json list"
  | JObj "(string \<times> json) list"

text \<open>The exceptions the modelled code raises, or lets through.\<close>

datatype exn =
    Timeout
  | ConnectionError
  | HTTPError nat
  | JSONDecodeError
  | KeyError string
  | TypeError
  | AttributeError
  | IndexError
  | ValueError
  | Exception json
  | Exception_api json
  | Exception_timeout nat
  | Exception_connect
  | Exception_http nat
  | Exception_json

text \<open>\<^verbatim>\<open>k in v\<close> for a literal key \<open>k\<close>: key membership in a dict, element membership in a
  list, substring test in a string, \<^verbatim>\<open>TypeError\<close> on anything else.\<close>

fun py_in :: "string \<Rightarrow> json \<Rightarrow> exn + bool" where
  "py_in k (JObj kvs) = Inr (k \<in> fst ` set kvs)"
| "py_in k (JList xs) = Inr (JStr (ascii k) \<in> set xs)"
| "py_in k (JStr s) = Inr (sublist (ascii k) s)"
| "py_in k JNull = Inl TypeError"
| "py_in k (JBool b) = Inl TypeError"
| "py_in k (JNum n) = Inl TypeError"

text \<open>\<^verbatim>\<open>v[k]\<close> for a literal string key: only a dict can be subscripted by a string.\<close>

fun py_getitem :: "json \<Rightarrow> string \<Rightarrow> exn + json" where
  "py_getitem (JObj kvs) k = (case map_of kvs k of None \<Rightarrow> Inl (KeyError k) | Some v \<Rightarrow> Inr v)"
| "py_getitem JNull k = Inl TypeError"
| "py_getitem (JBool b) k = Inl TypeError"
| "py_getitem (JNum n) k = Inl TypeError"
| "py_getitem (JStr s) k = Inl TypeError"
| "py_getitem (JList xs) k = Inl TypeError"

text \<open>\<^verbatim>\<open>v.get(k, default)\<close>: only a dict has the method.\<close>

fun py_get :: "json \<Rightarrow> string \<Rightarrow> json \<Rightarrow> exn + json" where
  "py_get (JObj kvs) k d = (case map_of kvs k of None \<Rightarrow> Inr d | Some v \<Rightarrow> Inr v)"
| "py_get JNull k d = Inl AttributeError"
| "py_get (JBool b) k d = Inl AttributeError"
| "py_get (JNum n) k d = Inl AttributeError"
| "py_get (JStr s) k d = Inl AttributeError"
| "py_get (JList xs) k d = Inl AttributeError"

section \<open>The API clients\<close>

text \<open>
  What \<^verbatim>\<open>requests.post\<close> does with a request: it raises \<^verbatim>\<open>Timeout\<close>, raises
  \<^verbatim>\<open>ConnectionError\<close>, or returns a response with a status code and a body; the body
  is \<open>None\<close> when \<^verbatim>\<open>response.json()\<close> cannot parse it.
\<close>

datatype transport = TimedOut | ConnectFailed | Response nat "json option"

record http_request =
  req_json :: json
  req_headers :: "(string \<times> str) list"
  req_timeout :: "nat option"

type_synonym network = "http_request \<Rightarrow> transport"

text \<open>\<^verbatim>\<open>response.raise_for_status()\<close> raises for the status codes 400 to 599.\<close>

definition raise_for_status :: "nat \<Rightarrow> bool" where
  "raise_for_status status \<longleftrightarrow> 400 \<le> status \<and> status < 600"

text \<open>The free function \<^verbatim>\<open>call_api\<close> of \<^verbatim>\<open>zabbix_group_update.py\<close>.\<close>

definition call_api :: "network \<Rightarrow> string \<Rightarrow> json \<Rightarrow> str \<Rightarrow> exn + json" where
  "call_api post method params auth_token =
    (let payload = JObj [(''jsonrpc'', JStr (ascii ''2.0'')), (''method'', JStr (ascii method)),
                         (''params'', params), (''id'', JNum 1)];
         headers = [(''Content-Type'', ascii ''application/json''),
                    (''Authorization'', ascii ''Bearer '' @ auth_token)]
     in case post \<lparr>req_json = payload, req_headers = headers, req_timeout = None\<rparr> of
          TimedOut \<Rightarrow> Inl Timeout
        | ConnectFailed \<Rightarrow> Inl ConnectionError
        | Response status body \<Rightarrow>
            (case body of
               None \<Rightarrow> Inl JSONDecodeError
             | Some result \<Rightarrow>
                 (case py_in ''error'' result of
                    Inl e \<Rightarrow> Inl e
                  | Inr True \<Rightarrow>
                      (case py_getitem result ''error'' of
                         Inl e \<Rightarrow> Inl e
                       | Inr err \<Rightarrow> Inl (Exception err))
                  | Inr False \<Rightarrow> py_getitem result ''result'')))"

text \<open>The class \<^verbatim>\<open>ZabbixAPI\<close> of \<^verbatim>\<open>template_replacer.py\<close> (the same client is in
  \<^verbatim>\<open>zabbix_detector.py\<close> and \<^verbatim>\<open>zabbix_group_improved.py\<close>): the fields its method
  \<^verbatim>\<open>_call_api\<close> uses.\<close>

record zabbix_api =
  auth_token :: "str option"
  request_id :: int
  config_timeout :: nat

text \<open>The body of the \<^verbatim>\<open>try\<close> of \<^verbatim>\<open>_call_api\<close>, before its \<^verbatim>\<open>except\<close> clauses.\<close>

definition call_api_try :: "transport \<Rightarrow> exn + json" where
  "call_api_try t =
    (case t of
       TimedOut \<Rightarrow> Inl Timeout
     | ConnectFailed \<Rightarrow> Inl ConnectionError
     | Response status body \<Rightarrow>
         if raise_for_status status then Inl (HTTPError status)
         else (case body of
            None \<Rightarrow> Inl JSONDecodeError
          | Some result \<Rightarrow>
              (case py_in ''error'' result of
                 Inl e \<Rightarrow> Inl e
               | Inr True \<Rightarrow>
                   (case py_getitem result ''error'' of
                      Inl e \<Rightarrow> Inl e
                    | Inr err \<Rightarrow>
                        (case py_get err ''message'' (JStr unknown_error) of
                           Inl e \<Rightarrow> Inl e
                         | Inr msg \<Rightarrow>
                             (case py_get err ''data'' msg of
                                Inl e \<Rightarrow> Inl e
                              | Inr error_msg \<Rightarrow> Inl (Exception_api error_msg))))
               | Inr False \<Rightarrow> py_get result ''result'' JNull)))"

text \<open>The method \<^verbatim>\<open>ZabbixAPI._call_api\<close>: the request counter is advanced before the
  request is sent; the four \<^verbatim>\<open>except\<close> clauses rewrap the exceptions of the
  transport, every other exception passes through.\<close>

definition ZabbixAPI_call_api ::
  "network \<Rightarrow> zabbix_api \<Rightarrow> string \<Rightarrow> json \<Rightarrow> bool \<Rightarrow> (exn + json) \<times> zabbix_api" where
  "ZabbixAPI_call_api post self method params auth_required =
    (let payload = JObj [(''jsonrpc'', JStr (ascii ''2.0'')), (''method'', JStr (ascii method)),
                         (''params'', params), (''id'', JNum (request_id self))];
         headers = [(''Content-Type'', ascii ''application/json-rpc'')] @
                   (case auth_token self of
                      None \<Rightarrow> []
                    | Some tok \<Rightarrow> if auth_required \<and> tok \<noteq> []
                                  then [(''Authorization'', ascii ''Bearer '' @ tok)] else []);
         self' = self\<lparr>request_id := request_id self + 1\<rparr>;
         t = post \<lparr>req_json = payload, req_headers = headers,
                   req_timeout = Some (config_timeout self)\<rparr>
     in (case call_api_try t of
           Inl Timeout \<Rightarrow> Inl (Exception_timeout (config_timeout self))
         | Inl ConnectionError \<Rightarrow> Inl Exception_connect
         | Inl (HTTPError s) \<Rightarrow> Inl (Exception_http s)
         | Inl JSONDecodeError \<Rightarrow> Inl Exception_json
         | r \<Rightarrow> r,
         self'))"

section \<open>The server behind \<^verbatim>\<open>call_api\<close>, and what the scripts print and log\<close>

text \<open>
  The group and host scripts use \<^verbatim>\<open>call_api\<close> only through its outcome: the exception it
  raises or the \<^verbatim>\<open>result\<close> it returns. The replies have the shape of the Zabbix API for
  the \<^verbatim>\<open>output\<close> and \<^verbatim>\<open>select...\<close> parameters of the request: a list of objects whose
  id is always present and whose other properties may be absent (\<open>None\<close>), so that
  \<^verbatim>\<open>obj['name']\<close> can raise \<^verbatim>\<open>KeyError\<close> and \<^verbatim>\<open>obj.get('hosts', [])\<close> has its default.
\<close>

record hostref =
  hostid :: str
  hostname :: "str option"

record hostgroup =
  groupid :: str
  groupname :: "str option"
  grouphosts :: "hostref list option"

record host =
  host_hostid :: str
  host_groups :: "hostgroup list option"

text \<open>A backup snapshot maps a group name to the group's id and hosts; it is the list of
  the items of the dict, in the order of the file.\<close>

record snapshot_group =
  snap_groupid :: str
  snap_hosts :: "hostref list"

type_synonym snapshot = "(str \<times> snapshot_group) list"

text \<open>
  Everything outside the scripts: one function per API method, taking the \<^verbatim>\<open>params\<close> of
  the call and the state of the server, and returning what \<^verbatim>\<open>call_api\<close> raises or
  returns together with the next state (for the login request of \<^verbatim>\<open>get_auth_token\<close>:
  what \<^verbatim>\<open>requests.post\<close> raises, or else what \<^verbatim>\<open>response.json()['result']\<close> raises or
  returns); Python's \<^verbatim>\<open>int()\<close> on a string (\<open>None\<close> where
  it raises \<^verbatim>\<open>ValueError\<close>); and the order in which a Python \<^verbatim>\<open>set\<close> of strings, built by
  the given insertions, is iterated.
\<close>

record 's env =
  user_login :: "'s \<Rightarrow> (exn + (exn + str)) \<times> 's"
  hostgroup_get :: "json \<Rightarrow> 's \<Rightarrow> (exn + hostgroup list) \<times> 's"
  hostgroup_create :: "json \<Rightarrow> 's \<Rightarrow> (exn + str list) \<times> 's"
  hostgroup_update :: "json \<Rightarrow> 's \<Rightarrow> (exn + unit) \<times> 's"
  hostgroup_delete :: "json \<Rightarrow> 's \<Rightarrow> (exn + unit) \<times> 's"
  host_get :: "json \<Rightarrow> 's \<Rightarrow> (exn + host list) \<times> 's"
  host_update :: "json \<Rightarrow> 's \<Rightarrow> (exn + unit) \<times> 's"
  py_int :: "str \<Rightarrow> int option"
  py_list_of_set :: "str list \<Rightarrow> str list"

datatype level = INFO | WARNING | ERROR

text \<open>The messages of the scripts: a tag for the format string, and the values the
  format string interpolates. Each message of the scripts has a name below.\<close>

datatype arg = A_str str | A_nat nat | A_list "str list" | A_exn exn | A_opt "str option"

datatype msg = Msg string "arg list"

abbreviation M_login_response :: "msg" where
  "M_login_response \<equiv> Msg ''login_response'' []"

abbreviation M_backup_start :: "msg" where
  "M_backup_start \<equiv> Msg ''backup_start'' []"

abbreviation M_backup_group :: "str option \<Rightarrow> str \<Rightarrow> nat \<Rightarrow> msg" where
  "M_backup_group x1 x2 x3 \<equiv> Msg ''backup_group'' [A_opt x1, A_str x2, A_nat x3]"

abbreviation M_backup_done :: "str \<Rightarrow> msg" where
  "M_backup_done x1 \<equiv> Msg ''backup_done'' [A_str x1]"

abbreviation M_found_prefix :: "str \<Rightarrow> str \<Rightarrow> msg" where
  "M_found_prefix x1 x2 \<equiv> Msg ''found_prefix'' [A_str x1, A_str x2]"

abbreviation M_not_found :: "str \<Rightarrow> msg" where
  "M_not_found x1 \<equiv> Msg ''not_found'' [A_str x1]"

abbreviation M_multiple :: "str \<Rightarrow> str list \<Rightarrow> msg" where
  "M_multiple x1 x2 \<equiv> Msg ''multiple'' [A_str x1, A_list x2]"

abbreviation M_moved :: "str \<Rightarrow> nat \<Rightarrow> msg" where
  "M_moved x1 x2 \<equiv> Msg ''moved'' [A_str x1, A_nat x2]"

abbreviation M_keep_prefix :: "str \<Rightarrow> str \<Rightarrow> msg" where
  "M_keep_prefix x1 x2 \<equiv> Msg ''keep_prefix'' [A_str x1, A_str x2]"

abbreviation M_renamed :: "str \<Rightarrow> str \<Rightarrow> msg" where
  "M_renamed x1 x2 \<equiv> Msg ''renamed'' [A_str x1, A_str x2]"

abbreviation M_rename_failed :: "str \<Rightarrow> str \<Rightarrow> exn \<Rightarrow> msg" where
  "M_rename_failed x1 x2 x3 \<equiv> Msg ''rename_failed'' [A_str x1, A_str x2, A_exn x3]"

abbreviation M_check_none :: "msg" where
  "M_check_none \<equiv> Msg ''check_none'' []"

abbreviation M_check_not_int :: "str \<Rightarrow> msg" where
  "M_check_not_int x1 \<equiv> Msg ''check_not_int'' [A_str x1]"

abbreviation M_check_failed :: "str option \<Rightarrow> exn \<Rightarrow> msg" where
  "M_check_failed x1 x2 \<equiv> Msg ''check_failed'' [A_opt x1, A_exn x2]"

abbreviation M_delete_none :: "str \<Rightarrow> msg" where
  "M_delete_none x1 \<equiv> Msg ''delete_none'' [A_str x1]"

abbreviation M_delete_not_int :: "str \<Rightarrow> str \<Rightarrow> msg" where
  "M_delete_not_int x1 x2 \<equiv> Msg ''delete_not_int'' [A_str x1, A_str x2]"

abbreviation M_skip_nonempty :: "str \<Rightarrow> msg" where
  "M_skip_nonempty x1 \<equiv> Msg ''skip_nonempty'' [A_str x1]"

abbreviation M_deleted :: "str \<Rightarrow> msg" where
  "M_deleted x1 \<equiv> Msg ''deleted'' [A_str x1]"

abbreviation M_delete_failed :: "str \<Rightarrow> exn \<Rightarrow> msg" where
  "M_delete_failed x1 x2 \<equiv> Msg ''delete_failed'' [A_str x1, A_exn x2]"

abbreviation M_cleanup_start :: "nat \<Rightarrow> msg" where
  "M_cleanup_start x1 \<equiv> Msg ''cleanup_start'' [A_nat x1]"

abbreviation M_cleanup_none :: "msg" where
  "M_cleanup_none \<equiv> Msg ''cleanup_none'' []"

abbreviation M_cleanup_not_int :: "str \<Rightarrow> msg" where
  "M_cleanup_not_int x1 \<equiv> Msg ''cleanup_not_int'' [A_str x1]"

abbreviation M_cleanup_missing :: "str \<Rightarrow> msg" where
  "M_cleanup_missing x1 \<equiv> Msg ''cleanup_missing'' [A_str x1]"

abbreviation M_cleanup_error :: "str option \<Rightarrow> exn \<Rightarrow> msg" where
  "M_cleanup_error x1 x2 \<equiv> Msg ''cleanup_error'' [A_opt x1, A_exn x2]"

abbreviation M_cleanup_done :: "nat \<Rightarrow> msg" where
  "M_cleanup_done x1 \<equiv> Msg ''cleanup_done'' [A_nat x1]"

abbreviation M_cleanup_nothing :: "msg" where
  "M_cleanup_nothing \<equiv> Msg ''cleanup_nothing'' []"

abbreviation M_csv_header :: "msg" where
  "M_csv_header \<equiv> Msg ''csv_header'' []"

abbreviation M_csv_row :: "str option \<Rightarrow> str option \<Rightarrow> msg" where
  "M_csv_row x1 x2 \<equiv> Msg ''csv_row'' [A_opt x1, A_opt x2]"

abbreviation M_csv_skip_empty :: "str option \<Rightarrow> str option \<Rightarrow> msg" where
  "M_csv_skip_empty x1 x2 \<equiv> Msg ''csv_skip_empty'' [A_opt x1, A_opt x2]"

abbreviation M_processing :: "nat \<Rightarrow> nat \<Rightarrow> str \<Rightarrow> str list \<Rightarrow> msg" where
  "M_processing x1 x2 x3 x4 \<equiv> Msg ''processing'' [A_nat x1, A_nat x2, A_str x3, A_list x4]"

abbreviation M_modifying :: "str \<Rightarrow> str \<Rightarrow> msg" where
  "M_modifying x1 x2 \<equiv> Msg ''modifying'' [A_str x1, A_str x2]"

abbreviation M_cleanup_begin :: "msg" where
  "M_cleanup_begin \<equiv> Msg ''cleanup_begin'' []"

abbreviation M_cleanup_none_needed :: "msg" where
  "M_cleanup_none_needed \<equiv> Msg ''cleanup_none_needed'' []"

abbreviation M_all_done :: "str \<Rightarrow> msg" where
  "M_all_done x1 \<equiv> Msg ''all_done'' [A_str x1]"

abbreviation M_rollback_start :: "str \<Rightarrow> msg" where
  "M_rollback_start x1 \<equiv> Msg ''rollback_start'' [A_str x1]"

abbreviation M_rollback_count :: "nat \<Rightarrow> msg" where
  "M_rollback_count x1 \<equiv> Msg ''rollback_count'' [A_nat x1]"

abbreviation M_rollback_check :: "str \<Rightarrow> str \<Rightarrow> msg" where
  "M_rollback_check x1 x2 \<equiv> Msg ''rollback_check'' [A_str x1, A_str x2]"

abbreviation M_rollback_missing :: "str \<Rightarrow> str \<Rightarrow> msg" where
  "M_rollback_missing x1 x2 \<equiv> Msg ''rollback_missing'' [A_str x1, A_str x2]"

abbreviation M_rollback_recreated :: "str \<Rightarrow> str \<Rightarrow> msg" where
  "M_rollback_recreated x1 x2 \<equiv> Msg ''rollback_recreated'' [A_str x1, A_str x2]"

abbreviation M_rollback_recreate_failed :: "str \<Rightarrow> exn \<Rightarrow> msg" where
  "M_rollback_recreate_failed x1 x2 \<equiv> Msg ''rollback_recreate_failed'' [A_str x1, A_exn x2]"

abbreviation M_rollback_check_name :: "str option \<Rightarrow> str \<Rightarrow> msg" where
  "M_rollback_check_name x1 x2 \<equiv> Msg ''rollback_check_name'' [A_opt x1, A_str x2]"

abbreviation M_rollback_renamed :: "str option \<Rightarrow> str \<Rightarrow> msg" where
  "M_rollback_renamed x1 x2 \<equiv> Msg ''rollback_renamed'' [A_opt x1, A_str x2]"

abbreviation M_rollback_same_name :: "str \<Rightarrow> msg" where
  "M_rollback_same_name x1 \<equiv> Msg ''rollback_same_name'' [A_str x1]"

abbreviation M_rollback_failed :: "str \<Rightarrow> exn \<Rightarrow> msg" where
  "M_rollback_failed x1 x2 \<equiv> Msg ''rollback_failed'' [A_str x1, A_exn x2]"

abbreviation M_rollback_done :: "msg" where
  "M_rollback_done \<equiv> Msg ''rollback_done'' []"

abbreviation M_rollback_successes :: "nat \<Rightarrow> msg" where
  "M_rollback_successes x1 \<equiv> Msg ''rollback_successes'' [A_nat x1]"

abbreviation M_rollback_failures :: "nat \<Rightarrow> msg" where
  "M_rollback_failures x1 \<equiv> Msg ''rollback_failures'' [A_nat x1]"

abbreviation M_rollback_see_log :: "msg" where
  "M_rollback_see_log \<equiv> Msg ''rollback_see_log'' []"

abbreviation M_restore_skip :: "str \<Rightarrow> msg" where
  "M_restore_skip x1 \<equiv> Msg ''restore_skip'' [A_str x1]"

abbreviation M_restore_start :: "nat \<Rightarrow> str \<Rightarrow> msg" where
  "M_restore_start x1 x2 \<equiv> Msg ''restore_start'' [A_nat x1, A_str x2]"

abbreviation M_restore_ok :: "str \<Rightarrow> str \<Rightarrow> msg" where
  "M_restore_ok x1 x2 \<equiv> Msg ''restore_ok'' [A_str x1, A_str x2]"

abbreviation M_restore_failed :: "str \<Rightarrow> str \<Rightarrow> exn \<Rightarrow> msg" where
  "M_restore_failed x1 x2 x3 \<equiv> Msg ''restore_failed'' [A_str x1, A_str x2, A_exn x3]"

text \<open>The observable actions of a run, in the order they happen.\<close>

datatype event =
    Call string json
  | Print msg
  | Log level msg
  | WriteFile str snapshot


text \<open>
  A piece of a script is a function of the state of the server, returning its value,
  the next state of the server and the actions it performed. \<open>seq\<close> runs two pieces one
  after the other; \<open>seqE\<close> does so for a first piece that may raise, and stops at its
  exception; \<open>say\<close> prints and logs before a piece. The pauses \<^verbatim>\<open>time.sleep(0.1)\<close> of the
  scripts are not modelled, and the token that every function hands on to \<^verbatim>\<open>call_api\<close>
  is left out of the parameters.
\<close>

type_synonym ('s, 'a) io = "'s \<Rightarrow> 'a \<times> 's \<times> event list"

definition ret :: "'a \<Rightarrow> ('s, 'a) io" where
  "ret x s = (x, s, [])"

definition seq :: "('s, 'a) io \<Rightarrow> ('a \<Rightarrow> ('s, 'b) io) \<Rightarrow> ('s, 'b) io" where
  "seq m f s =
    (case m s of (x, s1, es1) \<Rightarrow> (case f x s1 of (y, s2, es2) \<Rightarrow> (y, s2, es1 @ es2)))"

definition seqE :: "('s, exn + 'a) io \<Rightarrow> ('a \<Rightarrow> ('s, exn + 'b) io) \<Rightarrow> ('s, exn + 'b) io" where
  "seqE m f = seq m (\<lambda>r. case r of Inl e \<Rightarrow> ret (Inl e) | Inr x \<Rightarrow> f x)"

definition say :: "event list \<Rightarrow> ('s, 'a) io \<Rightarrow> ('s, 'a) io" where
  "say es m s = (case m s of (x, s1, es1) \<Rightarrow> (x, s1, es @ es1))"

text \<open>\<^verbatim>\<open>call_api(method, params, auth_token)\<close> against the server: the call is recorded,
  the server answers and moves on.\<close>

definition call ::
  "(json \<Rightarrow> 's \<Rightarrow> (exn + 'a) \<times> 's) \<Rightarrow> string \<Rightarrow> json \<Rightarrow> ('s, exn + 'a) io" where
  "call f method params s = (case f params s of (r, s1) \<Rightarrow> (r, s1, [Call method params]))"

text \<open>The value, the final state and the actions of a run.\<close>

definition result_of :: "'a \<times> 's \<times> event list \<Rightarrow> 'a" where
  "result_of r = fst r"

definition state_of :: "'a \<times> 's \<times> event list \<Rightarrow> 's" where
  "state_of r = fst (snd r)"

definition events_of :: "'a \<times> 's \<times> event list \<Rightarrow> event list" where
  "events_of r = snd (snd r)"

text \<open>The calls of a list of actions, and the methods called.\<close>

fun calls_of :: "event list \<Rightarrow> (string \<times> json) list" where
  "calls_of [] = []"
| "calls_of (Call m p # es) = (m, p) # calls_of es"
| "calls_of (Print x # es) = calls_of es"
| "calls_of (Log l x # es) = calls_of es"
| "calls_of (WriteFile f b # es) = calls_of es"

definition methods_of :: "event list \<Rightarrow> string list" where
  "methods_of es = map fst (calls_of es)"

section \<open>The rename workflow (\<^verbatim>\<open>zabbix_group_update.py\<close>)\<close>

text \<open>\<^verbatim>\<open>get_auth_token\<close>: the login request, whose raw reply is printed.\<close>

definition login_params :: json where
  "login_params =
     JObj [(''username'', JStr (ascii ''Admin'')), (''password'', JStr (ascii ''zabbix''))]"

definition get_auth_token :: "'s env \<Rightarrow> ('s, exn + str) io" where
  "get_auth_token z s =
    (case user_login z s of
       (Inl e, s1) \<Rightarrow> (Inl e, s1, [Call ''user.login'' login_params])
     | (Inr r, s1) \<Rightarrow> (r, s1, [Call ''user.login'' login_params, Print M_login_response]))"

text \<open>The list \<^verbatim>\<open>prefixes\<close> of \<^verbatim>\<open>rename_group\<close>.\<close>

definition group_prefixes :: "str list" where
  "group_prefixes = map ascii
     [''a_'', ''b_'', ''c_'', ''d_'', ''e_'', ''f_'', ''g_'', ''h_'', ''i_'', ''j_'', ''k_'', ''l_'', ''m_'',
      ''n_'', ''o_'', ''p_'', ''q_'', ''r_'', ''s_'', ''t_'', ''u_'', ''v_'', ''w_'', ''x_'', ''y_'', ''z_'']"

text \<open>The \<^verbatim>\<open>params\<close> of the group lookup by name in \<^verbatim>\<open>rename_group\<close>.\<close>

definition lookup_params :: "str \<Rightarrow> json" where
  "lookup_params name =
     JObj [(''filter'', JObj [(''name'', JStr name)]),
           (''output'', JList [JStr (ascii ''groupid''), JStr (ascii ''name'')]),
           (''selectHosts'', JList [JStr (ascii ''hostid'')])]"

text \<open>The loop \<^verbatim>\<open>for prefix in prefixes\<close>: the result is the first non-empty reply, or
  the last (empty) one.\<close>

fun try_prefixes :: "'s env \<Rightarrow> str list \<Rightarrow> str \<Rightarrow> ('s, exn + hostgroup list) io" where
  "try_prefixes z [] original_name s = ret (Inr []) s"
| "try_prefixes z (pfx # rest) original_name s =
    (let prefixed_name = pfx @ original_name in
     seqE (call (hostgroup_get z) ''hostgroup.get'' (lookup_params prefixed_name))
       (\<lambda>result.
          if result \<noteq> []
          then say [Print (M_found_prefix pfx prefixed_name),
                    Log INFO (M_found_prefix pfx prefixed_name)] (ret (Inr result))
          else try_prefixes z rest original_name)) s"

text \<open>The lookup of \<^verbatim>\<open>rename_group\<close>: the exact name first, the prefixed names if that
  reply is empty.\<close>

definition find_group :: "'s env \<Rightarrow> str \<Rightarrow> ('s, exn + hostgroup list) io" where
  "find_group z original_name =
    seqE (call (hostgroup_get z) ''hostgroup.get'' (lookup_params original_name))
      (\<lambda>result.
         if result = [] then try_prefixes z group_prefixes original_name
         else ret (Inr result))"

text \<open>The \<^verbatim>\<open>params\<close> of the \<^verbatim>\<open>host.update\<close> call of \<^verbatim>\<open>move_hosts_to_group\<close>: the
  group list of the host is the target group alone.\<close>

definition move_params :: "str \<Rightarrow> str \<Rightarrow> json" where
  "move_params hid target_groupid =
     JObj [(''hostid'', JStr hid),
           (''groups'', JList [JObj [(''groupid'', JStr target_groupid)]])]"

text \<open>The loop \<^verbatim>\<open>for hostid in hostids\<close> of \<^verbatim>\<open>move_hosts_to_group\<close>.\<close>

fun move_each :: "'s env \<Rightarrow> str \<Rightarrow> str list \<Rightarrow> ('s, exn + unit) io" where
  "move_each z target_groupid [] s = ret (Inr ()) s"
| "move_each z target_groupid (hid # rest) s =
    seqE (call (host_update z) ''host.update'' (move_params hid target_groupid))
      (\<lambda>u. move_each z target_groupid rest) s"

text \<open>The \<^verbatim>\<open>params\<close> of the lookup of the target group by name, and of its creation.\<close>

definition target_lookup_params :: "str \<Rightarrow> json" where
  "target_lookup_params target_group_name =
     JObj [(''filter'', JObj [(''name'', JStr target_group_name)]),
           (''output'', JList [JStr (ascii ''groupid'')])]"

definition create_params :: "str \<Rightarrow> json" where
  "create_params group_name = JObj [(''name'', JStr group_name)]"

definition move_hosts_to_group :: "'s env \<Rightarrow> str list \<Rightarrow> str \<Rightarrow> ('s, exn + unit) io" where
  "move_hosts_to_group z hostids target_group_name =
    (if hostids = [] then ret (Inr ())
     else
       seqE (call (hostgroup_get z) ''hostgroup.get'' (target_lookup_params target_group_name))
         (\<lambda>groups.
            case groups of
              g # gs \<Rightarrow> move_each z (groupid g) hostids
            | [] \<Rightarrow>
                seqE (call (hostgroup_create z) ''hostgroup.create''
                        (create_params target_group_name))
                  (\<lambda>created.
                     case created of
                       [] \<Rightarrow> ret (Inl IndexError)
                     | target_groupid # ids \<Rightarrow> move_each z target_groupid hostids)))"

text \<open>\<^verbatim>\<open>[g['name'] for g in result]\<close>: the first object without a name raises.\<close>

fun names_of :: "hostgroup list \<Rightarrow> exn + str list" where
  "names_of [] = Inr []"
| "names_of (g # gs) =
    (case groupname g of
       None \<Rightarrow> Inl (KeyError ''name'')
     | Some n \<Rightarrow> (case names_of gs of Inl e \<Rightarrow> Inl e | Inr ns \<Rightarrow> Inr (n # ns)))"

text \<open>The character \<^verbatim>\<open>'_'\<close>.\<close>

definition underscore :: nat where
  "underscore = 95"

text \<open>The name \<^verbatim>\<open>final_new_name\<close> of the rename, with the messages of the branch that
  prepends the prefix \<^verbatim>\<open>old_name.split('_')[0] + '_'\<close>.\<close>

definition keep_prefix :: "str \<Rightarrow> str \<Rightarrow> ('s, str) io" where
  "keep_prefix old_name new_name =
    (if underscore \<in> set old_name
     then (let pfx = takeWhile (\<lambda>c. c \<noteq> underscore) old_name @ [underscore]
           in if \<not> prefix pfx new_name
              then (let final_new_name = pfx @ new_name
                    in say [Print (M_keep_prefix new_name final_new_name),
                            Log INFO (M_keep_prefix new_name final_new_name)]
                         (ret final_new_name))
              else ret new_name)
     else ret new_name)"

text \<open>The \<^verbatim>\<open>params\<close> of the rename.\<close>

definition rename_params :: "str \<Rightarrow> str \<Rightarrow> json" where
  "rename_params gid final_new_name =
     JObj [(''groupid'', JStr gid), (''name'', JStr final_new_name)]"

text \<open>The body of the \<^verbatim>\<open>try\<close> of \<^verbatim>\<open>rename_group\<close>, from \<^verbatim>\<open>group = result[0]\<close> on.\<close>

definition rename_found :: "'s env \<Rightarrow> hostgroup \<Rightarrow> str \<Rightarrow> ('s, exn + str option) io" where
  "rename_found z grp new_name =
    (case groupname grp of
       None \<Rightarrow> ret (Inl (KeyError ''name''))
     | Some old_name \<Rightarrow>
         (let hostids = map hostid (case grouphosts grp of None \<Rightarrow> [] | Some hs \<Rightarrow> hs) in
          if new_name = offline_name
          then seqE (move_hosts_to_group z hostids offline_name)
                 (\<lambda>u. say [Print (M_moved old_name (length hostids)),
                            Log INFO (M_moved old_name (length hostids))]
                         (ret (Inr (Some (groupid grp)))))
          else
            seq (keep_prefix old_name new_name)
              (\<lambda>final_new_name.
                 seqE (call (hostgroup_update z) ''hostgroup.update''
                         (rename_params (groupid grp) final_new_name))
                   (\<lambda>u. say [Log INFO (M_renamed old_name final_new_name),
                              Print (M_renamed old_name final_new_name)]
                           (ret (Inr None))))))"

text \<open>The whole body of the \<^verbatim>\<open>try\<close> of \<^verbatim>\<open>rename_group\<close>.\<close>

definition rename_group_try :: "'s env \<Rightarrow> str \<Rightarrow> str \<Rightarrow> ('s, exn + str option) io" where
  "rename_group_try z original_name new_name =
    seqE (find_group z original_name)
      (\<lambda>result.
         case result of
           [] \<Rightarrow> say [Log WARNING (M_not_found original_name),
                       Print (M_not_found original_name)] (ret (Inr None))
         | grp # others \<Rightarrow>
             if others \<noteq> []
             then (case names_of result of
                     Inl e \<Rightarrow> ret (Inl e)
                   | Inr match_names \<Rightarrow>
                       say [Log WARNING (M_multiple original_name match_names),
                            Print (M_multiple original_name match_names)] (ret (Inr None)))
             else rename_found z grp new_name)"

text \<open>\<^verbatim>\<open>rename_group\<close>: every exception of the body is logged and turned into
  \<^verbatim>\<open>None\<close>.\<close>

definition rename_group :: "'s env \<Rightarrow> str \<Rightarrow> str \<Rightarrow> ('s, str option) io" where
  "rename_group z original_name new_name =
    seq (rename_group_try z original_name new_name)
      (\<lambda>r. case r of
              Inl e \<Rightarrow> say [Log ERROR (M_rename_failed original_name new_name e),
                             Print (M_rename_failed original_name new_name e)] (ret None)
            | Inr v \<Rightarrow> ret v)"

section \<open>Cleaning up emptied groups (\<^verbatim>\<open>zabbix_group_update.py\<close>)\<close>

text \<open>\<^verbatim>\<open>str(n)\<close> for an integer: its decimal digits, with a minus sign when negative.\<close>

function dec_digits :: "nat \<Rightarrow> str" where
  "dec_digits n = (if n < 10 then [48 + n] else dec_digits (n div 10) @ [48 + n mod 10])"
  by pat_completeness auto
termination
  by (relation "measure id") auto

declare dec_digits.simps [simp del]

definition py_str_int :: "int \<Rightarrow> str" where
  "py_str_int i = (if i < 0 then 45 # dec_digits (nat (- i)) else dec_digits (nat i))"

text \<open>The \<^verbatim>\<open>params\<close> of the \<^verbatim>\<open>host.get\<close> call of \<^verbatim>\<open>is_group_empty\<close>.\<close>

definition hosts_of_group_params :: "int \<Rightarrow> json" where
  "hosts_of_group_params groupid_int =
     JObj [(''output'', JList [JStr (ascii ''hostid'')]),
           (''groupids'', JList [JNum groupid_int]),
           (''limit'', JNum 1)]"

text \<open>\<^verbatim>\<open>is_group_empty\<close>: the parameter is \<^verbatim>\<open>None\<close> or a string.\<close>

definition is_group_empty :: "'s env \<Rightarrow> str option \<Rightarrow> ('s, bool) io" where
  "is_group_empty z gid =
    (case gid of
       None \<Rightarrow> say [Log ERROR M_check_none] (ret False)
     | Some g \<Rightarrow>
         (case py_int z g of
            None \<Rightarrow> say [Log ERROR (M_check_not_int g)] (ret False)
          | Some groupid_int \<Rightarrow>
              seq (call (host_get z) ''host.get'' (hosts_of_group_params groupid_int))
                (\<lambda>r. case r of
                        Inl e \<Rightarrow> say [Log ERROR (M_check_failed gid e)] (ret False)
                      | Inr result \<Rightarrow> ret (length result = 0))))"

text \<open>\<^verbatim>\<open>delete_empty_group\<close>.\<close>

definition delete_empty_group :: "'s env \<Rightarrow> str option \<Rightarrow> str \<Rightarrow> ('s, bool) io" where
  "delete_empty_group z gid group_name =
    (case gid of
       None \<Rightarrow> say [Log ERROR (M_delete_none group_name)] (ret False)
     | Some g \<Rightarrow>
         (case py_int z g of
            None \<Rightarrow> say [Log ERROR (M_delete_not_int g group_name)] (ret False)
          | Some groupid_int \<Rightarrow>
              seq (is_group_empty z gid)
                (\<lambda>is_empty.
                   if \<not> is_empty
                   then say [Print (M_skip_nonempty group_name),
                             Log WARNING (M_skip_nonempty group_name)] (ret False)
                   else
                     seq (call (hostgroup_delete z) ''hostgroup.delete''
                            (JList [JStr (py_str_int groupid_int)]))
                       (\<lambda>r. case r of
                               Inl e \<Rightarrow>
                                 say [Print (M_delete_failed group_name e),
                                      Log ERROR (M_delete_failed group_name e)] (ret False)
                             | Inr u \<Rightarrow>
                                 say [Print (M_deleted group_name),
                                      Log INFO (M_deleted group_name)] (ret True)))))"

text \<open>The body of the loop of \<^verbatim>\<open>cleanup_empty_groups\<close>: whether the group was deleted.\<close>

definition cleanup_one :: "'s env \<Rightarrow> str option \<Rightarrow> ('s, bool) io" where
  "cleanup_one z gid =
    (case gid of
       None \<Rightarrow> say [Log ERROR M_cleanup_none] (ret False)
     | Some g \<Rightarrow>
         (case py_int z g of
            None \<Rightarrow> say [Log ERROR (M_cleanup_not_int g)] (ret False)
          | Some groupid_int \<Rightarrow>
              seq (call (hostgroup_get z) ''hostgroup.get''
                     (JObj [(''output'', JList [JStr (ascii ''groupid''), JStr (ascii ''name'')]),
                            (''groupids'', JList [JNum groupid_int])]))
                (\<lambda>r. case r of
                        Inl e \<Rightarrow> say [Log ERROR (M_cleanup_error gid e)] (ret False)
                      | Inr group_info \<Rightarrow>
                          (case group_info of
                             [] \<Rightarrow> say [Log WARNING (M_cleanup_missing g)] (ret False)
                           | first # others \<Rightarrow>
                               (case groupname first of
                                  None \<Rightarrow>
                                    say [Log ERROR (M_cleanup_error gid (KeyError ''name''))]
                                      (ret False)
                                | Some group_name \<Rightarrow> delete_empty_group z gid group_name)))))"

fun cleanup_each :: "'s env \<Rightarrow> str option list \<Rightarrow> nat \<Rightarrow> ('s, nat) io" where
  "cleanup_each z [] deleted_count s = ret deleted_count s"
| "cleanup_each z (gid # rest) deleted_count s =
    seq (cleanup_one z gid)
      (\<lambda>deleted. cleanup_each z rest (if deleted then deleted_count + 1 else deleted_count)) s"

definition cleanup_empty_groups :: "'s env \<Rightarrow> str option list \<Rightarrow> ('s, nat) io" where
  "cleanup_empty_groups z group_ids_to_check =
    (if group_ids_to_check = [] then ret 0
     else
       say [Print (M_cleanup_start (length group_ids_to_check))]
         (seq (cleanup_each z group_ids_to_check 0)
            (\<lambda>deleted_count.
               if deleted_count > 0
               then say [Print (M_cleanup_done deleted_count),
                         Log INFO (M_cleanup_done deleted_count)] (ret deleted_count)
               else say [Print M_cleanup_nothing] (ret deleted_count))))"

section \<open>Backup and the main program (\<^verbatim>\<open>zabbix_group_update.py\<close>)\<close>

text \<open>The loop of \<^verbatim>\<open>backup_all_groups_and_hosts\<close>: \<^verbatim>\<open>backup[group['name']] = ...\<close> replaces
  the entry of a name that is already there and appends a new one otherwise.\<close>

fun backup_each :: "hostgroup list \<Rightarrow> snapshot \<Rightarrow> ('s, exn + snapshot) io" where
  "backup_each [] backup s = ret (Inr backup) s"
| "backup_each (g # rest) backup s =
    (case groupname g of
       None \<Rightarrow> ret (Inl (KeyError ''name''))
     | Some n \<Rightarrow>
         (let hs = (case grouphosts g of None \<Rightarrow> [] | Some hs \<Rightarrow> hs)
          in say [Print (M_backup_group (groupname g) (groupid g) (length hs))]
               (backup_each rest
                  (AList.update n \<lparr>snap_groupid = groupid g, snap_hosts = hs\<rparr> backup)))) s"

text \<open>\<^verbatim>\<open>backup_all_groups_and_hosts\<close>; \<open>ts\<close> is the formatted time of the clock.\<close>

definition backup_all_groups_and_hosts :: "'s env \<Rightarrow> str \<Rightarrow> ('s, exn + str) io" where
  "backup_all_groups_and_hosts z ts =
    say [Print M_backup_start]
      (seqE (call (hostgroup_get z) ''hostgroup.get''
               (JObj [(''output'', JList [JStr (ascii ''groupid''), JStr (ascii ''name'')]),
                      (''selectHosts'', JList [JStr (ascii ''hostid''), JStr (ascii ''name'')])]))
         (\<lambda>all_groups.
            seqE (backup_each all_groups [])
              (\<lambda>backup.
                 (let backup_file = ascii ''group_backup_'' @ ts @ ascii ''.json''
                  in say [WriteFile backup_file backup, Log INFO (M_backup_done backup_file),
                          Print (M_backup_done backup_file)] (ret (Inr backup_file))))))"

text \<open>\<^verbatim>\<open>str.isspace\<close> of a code point, and \<^verbatim>\<open>str.strip()\<close>.\<close>

definition py_isspace :: "nat \<Rightarrow> bool" where
  "py_isspace c \<longleftrightarrow>
     (9 \<le> c \<and> c \<le> 13) \<or> (28 \<le> c \<and> c \<le> 32) \<or> c = 133 \<or> c = 160 \<or> c = 5760 \<or>
     (8192 \<le> c \<and> c \<le> 8202) \<or> c = 8232 \<or> c = 8233 \<or> c = 8239 \<or> c = 8287 \<or> c = 12288"

definition py_strip :: "str \<Rightarrow> str" where
  "py_strip s = rev (dropWhile py_isspace (rev (dropWhile py_isspace s)))"

text \<open>A row of \<^verbatim>\<open>csv.DictReader\<close> over the two columns of \<^verbatim>\<open>group_changes.csv\<close>: a
  column is \<^verbatim>\<open>None\<close> when the line is too short.\<close>

record csv_row =
  orig_col :: "str option"
  new_col :: "str option"

text \<open>The loop \<^verbatim>\<open>for row in reader\<close> of \<^verbatim>\<open>main\<close>, collecting \<^verbatim>\<open>rows\<close>. A row whose
  original name is \<^verbatim>\<open>None\<close> raises at \<^verbatim>\<open>.strip()\<close>. The set \<^verbatim>\<open>all_orig_names\<close> is
  never read and is left out.\<close>

fun read_rows ::
  "csv_row list \<Rightarrow> (str list \<times> str) list \<Rightarrow> ('s, exn + (str list \<times> str) list) io" where
  "read_rows [] rows s = ret (Inr rows) s"
| "read_rows (row # rest) rows s =
    say [Print (M_csv_row (orig_col row) (new_col row))]
      (case new_col row of
         None \<Rightarrow>
           say [Print (M_csv_skip_empty (orig_col row) (new_col row))] (read_rows rest rows)
       | Some new_name_raw \<Rightarrow>
           if py_strip new_name_raw = []
           then say [Print (M_csv_skip_empty (orig_col row) (new_col row))] (read_rows rest rows)
           else
             (let new_name = py_strip new_name_raw in
              if new_name = no_change_name then read_rows rest rows
              else
                (case orig_col row of
                   None \<Rightarrow> ret (Inl AttributeError)
                 | Some orig_raw \<Rightarrow>
                     (let orig_name = py_strip orig_raw in
                      if orig_name = [] then read_rows rest rows
                      else read_rows rest (rows @ [([orig_name], new_name)]))))) s"

text \<open>The inner loop \<^verbatim>\<open>for orig_name in orig_names\<close>; \<open>cleanup\<close> holds the distinct ids
  added to the set \<^verbatim>\<open>groups_to_cleanup\<close>, in the order of their first insertion.\<close>

fun rename_names :: "'s env \<Rightarrow> str list \<Rightarrow> str \<Rightarrow> str list \<Rightarrow> ('s, str list) io" where
  "rename_names z [] new_name cleanup s = ret cleanup s"
| "rename_names z (orig_name # rest) new_name cleanup s =
    say [Print (M_modifying orig_name new_name)]
      (seq (rename_group z orig_name new_name)
         (\<lambda>original_groupid.
            rename_names z rest new_name
              (case original_groupid of
                 None \<Rightarrow> cleanup
               | Some g \<Rightarrow>
                   if g \<noteq> [] \<and> new_name = offline_name \<and> g \<notin> set cleanup
                   then cleanup @ [g] else cleanup))) s"

text \<open>The outer loop \<^verbatim>\<open>for orig_names, new_name in rows\<close>.\<close>

fun rename_rows ::
  "'s env \<Rightarrow> (str list \<times> str) list \<Rightarrow> nat \<Rightarrow> nat \<Rightarrow> str list \<Rightarrow> ('s, str list) io" where
  "rename_rows z [] count total_rows cleanup s = ret cleanup s"
| "rename_rows z ((orig_names, new_name) # rest) count total_rows cleanup s =
    say [Print (M_processing (count + 1) total_rows new_name orig_names)]
      (seq (rename_names z orig_names new_name cleanup)
         (\<lambda>cleanup1. rename_rows z rest (count + 1) total_rows cleanup1)) s"

text \<open>\<^verbatim>\<open>main\<close>, given the rows of the CSV file and the time of the clock.\<close>

definition main :: "'s env \<Rightarrow> csv_row list \<Rightarrow> str \<Rightarrow> ('s, exn + unit) io" where
  "main z csv ts =
    seqE (get_auth_token z)
      (\<lambda>tok.
         say [Print M_csv_header]
           (seqE (read_rows csv [])
              (\<lambda>rows.
                 seqE (backup_all_groups_and_hosts z ts)
                   (\<lambda>backup_file.
                      seq (rename_rows z rows 0 (length rows) [])
                        (\<lambda>groups_to_cleanup.
                           seq (if groups_to_cleanup \<noteq> []
                                then say [Print M_cleanup_begin]
                                       (cleanup_empty_groups z
                                          (map Some (py_list_of_set z groups_to_cleanup)))
                                else say [Print M_cleanup_none_needed] (ret 0))
                             (\<lambda>n. say [Print (M_all_done backup_file)] (ret (Inr ()))))))))"

section \<open>Rollback (\<^verbatim>\<open>rollback_script.py\<close>)\<close>

text \<open>The list \<^verbatim>\<open>new_group_ids\<close> of \<^verbatim>\<open>restore_hosts_to_group\<close>, from the ids of the
  offline groups, the target group and the host's current groups.\<close>

definition new_group_ids :: "str set \<Rightarrow> str \<Rightarrow> str list \<Rightarrow> str list" where
  "new_group_ids offline_groupids target_groupid group_ids =
    (let kept = filter (\<lambda>gid. gid \<notin> offline_groupids) group_ids;
         added = (if target_groupid \<notin> set kept then kept @ [target_groupid] else kept)
     in if added = [] then [target_groupid] else added)"

text \<open>The \<^verbatim>\<open>params\<close> of the two calls of the loop of \<^verbatim>\<open>restore_hosts_to_group\<close>.\<close>

definition host_groups_params :: "str \<Rightarrow> json" where
  "host_groups_params hid =
     JObj [(''output'', JList [JStr (ascii ''hostid'')]),
           (''selectGroups'', JList [JStr (ascii ''groupid'')]),
           (''hostids'', JStr hid)]"

definition host_update_params :: "str \<Rightarrow> str list \<Rightarrow> json" where
  "host_update_params hid gids =
     JObj [(''hostid'', JStr hid),
           (''groups'', JList (map (\<lambda>gid. JObj [(''groupid'', JStr gid)]) gids))]"

text \<open>The body of the loop \<^verbatim>\<open>for host in hosts\<close>: every exception is caught, printed and
  logged.\<close>

definition restore_host :: "'s env \<Rightarrow> str set \<Rightarrow> str \<Rightarrow> hostref \<Rightarrow> ('s, unit) io" where
  "restore_host z offline_groupids target_groupid h =
    (let hid = hostid h;
         hname = (case hostname h of None \<Rightarrow> unknown_name | Some n \<Rightarrow> n)
     in seq (call (host_get z) ''host.get'' (host_groups_params hid))
          (\<lambda>r. case r of
                  Inl ex \<Rightarrow>
                    say [Print (M_restore_failed hid hname ex),
                         Log ERROR (M_restore_failed hid hname ex)] (ret ())
                | Inr host_info \<Rightarrow>
                    (case host_info of
                       [] \<Rightarrow> ret ()
                     | info # others \<Rightarrow>
                         (let existing_groups =
                                (case host_groups info of None \<Rightarrow> [] | Some gs \<Rightarrow> gs);
                              group_ids = map groupid existing_groups
                          in seq (call (host_update z) ''host.update''
                                    (host_update_params hid
                                       (new_group_ids offline_groupids target_groupid group_ids)))
                               (\<lambda>r2. case r2 of
                                        Inl ex \<Rightarrow>
                                          say [Print (M_restore_failed hid hname ex),
                                               Log ERROR (M_restore_failed hid hname ex)] (ret ())
                                      | Inr u \<Rightarrow>
                                          say [Print (M_restore_ok hid hname),
                                               Log INFO (M_restore_ok hid hname)] (ret ()))))))"

fun restore_each :: "'s env \<Rightarrow> str set \<Rightarrow> str \<Rightarrow> hostref list \<Rightarrow> ('s, unit) io" where
  "restore_each z offline_groupids target_groupid [] s = ret () s"
| "restore_each z offline_groupids target_groupid (h # rest) s =
     seq (restore_host z offline_groupids target_groupid h)
       (\<lambda>u. restore_each z offline_groupids target_groupid rest) s"

text \<open>The \<^verbatim>\<open>params\<close> of the lookup of the offline groups.\<close>

definition offline_lookup_params :: json where
  "offline_lookup_params = target_lookup_params offline_name"

text \<open>\<^verbatim>\<open>restore_hosts_to_group\<close>: the lookup of the offline groups is outside the
  \<^verbatim>\<open>try\<close> of the loop, so its exception leaves the function.\<close>

definition restore_hosts_to_group ::
  "'s env \<Rightarrow> hostref list \<Rightarrow> str \<Rightarrow> str \<Rightarrow> ('s, exn + unit) io" where
  "restore_hosts_to_group z hosts target_groupid group_name =
    (if hosts = [] then say [Print (M_restore_skip group_name)] (ret (Inr ()))
     else
       say [Print (M_restore_start (length hosts) group_name)]
         (seqE (call (hostgroup_get z) ''hostgroup.get'' offline_lookup_params)
            (\<lambda>offline_groups.
               seq (restore_each z (groupid ` set offline_groups) target_groupid hosts)
                 (\<lambda>u. ret (Inr ())))))"

text \<open>The branch of \<^verbatim>\<open>rollback_group_names\<close> for a group id that is gone: the inner
  \<^verbatim>\<open>try\<close>, returning whether the group counts as a success.\<close>

definition recreate_group :: "'s env \<Rightarrow> str \<Rightarrow> snapshot_group \<Rightarrow> ('s, bool) io" where
  "recreate_group z old_name info =
    seq (seqE (call (hostgroup_create z) ''hostgroup.create'' (create_params old_name))
           (\<lambda>created.
              case created of
                [] \<Rightarrow> ret (Inl IndexError)
              | new_groupid # ids \<Rightarrow>
                  say [Print (M_rollback_recreated old_name new_groupid),
                       Log INFO (M_rollback_recreated old_name new_groupid)]
                    (restore_hosts_to_group z (snap_hosts info) new_groupid old_name)))
      (\<lambda>r. case r of
              Inl e2 \<Rightarrow>
                say [Print (M_rollback_recreate_failed old_name e2),
                     Log ERROR (M_rollback_recreate_failed old_name e2)] (ret False)
            | Inr u \<Rightarrow> ret True)"

text \<open>The branch for a group id that still exists, from \<^verbatim>\<open>current_name = result[0]['name']\<close>
  on: the exception that reaches the outer \<^verbatim>\<open>except\<close>, or success.\<close>

definition restore_and_rename ::
  "'s env \<Rightarrow> str \<Rightarrow> snapshot_group \<Rightarrow> hostgroup \<Rightarrow> ('s, exn + unit) io" where
  "restore_and_rename z old_name info current =
    (case groupname current of
       None \<Rightarrow> ret (Inl (KeyError ''name''))
     | Some current_name \<Rightarrow>
         say [Print (M_rollback_check_name (Some current_name) old_name)]
           (seqE (restore_hosts_to_group z (snap_hosts info) (snap_groupid info) old_name)
              (\<lambda>u. if current_name \<noteq> old_name
                    then seqE (call (hostgroup_update z) ''hostgroup.update''
                                 (rename_params (snap_groupid info) old_name))
                           (\<lambda>u2. say [Print (M_rollback_renamed (Some current_name) old_name),
                                       Log INFO (M_rollback_renamed (Some current_name) old_name)]
                                    (ret (Inr ())))
                    else say [Print (M_rollback_same_name old_name)] (ret (Inr ())))))"

text \<open>The \<^verbatim>\<open>params\<close> of the lookup of a group by the id of the snapshot.\<close>

definition by_id_params :: "str \<Rightarrow> json" where
  "by_id_params gid =
     JObj [(''output'', JList [JStr (ascii ''groupid''), JStr (ascii ''name'')]),
           (''groupids'', JList [JStr gid])]"

text \<open>The body of the loop \<^verbatim>\<open>for old_name, info in backup.items()\<close>: whether the group
  counts as a success (\<^verbatim>\<open>success_count += 1\<close>) or as a failure (\<^verbatim>\<open>error_count += 1\<close>).\<close>

definition rollback_group :: "'s env \<Rightarrow> str \<Rightarrow> snapshot_group \<Rightarrow> ('s, bool) io" where
  "rollback_group z old_name info =
    say [Print (M_rollback_check old_name (snap_groupid info))]
      (seq (seqE (call (hostgroup_get z) ''hostgroup.get'' (by_id_params (snap_groupid info)))
              (\<lambda>result.
                 case result of
                   [] \<Rightarrow>
                     say [Print (M_rollback_missing (snap_groupid info) old_name)]
                       (seq (recreate_group z old_name info) (\<lambda>ok. ret (Inr ok)))
                 | current # others \<Rightarrow>
                     seqE (restore_and_rename z old_name info current) (\<lambda>u. ret (Inr True))))
         (\<lambda>r. case r of
                 Inl e \<Rightarrow>
                   say [Print (M_rollback_failed old_name e),
                        Log ERROR (M_rollback_failed old_name e)] (ret False)
               | Inr ok \<Rightarrow> ret ok))"

fun rollback_each :: "'s env \<Rightarrow> snapshot \<Rightarrow> nat \<times> nat \<Rightarrow> ('s, nat \<times> nat) io" where
  "rollback_each z [] counts s = ret counts s"
| "rollback_each z ((old_name, info) # rest) (success_count, error_count) s =
    seq (rollback_group z old_name info)
      (\<lambda>ok. rollback_each z rest
               (if ok then (success_count + 1, error_count)
                else (success_count, error_count + 1))) s"

text \<open>\<^verbatim>\<open>rollback_group_names\<close>, given the snapshot read from the backup file. The Python
  function returns nothing and prints its two counters; the model also returns them.\<close>

definition rollback_group_names :: "'s env \<Rightarrow> str \<Rightarrow> snapshot \<Rightarrow> ('s, nat \<times> nat) io" where
  "rollback_group_names z backup_file backup =
    say [Print (M_rollback_start backup_file), Print (M_rollback_count (length backup))]
      (seq (rollback_each z backup (0, 0))
         (\<lambda>(success_count, error_count).
            say ([Print M_rollback_done, Print (M_rollback_successes success_count),
                  Print (M_rollback_failures error_count)] @
                 (if error_count > 0 then [Print M_rollback_see_log] else []))
              (ret (success_count, error_count))))"

section \<open>A small server for examples\<close>

text \<open>A sample of \<^verbatim>\<open>int()\<close>: the strings of ASCII decimal digits, on which it agrees with
  Python.\<close>

fun ascii_nat :: "str \<Rightarrow> nat \<Rightarrow> nat option" where
  "ascii_nat [] acc = Some acc"
| "ascii_nat (c # cs) acc =
    (if 48 \<le> c \<and> c \<le> 57 then ascii_nat cs (10 * acc + (c - 48)) else None)"

definition demo_int :: "str \<Rightarrow> int option" where
  "demo_int s = (if s = [] then None else map_option int (ascii_nat s 0))"

text \<open>The replies to \<^verbatim>\<open>hostgroup.get\<close> and \<^verbatim>\<open>host.get\<close> are given as functions of the
  \<^verbatim>\<open>params\<close>; every other call succeeds, a created group gets the id 99; the state
  counts the calls served.\<close>

definition demo_env ::
  "(json \<Rightarrow> exn + hostgroup list) \<Rightarrow> (json \<Rightarrow> exn + host list) \<Rightarrow> nat env" where
  "demo_env groups_reply hosts_reply =
    \<lparr>user_login = (\<lambda>s. (Inr (Inr (ascii ''token'')), Suc s)),
     hostgroup_get = (\<lambda>p s. (groups_reply p, Suc s)),
     hostgroup_create = (\<lambda>p s. (Inr [ascii ''99''], Suc s)),
     hostgroup_update = (\<lambda>p s. (Inr (), Suc s)),
     hostgroup_delete = (\<lambda>p s. (Inr (), Suc s)),
     host_get = (\<lambda>p s. (hosts_reply p, Suc s)),
     host_update = (\<lambda>p s. (Inr (), Suc s)),
     py_int = demo_int,
     py_list_of_set = (\<lambda>xs. xs)\<rparr>"

text \<open>A server with the group \<^verbatim>\<open>x_web\<close> (id 12), whose only host 101 is in the offline
  group (id 7), the group \<^verbatim>\<open>db\<close> (id 15) without hosts, and two groups that both answer
  to the name \<^verbatim>\<open>dup\<close> (ids 20 and 21); the host 103 is in the offline group and in the
  groups 30 and 12; asking for the hosts of the group 13 fails.\<close>

definition web_group :: hostgroup where
  "web_group = \<lparr>groupid = ascii ''12'', groupname = Some (ascii ''x_web''),
                 grouphosts = Some [\<lparr>hostid = ascii ''101'', hostname = None\<rparr>]\<rparr>"

definition offline_group :: hostgroup where
  "offline_group = \<lparr>groupid = ascii ''7'', groupname = None, grouphosts = None\<rparr>"

definition db_group :: hostgroup where
  "db_group = \<lparr>groupid = ascii ''15'', groupname = Some (ascii ''db''), grouphosts = Some []\<rparr>"

definition dup_groups :: "hostgroup list" where
  "dup_groups =
     [\<lparr>groupid = ascii ''20'', groupname = Some (ascii ''dup''), grouphosts = Some []\<rparr>,
      \<lparr>groupid = ascii ''21'', groupname = Some (ascii ''dup''), grouphosts = Some []\<rparr>]"

definition web_groups_reply :: "json \<Rightarrow> exn + hostgroup list" where
  "web_groups_reply p =
    (if p = lookup_params (ascii ''x_web'') \<or> p = by_id_params (ascii ''12'') then Inr [web_group]
     else if p = lookup_params (ascii ''db'') then Inr [db_group]
     else if p = lookup_params (ascii ''dup'') then Inr dup_groups
     else if p = offline_lookup_params then Inr [offline_group]
     else Inr [])"

definition host103 :: host where
  "host103 =
     \<lparr>host_hostid = ascii ''103'',
      host_groups = Some [offline_group,
                          \<lparr>groupid = ascii ''30'', groupname = None, grouphosts = None\<rparr>,
                          \<lparr>groupid = ascii ''12'', groupname = None, grouphosts = None\<rparr>]\<rparr>"

definition web_hosts_reply :: "json \<Rightarrow> exn + host list" where
  "web_hosts_reply p =
    (if p = host_groups_params (ascii ''101'')
     then Inr [\<lparr>host_hostid = ascii ''101'', host_groups = Some [offline_group]\<rparr>]
     else if p = host_groups_params (ascii ''103'') then Inr [host103]
     else if p = hosts_of_group_params 12
     then Inr [\<lparr>host_hostid = ascii ''101'', host_groups = None\<rparr>]
     else if p = hosts_of_group_params 13 then Inl ConnectionError
     else Inr [])"

definition web_env :: "nat env" where
  "web_env = demo_env web_groups_reply web_hosts_reply"

text \<open>Three hosts of a snapshot: 101 and 103 are on the server, 102 is not.\<close>

definition h103 :: hostref where
  "h103 = \<lparr>hostid = ascii ''103'', hostname = None\<rparr>"

definition h101 :: hostref where
  "h101 = \<lparr>hostid = ascii ''101'', hostname = None\<rparr>"

definition h102 :: hostref where
  "h102 = \<lparr>hostid = ascii ''102'', hostname = None\<rparr>"

text \<open>The row \<^verbatim>\<open>(\<close>U+6D4B U+8BD5 U+7EC4\<^verbatim>\<open>, \<close>U+65E0 U+9700 U+4FEE U+6539\<^verbatim>\<open>)\<close> of a CSV file, the time of a
  run, and a client of \<^verbatim>\<open>template_replacer.py\<close> after its login.\<close>

definition test_row :: csv_row where
  "test_row = \<lparr>orig_col = Some [27979, 35797, 32452], new_col = Some no_change_name\<rparr>"

definition test_time :: str where
  "test_time = ascii ''20250701_160856''"

definition test_client :: zabbix_api where
  "test_client = \<lparr>auth_token = Some (ascii ''token''), request_id = 2, config_timeout = 30\<rparr>"

text \<open>A reply with the status 500 whose body is a JSON-RPC result, and a reply with the
  status 200 whose body has neither a result nor an error.\<close>

definition status_500_with_result :: network where
  "status_500_with_result =
     (\<lambda>r. Response 500
        (Some (JObj [(''jsonrpc'', JStr (ascii ''2.0'')), (''result'', JList []), (''id'', JNum 1)])))"

definition status_200_without_result :: network where
  "status_200_without_result =
     (\<lambda>r. Response 200 (Some (JObj [(''jsonrpc'', JStr (ascii ''2.0'')), (''id'', JNum 1)])))"

text \<open>Four variants of that server: one whose lookup of the groups named
  \<^verbatim>\<open>'\<close>U+4E0B U+7EBF\<^verbatim>\<open>'\<close> fails, one that has no such group, one that refuses every
  \<^verbatim>\<open>host.update\<close>, and one that refuses every \<^verbatim>\<open>hostgroup.update\<close>.\<close>

definition offline_down_env :: "nat env" where
  "offline_down_env =
     web_env\<lparr>hostgroup_get :=
       (\<lambda>p s. (if p = JObj [(''filter'', JObj [(''name'', JStr [19979, 32447])]),
                                (''output'', JList [JStr (ascii ''groupid'')])]
                    then Inl ConnectionError else web_groups_reply p, Suc s))\<rparr>"

definition no_offline_env :: "nat env" where
  "no_offline_env =
     web_env\<lparr>hostgroup_get :=
       (\<lambda>p s. (if p = JObj [(''filter'', JObj [(''name'', JStr [19979, 32447])]),
                                (''output'', JList [JStr (ascii ''groupid'')])]
                    then Inr [] else web_groups_reply p, Suc s))\<rparr>"

definition refusing_env :: "nat env" where
  "refusing_env = web_env\<lparr>host_update := (\<lambda>p s. (Inl ConnectionError, Suc s))\<rparr>"

definition rename_refusing_env :: "nat env" where
  "rename_refusing_env = web_env\<lparr>hostgroup_update := (\<lambda>p s. (Inl ConnectionError, Suc s))\<rparr>"

section \<open>Basic facts\<close>

lemmas io_defs = ret_def seq_def seqE_def say_def call_def result_of_def state_of_def events_of_def

lemma calls_of_append [simp]: "calls_of (es @ fs) = calls_of es @ calls_of fs"
  by (induction es rule: calls_of.induct) simp_all

lemma result_ret [simp]: "result_of (ret x s) = x"
  and state_ret [simp]: "state_of (ret x s) = s"
  and events_ret [simp]: "events_of (ret x s) = []"
  by (simp_all add: io_defs)

lemma result_say [simp]: "result_of (say es m s) = result_of (m s)"
  and state_say [simp]: "state_of (say es m s) = state_of (m s)"
  and events_say [simp]: "events_of (say es m s) = es @ events_of (m s)"
  by (simp_all add: io_defs split: prod.splits)

lemma result_call [simp]: "result_of (call f m p s) = fst (f p s)"
  and state_call [simp]: "state_of (call f m p s) = snd (f p s)"
  and events_call [simp]: "events_of (call f m p s) = [Call m p]"
  by (simp_all add: io_defs split: prod.splits)

lemma result_seq [simp]: "result_of (seq m f s) = result_of (f (result_of (m s)) (state_of (m s)))"
  and state_seq [simp]: "state_of (seq m f s) = state_of (f (result_of (m s)) (state_of (m s)))"
  and events_seq [simp]:
    "events_of (seq m f s) = events_of (m s) @ events_of (f (result_of (m s)) (state_of (m s)))"
  by (simp_all add: io_defs split: prod.splits)

lemma result_seqE [simp]:
  "result_of (seqE m f s) =
     (case result_of (m s) of Inl e \<Rightarrow> Inl e | Inr x \<Rightarrow> result_of (f x (state_of (m s))))"
  and state_seqE [simp]:
  "state_of (seqE m f s) =
     (case result_of (m s) of Inl e \<Rightarrow> state_of (m s) | Inr x \<Rightarrow> state_of (f x (state_of (m s))))"
  and events_seqE [simp]:
  "events_of (seqE m f s) =
     events_of (m s) @ (case result_of (m s) of Inl e \<Rightarrow> [] | Inr x \<Rightarrow> events_of (f x (state_of (m s))))"
  by (simp_all add: seqE_def split: sum.splits)

lemma methods_of_simps [simp]:
  "methods_of [] = []"
  "methods_of (Call m p # es) = m # methods_of es"
  "methods_of (Print x # es) = methods_of es"
  "methods_of (Log l x # es) = methods_of es"
  "methods_of (WriteFile f b # es) = methods_of es"
  "methods_of (es @ fs) = methods_of es @ methods_of fs"
  by (simp_all add: methods_of_def)

lemma web_env_simps [simp]:
  "py_int web_env = demo_int"
  "host_get web_env = (\<lambda>p s. (web_hosts_reply p, Suc s))"
  "hostgroup_get web_env = (\<lambda>p s. (web_groups_reply p, Suc s))"
  "hostgroup_create web_env = (\<lambda>p s. (Inr [ascii ''99''], Suc s))"
  "hostgroup_update web_env = (\<lambda>p s. (Inr (), Suc s))"
  "hostgroup_delete web_env = (\<lambda>p s. (Inr (), Suc s))"
  "host_update web_env = (\<lambda>p s. (Inr (), Suc s))"
  by (simp_all add: web_env_def demo_env_def)

lemma demo_int_12 [simp]: "demo_int (ascii ''12'') = Some 12"
  by (simp add: demo_int_def ascii_def)

lemma demo_int_13 [simp]: "demo_int (ascii ''13'') = Some 13"
  by (simp add: demo_int_def ascii_def)

lemma web_replies [simp]:
  "web_groups_reply offline_lookup_params = Inr [offline_group]"
  "web_groups_reply (by_id_params (ascii ''12'')) = Inr [web_group]"
  "web_hosts_reply (host_groups_params (ascii ''101'')) =
     Inr [\<lparr>host_hostid = ascii ''101'', host_groups = Some [offline_group]\<rparr>]"
  "web_hosts_reply (host_groups_params (ascii ''102'')) = Inr []"
  by (simp_all add: web_groups_reply_def web_hosts_reply_def offline_lookup_params_def
      target_lookup_params_def lookup_params_def by_id_params_def host_groups_params_def
      hosts_of_group_params_def ascii_def)


section \<open>Cleanup never deletes a group that is not known to be empty\<close>

text \<open>
  C4. Whenever \<^verbatim>\<open>is_group_empty\<close> returns \<^verbatim>\<open>False\<close> for a group id, in a given state of
  the server, \<^verbatim>\<open>delete_empty_group\<close> returns \<^verbatim>\<open>False\<close> there and issues no
  \<^verbatim>\<open>hostgroup.delete\<close> call: its only calls are those of the emptiness check, and it
  leaves the server in the state the check leaves it in.
\<close>

theorem delete_empty_group_nonempty:
  assumes "\<not> result_of (is_group_empty z gid s)"
  shows "\<not> result_of (delete_empty_group z gid group_name s) \<and>
         ''hostgroup.delete'' \<notin> set (methods_of (events_of (delete_empty_group z gid group_name s))) \<and>
         state_of (delete_empty_group z gid group_name s) = state_of (is_group_empty z gid s) \<and>
         calls_of (events_of (delete_empty_group z gid group_name s)) =
           calls_of (events_of (is_group_empty z gid s))"
  using assms
  by (auto simp: delete_empty_group_def is_group_empty_def io_defs methods_of_def
      split: option.splits prod.splits sum.splits)

theorem delete_empty_group_nonempty_witness:
  "\<not> result_of (is_group_empty web_env (Some (ascii ''12'')) 0) \<and>
   \<not> result_of (delete_empty_group web_env (Some (ascii ''12'')) (ascii ''x_web'') 0) \<and>
   ''hostgroup.delete'' \<notin> set (methods_of (events_of
       (delete_empty_group web_env (Some (ascii ''12'')) (ascii ''x_web'') 0)))"
proof -
  have h: "\<not> result_of (is_group_empty web_env (Some (ascii ''12'')) 0)"
    by (simp add: is_group_empty_def io_defs web_hosts_reply_def)
  show ?thesis
    using h delete_empty_group_nonempty [OF h, of "ascii ''x_web''"] by simp
qed

text \<open>
  C9. If the \<^verbatim>\<open>host.get\<close> call of \<^verbatim>\<open>is_group_empty\<close> raises, \<^verbatim>\<open>is_group_empty\<close> returns
  \<^verbatim>\<open>False\<close>, and \<^verbatim>\<open>delete_empty_group\<close> returns \<^verbatim>\<open>False\<close> without a
  \<^verbatim>\<open>hostgroup.delete\<close> call. Conversely \<^verbatim>\<open>delete_empty_group\<close> issues a
  \<^verbatim>\<open>hostgroup.delete\<close> call only if the group id is a string that \<^verbatim>\<open>int()\<close> accepts and
  the server answered the \<^verbatim>\<open>host.get\<close> call of the check with an empty list.
\<close>

theorem delete_only_after_empty_reply:
  "(py_int z g = Some n \<and> fst (host_get z (hosts_of_group_params n) s) = Inl e \<longrightarrow>
      \<not> result_of (is_group_empty z (Some g) s) \<and>
      \<not> result_of (delete_empty_group z (Some g) group_name s) \<and>
      ''hostgroup.delete'' \<notin>
        set (methods_of (events_of (delete_empty_group z (Some g) group_name s)))) \<and>
   (''hostgroup.delete'' \<in> set (methods_of (events_of (delete_empty_group z gid group_name s))) \<longrightarrow>
      (\<exists>g' n' s1. gid = Some g' \<and> py_int z g' = Some n' \<and>
         host_get z (hosts_of_group_params n') s = (Inr [], s1)))"
  by (auto simp: delete_empty_group_def is_group_empty_def io_defs methods_of_def
      split: option.splits prod.splits sum.splits)

theorem delete_only_after_empty_reply_witness:
  "py_int web_env (ascii ''13'') = Some 13 \<and>
   fst (host_get web_env (hosts_of_group_params 13) 0) = Inl ConnectionError \<and>
   \<not> result_of (is_group_empty web_env (Some (ascii ''13'')) 0) \<and>
   \<not> result_of (delete_empty_group web_env (Some (ascii ''13'')) (ascii ''gone'') 0) \<and>
   ''hostgroup.delete'' \<notin>
     set (methods_of (events_of (delete_empty_group web_env (Some (ascii ''13'')) (ascii ''gone'') 0))) \<and>
   ''hostgroup.delete'' \<in>
     set (methods_of (events_of (delete_empty_group web_env (Some (ascii ''14'')) (ascii ''gone'') 0))) \<and>
   (\<exists>g' n' s1. Some (ascii ''14'') = Some g' \<and> py_int web_env g' = Some n' \<and>
      host_get web_env (hosts_of_group_params n') 0 = (Inr [], s1))"
proof -
  have h1: "py_int web_env (ascii ''13'') = Some 13 \<and>
            fst (host_get web_env (hosts_of_group_params 13) 0) = Inl ConnectionError"
    by (simp add: web_hosts_reply_def hosts_of_group_params_def host_groups_params_def)
  have i14: "demo_int (ascii ''14'') = Some 14"
    by (simp add: demo_int_def ascii_def)
  have h2: "''hostgroup.delete'' \<in>
     set (methods_of (events_of (delete_empty_group web_env (Some (ascii ''14'')) (ascii ''gone'') 0)))"
    by (simp add: delete_empty_group_def is_group_empty_def io_defs methods_of_def i14
        web_hosts_reply_def hosts_of_group_params_def host_groups_params_def)
  from delete_only_after_empty_reply
         [of web_env "ascii ''13''" 13 0 ConnectionError "ascii ''gone''" "Some (ascii ''14'')"]
  show ?thesis using h1 h2 by blast
qed

section \<open>Restoring the hosts of a group\<close>

lemma new_group_ids_props:
  "new_group_ids off tgt cur =
     filter (\<lambda>gid. gid \<notin> off) cur @ (if tgt \<in> set (filter (\<lambda>gid. gid \<notin> off) cur) then [] else [tgt]) \<and>
   new_group_ids off tgt cur \<noteq> [] \<and>
   (filter (\<lambda>gid. gid \<notin> off) cur = [] \<longrightarrow> new_group_ids off tgt cur = [tgt])"
  by (auto simp: new_group_ids_def Let_def filter_empty_conv)

lemma restore_host_methods:
  "set (methods_of (events_of (restore_host z off tgt h s))) \<subseteq> {''host.get'', ''host.update''}"
  by (simp add: restore_host_def Let_def split: sum.splits list.splits)

lemma restore_each_methods:
  "set (methods_of (events_of (restore_each z off tgt hs s))) \<subseteq> {''host.get'', ''host.update''}"
proof (induction hs arbitrary: s)
  case Nil
  then show ?case by simp
next
  case (Cons h hs)
  show ?case
    using restore_host_methods [of z off tgt h s] Cons.IH by simp
qed

lemma restore_hosts_methods:
  "set (methods_of (events_of (restore_hosts_to_group z hs tgt n s)))
     \<subseteq> {''hostgroup.get'', ''host.get'', ''host.update''}"
  using restore_each_methods [of z _ tgt hs]
  by (auto simp: restore_hosts_to_group_def split: sum.splits)

lemma restore_each_append:
  "restore_each z off tgt (pre @ post) s =
     seq (restore_each z off tgt pre) (\<lambda>u. restore_each z off tgt post) s"
  by (induction pre arbitrary: s) (auto simp: io_defs split: prod.splits)

lemma restore_host_found:
  assumes "host_get z (host_groups_params (hostid h)) s = (Inr (info # others), s1)"
  shows "\<exists>after. events_of (restore_host z off tgt h s) =
           [Call ''host.get'' (host_groups_params (hostid h)),
            Call ''host.update'' (host_update_params (hostid h)
              (new_group_ids off tgt
                 (map groupid (case host_groups info of None \<Rightarrow> [] | Some gs \<Rightarrow> gs))))] @ after"
  using assms by (simp add: restore_host_def Let_def split: sum.splits)

lemma restore_host_gone:
  assumes "fst (host_get z (host_groups_params (hostid h)) s) = Inr []"
  shows "events_of (restore_host z off tgt h s) = [Call ''host.get'' (host_groups_params (hostid h))]"
    and "state_of (restore_host z off tgt h s) = snd (host_get z (host_groups_params (hostid h)) s)"
  using assms by (simp_all add: restore_host_def Let_def)

lemma restore_each_events_split:
  "events_of (restore_each z off tgt (pre @ h # post) s) =
     events_of (restore_each z off tgt pre s) @
     events_of (restore_host z off tgt h (state_of (restore_each z off tgt pre s))) @
     events_of (restore_each z off tgt post
        (state_of (restore_host z off tgt h (state_of (restore_each z off tgt pre s)))))"
  by (simp add: restore_each_append)

lemma offline_lookup_params_json:
  "offline_lookup_params =
     JObj [(''filter'', JObj [(''name'', JStr [19979, 32447])]),
           (''output'', JList [JStr (ascii ''groupid'')])]"
  by (simp add: offline_lookup_params_def target_lookup_params_def offline_name_def)

lemma kept_and_target:
  "kept @ (if tgt \<in> set kept then [] else [tgt]) \<noteq> []"
  "kept = [] \<longrightarrow> kept @ (if tgt \<in> set kept then [] else [tgt]) = [tgt]"
  by auto

lemma restore_hosts_raises:
  assumes "hosts \<noteq> []" and "fst (hostgroup_get z offline_lookup_params s) = Inl e"
  shows "events_of (restore_hosts_to_group z hosts tgt n s) =
           [Print (M_restore_start (length hosts) n), Call ''hostgroup.get'' offline_lookup_params]"
    and "result_of (restore_hosts_to_group z hosts tgt n s) = Inl e"
  using assms by (simp_all add: restore_hosts_to_group_def)

lemma restore_hosts_found:
  assumes lookup: "hostgroup_get z offline_lookup_params s = (Inr offline_groups, s0)"
    and hosts: "hosts = pre @ h # post"
    and found: "host_get z (host_groups_params (hostid h))
                  (state_of (restore_each z (groupid ` set offline_groups) tgt pre s0))
                = (Inr (info # others), s1)"
  shows "\<exists>before after.
      events_of (restore_hosts_to_group z hosts tgt group_name s) =
        before @
        [Call ''host.get'' (host_groups_params (hostid h)),
         Call ''host.update'' (host_update_params (hostid h)
            (new_group_ids (groupid ` set offline_groups) tgt
               (map groupid (case host_groups info of None \<Rightarrow> [] | Some gs \<Rightarrow> gs))))] @ after"
proof -
  let ?off = "groupid ` set offline_groups"
  let ?cur = "map groupid (case host_groups info of None \<Rightarrow> [] | Some gs \<Rightarrow> gs)"
  let ?s' = "state_of (restore_each z ?off tgt pre s0)"
  obtain aft where a: "events_of (restore_host z ?off tgt h ?s') =
      [Call ''host.get'' (host_groups_params (hostid h)),
       Call ''host.update'' (host_update_params (hostid h) (new_group_ids ?off tgt ?cur))] @ aft"
    using restore_host_found [OF found] by blast
  have ne: "hosts \<noteq> []" using hosts by simp
  have ev: "events_of (restore_hosts_to_group z hosts tgt group_name s) =
      ([Print (M_restore_start (length hosts) group_name), Call ''hostgroup.get'' offline_lookup_params] @
       events_of (restore_each z ?off tgt pre s0)) @
      [Call ''host.get'' (host_groups_params (hostid h)),
       Call ''host.update'' (host_update_params (hostid h) (new_group_ids ?off tgt ?cur))] @
      (aft @ events_of (restore_each z ?off tgt post (state_of (restore_host z ?off tgt h ?s'))))"
    using ne lookup a
    by (simp add: restore_hosts_to_group_def hosts [symmetric])
       (simp add: hosts restore_each_events_split)
  show ?thesis using ev by blast
qed

lemma web_host103 [simp]:
  "web_hosts_reply (host_groups_params (ascii ''103'')) = Inr [host103]"
  by (simp add: web_hosts_reply_def host_groups_params_def ascii_def)

lemma web_restore_h101_state:
  "state_of (restore_host web_env off (ascii ''12'') h101 s) = Suc (Suc s)"
  by (simp add: restore_host_def h101_def Let_def)

lemma offline_down_env_simps [simp]:
  "host_get offline_down_env = (\<lambda>p s. (web_hosts_reply p, Suc s))"
  "host_update offline_down_env = (\<lambda>p s. (Inr (), Suc s))"
  "hostgroup_update offline_down_env = (\<lambda>p s. (Inr (), Suc s))"
  "hostgroup_get offline_down_env offline_lookup_params = (\<lambda>s. (Inl ConnectionError, Suc s))"
  "hostgroup_get offline_down_env (by_id_params (ascii ''12'')) = (\<lambda>s. (Inr [web_group], Suc s))"
  by (simp_all add: offline_down_env_def offline_lookup_params_json by_id_params_def
      web_env_def demo_env_def web_groups_reply_def lookup_params_def ascii_def)

text \<open>
  C2, with the proviso it needs. Let the lookup of the groups named
  \<^verbatim>\<open>'\<close>U+4E0B U+7EBF\<^verbatim>\<open>'\<close> (code points 19979 and 32447) at the start of
  \<^verbatim>\<open>restore_hosts_to_group\<close> return. For every host of the list for which \<^verbatim>\<open>host.get\<close>
  returns a non-empty reply when its turn comes, \<^verbatim>\<open>restore_hosts_to_group\<close> issues, right
  after that \<^verbatim>\<open>host.get\<close>, the \<^verbatim>\<open>host.update\<close> whose \<^verbatim>\<open>params\<close> are the id of the host and,
  as \<^verbatim>\<open>groups\<close>, one \<^verbatim>\<open>{"groupid": ...}\<close> for each of the host's current groups that is
  not an offline group, in order, followed by one for the target group if it is not
  among them. That list is never empty, and it is the target group alone when nothing
  is left after removing the offline groups. If the lookup raises instead, the function
  raises the same exception after that one call: no host is looked up or updated.
\<close>

theorem restore_hosts_membership:
  "(\<forall>offline_groups s0 pre h post info others s1.
      hostgroup_get z
        (JObj [(''filter'', JObj [(''name'', JStr [19979, 32447])]),
               (''output'', JList [JStr (ascii ''groupid'')])]) s = (Inr offline_groups, s0) \<and>
      hosts = pre @ h # post \<and>
      host_get z
        (JObj [(''output'', JList [JStr (ascii ''hostid'')]),
               (''selectGroups'', JList [JStr (ascii ''groupid'')]),
               (''hostids'', JStr (hostid h))])
        (state_of (restore_each z (groupid ` set offline_groups) tgt pre s0))
        = (Inr (info # others), s1) \<longrightarrow>
      (let current = map groupid (case host_groups info of None \<Rightarrow> [] | Some gs \<Rightarrow> gs);
           kept = filter (\<lambda>gid. gid \<notin> groupid ` set offline_groups) current;
           new = kept @ (if tgt \<in> set kept then [] else [tgt])
       in new \<noteq> [] \<and>
          (kept = [] \<longrightarrow> new = [tgt]) \<and>
          (\<exists>before after.
             events_of (restore_hosts_to_group z hosts tgt group_name s) =
               before @
               [Call ''host.get''
                  (JObj [(''output'', JList [JStr (ascii ''hostid'')]),
                         (''selectGroups'', JList [JStr (ascii ''groupid'')]),
                         (''hostids'', JStr (hostid h))]),
                Call ''host.update''
                  (JObj [(''hostid'', JStr (hostid h)),
                         (''groups'', JList (map (\<lambda>gid. JObj [(''groupid'', JStr gid)]) new))])] @
               after))) \<and>
   (\<forall>e. hosts \<noteq> [] \<and>
      fst (hostgroup_get z
             (JObj [(''filter'', JObj [(''name'', JStr [19979, 32447])]),
                    (''output'', JList [JStr (ascii ''groupid'')])]) s) = Inl e \<longrightarrow>
      result_of (restore_hosts_to_group z hosts tgt group_name s) = Inl e \<and>
      events_of (restore_hosts_to_group z hosts tgt group_name s) =
        [Print (M_restore_start (length hosts) group_name),
         Call ''hostgroup.get''
           (JObj [(''filter'', JObj [(''name'', JStr [19979, 32447])]),
                  (''output'', JList [JStr (ascii ''groupid'')])])])"
proof (intro conjI allI impI)
  fix offline_groups s0 pre h post info others s1
  assume a: "hostgroup_get z
        (JObj [(''filter'', JObj [(''name'', JStr [19979, 32447])]),
               (''output'', JList [JStr (ascii ''groupid'')])]) s = (Inr offline_groups, s0) \<and>
      hosts = pre @ h # post \<and>
      host_get z
        (JObj [(''output'', JList [JStr (ascii ''hostid'')]),
               (''selectGroups'', JList [JStr (ascii ''groupid'')]),
               (''hostids'', JStr (hostid h))])
        (state_of (restore_each z (groupid ` set offline_groups) tgt pre s0))
        = (Inr (info # others), s1)"
  let ?off = "groupid ` set offline_groups"
  let ?cur = "map groupid (case host_groups info of None \<Rightarrow> [] | Some gs \<Rightarrow> gs)"
  have lookup: "hostgroup_get z offline_lookup_params s = (Inr offline_groups, s0)"
    using a by (simp add: offline_lookup_params_json)
  have hosts: "hosts = pre @ h # post" using a by simp
  have found: "host_get z (host_groups_params (hostid h))
                 (state_of (restore_each z ?off tgt pre s0)) = (Inr (info # others), s1)"
    using a by (simp add: host_groups_params_def)
  have n: "new_group_ids ?off tgt ?cur =
             filter (\<lambda>gid. gid \<notin> ?off) ?cur @
             (if tgt \<in> set (filter (\<lambda>gid. gid \<notin> ?off) ?cur) then [] else [tgt])"
    using new_group_ids_props [of ?off tgt ?cur] by blast
  note ex = restore_hosts_found [OF lookup hosts found, of group_name,
      unfolded n host_groups_params_def host_update_params_def]
  show "let current = ?cur;
            kept = filter (\<lambda>gid. gid \<notin> ?off) current;
            new = kept @ (if tgt \<in> set kept then [] else [tgt])
        in new \<noteq> [] \<and>
          (kept = [] \<longrightarrow> new = [tgt]) \<and>
          (\<exists>before after.
             events_of (restore_hosts_to_group z hosts tgt group_name s) =
               before @
               [Call ''host.get''
                  (JObj [(''output'', JList [JStr (ascii ''hostid'')]),
                         (''selectGroups'', JList [JStr (ascii ''groupid'')]),
                         (''hostids'', JStr (hostid h))]),
                Call ''host.update''
                  (JObj [(''hostid'', JStr (hostid h)),
                         (''groups'', JList (map (\<lambda>gid. JObj [(''groupid'', JStr gid)]) new))])] @
               after)"
    unfolding Let_def
  proof (intro conjI)
    show "filter (\<lambda>gid. gid \<notin> ?off) ?cur @
          (if tgt \<in> set (filter (\<lambda>gid. gid \<notin> ?off) ?cur) then [] else [tgt]) \<noteq> []"
      by (rule kept_and_target(1))
    show "filter (\<lambda>gid. gid \<notin> ?off) ?cur = [] \<longrightarrow>
          filter (\<lambda>gid. gid \<notin> ?off) ?cur @
          (if tgt \<in> set (filter (\<lambda>gid. gid \<notin> ?off) ?cur) then [] else [tgt]) = [tgt]"
      by (rule kept_and_target(2))
    show "\<exists>before after.
             events_of (restore_hosts_to_group z hosts tgt group_name s) =
               before @
               [Call ''host.get''
                  (JObj [(''output'', JList [JStr (ascii ''hostid'')]),
                         (''selectGroups'', JList [JStr (ascii ''groupid'')]),
                         (''hostids'', JStr (hostid h))]),
                Call ''host.update''
                  (JObj [(''hostid'', JStr (hostid h)),
                         (''groups'', JList (map (\<lambda>gid. JObj [(''groupid'', JStr gid)])
                            (filter (\<lambda>gid. gid \<notin> ?off) ?cur @
                             (if tgt \<in> set (filter (\<lambda>gid. gid \<notin> ?off) ?cur) then [] else [tgt]))))])] @
               after"
      by (rule ex)
  qed
next
  fix e
  assume a: "hosts \<noteq> [] \<and>
      fst (hostgroup_get z
             (JObj [(''filter'', JObj [(''name'', JStr [19979, 32447])]),
                    (''output'', JList [JStr (ascii ''groupid'')])]) s) = Inl e"
  then have ne: "hosts \<noteq> []" and l: "fst (hostgroup_get z offline_lookup_params s) = Inl e"
    by (simp_all add: offline_lookup_params_json)
  show "result_of (restore_hosts_to_group z hosts tgt group_name s) = Inl e"
    using restore_hosts_raises(2) [OF ne l] .
  show "events_of (restore_hosts_to_group z hosts tgt group_name s) =
        [Print (M_restore_start (length hosts) group_name),
         Call ''hostgroup.get''
           (JObj [(''filter'', JObj [(''name'', JStr [19979, 32447])]),
                  (''output'', JList [JStr (ascii ''groupid'')])])]"
    using restore_hosts_raises(1) [OF ne l] by (simp add: offline_lookup_params_json)
qed

theorem restore_hosts_membership_witness:
  "(\<exists>before after.
     events_of (restore_hosts_to_group web_env [h101, h103] (ascii ''12'') (ascii ''x_web'') 0) =
       before @
       [Call ''host.get''
          (JObj [(''output'', JList [JStr (ascii ''hostid'')]),
                 (''selectGroups'', JList [JStr (ascii ''groupid'')]),
                 (''hostids'', JStr (ascii ''101''))]),
        Call ''host.update''
          (JObj [(''hostid'', JStr (ascii ''101'')),
                 (''groups'', JList [JObj [(''groupid'', JStr (ascii ''12''))]])])] @ after) \<and>
   (\<exists>before after.
     events_of (restore_hosts_to_group web_env [h101, h103] (ascii ''12'') (ascii ''x_web'') 0) =
       before @
       [Call ''host.get''
          (JObj [(''output'', JList [JStr (ascii ''hostid'')]),
                 (''selectGroups'', JList [JStr (ascii ''groupid'')]),
                 (''hostids'', JStr (ascii ''103''))]),
        Call ''host.update''
          (JObj [(''hostid'', JStr (ascii ''103'')),
                 (''groups'', JList [JObj [(''groupid'', JStr (ascii ''30''))],
                                     JObj [(''groupid'', JStr (ascii ''12''))]])])] @ after) \<and>
   calls_of (events_of
      (restore_hosts_to_group web_env [h101, h103] (ascii ''12'') (ascii ''x_web'') 0)) =
     [(''hostgroup.get'',
       JObj [(''filter'', JObj [(''name'', JStr [19979, 32447])]),
             (''output'', JList [JStr (ascii ''groupid'')])]),
      (''host.get'',
       JObj [(''output'', JList [JStr (ascii ''hostid'')]),
             (''selectGroups'', JList [JStr (ascii ''groupid'')]),
             (''hostids'', JStr (ascii ''101''))]),
      (''host.update'',
       JObj [(''hostid'', JStr (ascii ''101'')),
             (''groups'', JList [JObj [(''groupid'', JStr (ascii ''12''))]])]),
      (''host.get'',
       JObj [(''output'', JList [JStr (ascii ''hostid'')]),
             (''selectGroups'', JList [JStr (ascii ''groupid'')]),
             (''hostids'', JStr (ascii ''103''))]),
      (''host.update'',
       JObj [(''hostid'', JStr (ascii ''103'')),
             (''groups'', JList [JObj [(''groupid'', JStr (ascii ''30''))],
                                 JObj [(''groupid'', JStr (ascii ''12''))]])])] \<and>
   result_of (restore_hosts_to_group offline_down_env [h101, h103] (ascii ''12'') (ascii ''x_web'') 0)
     = Inl ConnectionError \<and>
   events_of (restore_hosts_to_group offline_down_env [h101, h103] (ascii ''12'') (ascii ''x_web'') 0) =
     [Print (M_restore_start 2 (ascii ''x_web'')),
      Call ''hostgroup.get''
        (JObj [(''filter'', JObj [(''name'', JStr [19979, 32447])]),
               (''output'', JList [JStr (ascii ''groupid'')])])]"
proof -
  let ?offline = "JObj [(''filter'', JObj [(''name'', JStr [19979, 32447])]),
                        (''output'', JList [JStr (ascii ''groupid'')])]"
  have lookup: "hostgroup_get web_env ?offline 0 = (Inr [offline_group], 1)"
    by (simp add: offline_lookup_params_json [symmetric])
  have off: "groupid ` set [offline_group] = {ascii ''7''}" by (simp add: offline_group_def)
  have hosts1: "[h101, h103] = [] @ h101 # [h103]" by simp
  have found1: "host_get web_env
                  (JObj [(''output'', JList [JStr (ascii ''hostid'')]),
                         (''selectGroups'', JList [JStr (ascii ''groupid'')]),
                         (''hostids'', JStr (hostid h101))])
                  (state_of (restore_each web_env (groupid ` set [offline_group]) (ascii ''12'') [] 1))
                = (Inr (\<lparr>host_hostid = ascii ''101'', host_groups = Some [offline_group]\<rparr> # []), 2)"
    by (simp add: h101_def host_groups_params_def [symmetric])
  have cur1: "map groupid (case host_groups \<lparr>host_hostid = ascii ''101'', host_groups = Some [offline_group]\<rparr>
                           of None \<Rightarrow> [] | Some gs \<Rightarrow> gs) = [ascii ''7'']"
    by (simp add: offline_group_def)
  have n1: "filter (\<lambda>gid. gid \<notin> {ascii ''7''}) [ascii ''7''] @
              (if ascii ''12'' \<in> set (filter (\<lambda>gid. gid \<notin> {ascii ''7''}) [ascii ''7'']) then []
               else [ascii ''12'']) = [ascii ''12'']"
    by (simp add: ascii_def)
  have hid1: "hostid h101 = ascii ''101''" by (simp add: h101_def)
  have m1: "map (\<lambda>gid. JObj [(''groupid'', JStr gid)]) [ascii ''12''] =
              [JObj [(''groupid'', JStr (ascii ''12''))]]" by simp
  note t1 = restore_hosts_membership [where z = web_env and hosts = "[h101, h103]"
      and tgt = "ascii ''12''" and group_name = "ascii ''x_web''" and s = 0,
      THEN conjunct1, rule_format, OF conjI [OF lookup conjI [OF hosts1 found1]]]
  note d1 = t1 [unfolded Let_def, THEN conjunct2, THEN conjunct2]
  have first: "\<exists>before after.
     events_of (restore_hosts_to_group web_env [h101, h103] (ascii ''12'') (ascii ''x_web'') 0) =
       before @
       [Call ''host.get''
          (JObj [(''output'', JList [JStr (ascii ''hostid'')]),
                 (''selectGroups'', JList [JStr (ascii ''groupid'')]),
                 (''hostids'', JStr (ascii ''101''))]),
        Call ''host.update''
          (JObj [(''hostid'', JStr (ascii ''101'')),
                 (''groups'', JList [JObj [(''groupid'', JStr (ascii ''12''))]])])] @ after"
    using d1 unfolding cur1 off n1 hid1 m1 .
  have hosts3: "[h101, h103] = [h101] @ h103 # []" by simp
  have found3: "host_get web_env
                  (JObj [(''output'', JList [JStr (ascii ''hostid'')]),
                         (''selectGroups'', JList [JStr (ascii ''groupid'')]),
                         (''hostids'', JStr (hostid h103))])
                  (state_of (restore_each web_env (groupid ` set [offline_group]) (ascii ''12'') [h101] 1))
                = (Inr (host103 # []), 4)"
    by (simp add: web_restore_h101_state h103_def host_groups_params_def [symmetric])
  have cur3: "map groupid (case host_groups host103 of None \<Rightarrow> [] | Some gs \<Rightarrow> gs) =
               [ascii ''7'', ascii ''30'', ascii ''12'']"
    by (simp add: host103_def offline_group_def)
  have n3: "filter (\<lambda>gid. gid \<notin> {ascii ''7''}) [ascii ''7'', ascii ''30'', ascii ''12''] @
              (if ascii ''12'' \<in> set (filter (\<lambda>gid. gid \<notin> {ascii ''7''})
                                         [ascii ''7'', ascii ''30'', ascii ''12'']) then []
               else [ascii ''12'']) = [ascii ''30'', ascii ''12'']"
    by (simp add: ascii_def)
  have hid3: "hostid h103 = ascii ''103''" by (simp add: h103_def)
  have m3: "map (\<lambda>gid. JObj [(''groupid'', JStr gid)]) [ascii ''30'', ascii ''12''] =
              [JObj [(''groupid'', JStr (ascii ''30''))], JObj [(''groupid'', JStr (ascii ''12''))]]"
    by simp
  note t3 = restore_hosts_membership [where z = web_env and hosts = "[h101, h103]"
      and tgt = "ascii ''12''" and group_name = "ascii ''x_web''" and s = 0,
      THEN conjunct1, rule_format, OF conjI [OF lookup conjI [OF hosts3 found3]]]
  note d3 = t3 [unfolded Let_def, THEN conjunct2, THEN conjunct2]
  have second: "\<exists>before after.
     events_of (restore_hosts_to_group web_env [h101, h103] (ascii ''12'') (ascii ''x_web'') 0) =
       before @
       [Call ''host.get''
          (JObj [(''output'', JList [JStr (ascii ''hostid'')]),
                 (''selectGroups'', JList [JStr (ascii ''groupid'')]),
                 (''hostids'', JStr (ascii ''103''))]),
        Call ''host.update''
          (JObj [(''hostid'', JStr (ascii ''103'')),
                 (''groups'', JList [JObj [(''groupid'', JStr (ascii ''30''))],
                                     JObj [(''groupid'', JStr (ascii ''12''))]])])] @ after"
    using d3 unfolding cur3 off n3 hid3 m3 .
  have all_calls: "calls_of (events_of
      (restore_hosts_to_group web_env [h101, h103] (ascii ''12'') (ascii ''x_web'') 0)) =
     [(''hostgroup.get'', ?offline),
      (''host.get'',
       JObj [(''output'', JList [JStr (ascii ''hostid'')]),
             (''selectGroups'', JList [JStr (ascii ''groupid'')]),
             (''hostids'', JStr (ascii ''101''))]),
      (''host.update'',
       JObj [(''hostid'', JStr (ascii ''101'')),
             (''groups'', JList [JObj [(''groupid'', JStr (ascii ''12''))]])]),
      (''host.get'',
       JObj [(''output'', JList [JStr (ascii ''hostid'')]),
             (''selectGroups'', JList [JStr (ascii ''groupid'')]),
             (''hostids'', JStr (ascii ''103''))]),
      (''host.update'',
       JObj [(''hostid'', JStr (ascii ''103'')),
             (''groups'', JList [JObj [(''groupid'', JStr (ascii ''30''))],
                                 JObj [(''groupid'', JStr (ascii ''12''))]])])]"
    by (simp add: restore_hosts_to_group_def restore_host_def h101_def h103_def Let_def
          new_group_ids_def host103_def offline_group_def)
       (simp add: offline_lookup_params_json host_groups_params_def host_update_params_def ascii_def)
  have ne: "[h101, h103] \<noteq> []" by simp
  have down: "fst (hostgroup_get offline_down_env ?offline 0) = Inl ConnectionError"
    by (simp add: offline_lookup_params_json [symmetric])
  note t4 = restore_hosts_membership [where z = offline_down_env and hosts = "[h101, h103]"
      and tgt = "ascii ''12''" and group_name = "ascii ''x_web''" and s = 0,
      THEN conjunct2, rule_format, OF conjI [OF ne down]]
  have third: "result_of (restore_hosts_to_group offline_down_env [h101, h103] (ascii ''12'') (ascii ''x_web'') 0)
     = Inl ConnectionError \<and>
   events_of (restore_hosts_to_group offline_down_env [h101, h103] (ascii ''12'') (ascii ''x_web'') 0) =
     [Print (M_restore_start 2 (ascii ''x_web'')),
      Call ''hostgroup.get'' ?offline]"
    using t4 by simp
  show ?thesis using first second all_calls third by blast
qed

text \<open>
  Without the proviso the property fails: on the server whose lookup of the offline
  groups fails, the host 101 exists, and \<^verbatim>\<open>restore_hosts_to_group\<close> raises after the
  lookup without any \<^verbatim>\<open>host.update\<close>.
\<close>

theorem restore_stops_when_offline_lookup_raises:
  "fst (host_get offline_down_env
          (JObj [(''output'', JList [JStr (ascii ''hostid'')]),
                 (''selectGroups'', JList [JStr (ascii ''groupid'')]),
                 (''hostids'', JStr (ascii ''101''))]) 1) =
     Inr [\<lparr>host_hostid = ascii ''101'',
           host_groups = Some [\<lparr>groupid = ascii ''7'', groupname = None, grouphosts = None\<rparr>]\<rparr>] \<and>
   calls_of (events_of
      (restore_hosts_to_group offline_down_env
         [\<lparr>hostid = ascii ''101'', hostname = None\<rparr>] (ascii ''12'') (ascii ''x_web'') 0)) =
     [(''hostgroup.get'',
       JObj [(''filter'', JObj [(''name'', JStr [19979, 32447])]),
             (''output'', JList [JStr (ascii ''groupid'')])])] \<and>
   result_of
      (restore_hosts_to_group offline_down_env
         [\<lparr>hostid = ascii ''101'', hostname = None\<rparr>] (ascii ''12'') (ascii ''x_web'') 0) =
     Inl ConnectionError"
  by (simp add: restore_hosts_to_group_def)
     (simp add: offline_lookup_params_json host_groups_params_def [symmetric] offline_group_def)

section \<open>Rolling back a group\<close>

lemma restore_hosts_result:
  "result_of (restore_hosts_to_group z hosts tgt n s) =
     (if hosts = [] then Inr ()
      else case fst (hostgroup_get z offline_lookup_params s) of Inl e \<Rightarrow> Inl e | Inr gs \<Rightarrow> Inr ())"
  by (simp add: restore_hosts_to_group_def split: sum.splits)

lemma rollback_group_existing:
  assumes grp: "hostgroup_get z (by_id_params (snap_groupid info)) s = (Inr (cur # others), s1)"
    and name: "groupname cur = Some current_name"
  shows "events_of (rollback_group z old_name info s) =
      [Print (M_rollback_check old_name (snap_groupid info)),
       Call ''hostgroup.get'' (by_id_params (snap_groupid info)),
       Print (M_rollback_check_name (Some current_name) old_name)] @
      events_of (restore_hosts_to_group z (snap_hosts info) (snap_groupid info) old_name s1) @
      (case result_of (restore_hosts_to_group z (snap_hosts info) (snap_groupid info) old_name s1) of
         Inl e \<Rightarrow> [Print (M_rollback_failed old_name e), Log ERROR (M_rollback_failed old_name e)]
       | Inr u \<Rightarrow>
           if current_name \<noteq> old_name
           then Call ''hostgroup.update'' (rename_params (snap_groupid info) old_name) #
                (case fst (hostgroup_update z (rename_params (snap_groupid info) old_name)
                        (state_of (restore_hosts_to_group z (snap_hosts info) (snap_groupid info) old_name s1))) of
                   Inl e \<Rightarrow> [Print (M_rollback_failed old_name e), Log ERROR (M_rollback_failed old_name e)]
                 | Inr u2 \<Rightarrow> [Print (M_rollback_renamed (Some current_name) old_name),
                              Log INFO (M_rollback_renamed (Some current_name) old_name)])
           else [Print (M_rollback_same_name old_name)])"
    and "result_of (rollback_group z old_name info s) =
      (case result_of (restore_hosts_to_group z (snap_hosts info) (snap_groupid info) old_name s1) of
         Inl e \<Rightarrow> False
       | Inr u \<Rightarrow>
           if current_name \<noteq> old_name
           then (case fst (hostgroup_update z (rename_params (snap_groupid info) old_name)
                        (state_of (restore_hosts_to_group z (snap_hosts info) (snap_groupid info) old_name s1))) of
                   Inl e \<Rightarrow> False | Inr u2 \<Rightarrow> True)
           else True)"
  using grp name
  by (simp_all add: rollback_group_def restore_and_rename_def split: sum.splits)

lemma filter_calls_none:
  assumes "set (methods_of es) \<subseteq> S" and "m \<notin> S"
  shows "filter (\<lambda>c. fst c = m) (calls_of es) = []"
  using assms by (auto simp: methods_of_def filter_empty_conv)

lemma restore_hosts_events:
  "events_of (restore_hosts_to_group z hosts tgt n s) =
     (if hosts = [] then [Print (M_restore_skip n)]
      else [Print (M_restore_start (length hosts) n), Call ''hostgroup.get'' offline_lookup_params] @
           (case fst (hostgroup_get z offline_lookup_params s) of
              Inl e \<Rightarrow> []
            | Inr offs \<Rightarrow>
                events_of (restore_each z (groupid ` set offs) tgt hosts
                   (snd (hostgroup_get z offline_lookup_params s)))))"
  and restore_hosts_state:
  "state_of (restore_hosts_to_group z hosts tgt n s) =
     (if hosts = [] then s
      else case fst (hostgroup_get z offline_lookup_params s) of
             Inl e \<Rightarrow> snd (hostgroup_get z offline_lookup_params s)
           | Inr offs \<Rightarrow>
               state_of (restore_each z (groupid ` set offs) tgt hosts
                  (snd (hostgroup_get z offline_lookup_params s))))"
  by (simp_all add: restore_hosts_to_group_def split: sum.splits)

lemma rollback_group_recreated:
  assumes gone: "hostgroup_get z (by_id_params (snap_groupid info)) s = (Inr [], s1)"
    and created: "hostgroup_create z (create_params old_name) s1 = (Inr (new_groupid # ids), s2)"
  shows "events_of (rollback_group z old_name info s) =
      [Print (M_rollback_check old_name (snap_groupid info)),
       Call ''hostgroup.get'' (by_id_params (snap_groupid info)),
       Print (M_rollback_missing (snap_groupid info) old_name),
       Call ''hostgroup.create'' (create_params old_name),
       Print (M_rollback_recreated old_name new_groupid),
       Log INFO (M_rollback_recreated old_name new_groupid)] @
      events_of (restore_hosts_to_group z (snap_hosts info) new_groupid old_name s2) @
      (case result_of (restore_hosts_to_group z (snap_hosts info) new_groupid old_name s2) of
         Inl e2 \<Rightarrow> [Print (M_rollback_recreate_failed old_name e2),
                    Log ERROR (M_rollback_recreate_failed old_name e2)]
       | Inr u \<Rightarrow> [])"
    and "result_of (rollback_group z old_name info s) =
      (case result_of (restore_hosts_to_group z (snap_hosts info) new_groupid old_name s2) of
         Inl e2 \<Rightarrow> False | Inr u \<Rightarrow> True)"
  using gone created
  by (simp_all add: rollback_group_def recreate_group_def split: sum.splits)

lemma restore_hosts_gone:
  assumes lookup: "hostgroup_get z offline_lookup_params s = (Inr offline_groups, s0)"
    and hosts: "hosts = pre @ h # post"
    and gone: "fst (host_get z (host_groups_params (hostid h))
                  (state_of (restore_each z (groupid ` set offline_groups) tgt pre s0))) = Inr []"
  shows "events_of (restore_hosts_to_group z hosts tgt n s) =
      [Print (M_restore_start (length hosts) n), Call ''hostgroup.get'' offline_lookup_params] @
      events_of (restore_each z (groupid ` set offline_groups) tgt pre s0) @
      [Call ''host.get'' (host_groups_params (hostid h))] @
      events_of (restore_each z (groupid ` set offline_groups) tgt post
         (snd (host_get z (host_groups_params (hostid h))
            (state_of (restore_each z (groupid ` set offline_groups) tgt pre s0)))))"
    and "result_of (restore_hosts_to_group z hosts tgt n s) = Inr ()"
    and "state_of (restore_hosts_to_group z hosts tgt n s) =
           state_of (restore_each z (groupid ` set offline_groups) tgt hosts s0)"
proof -
  let ?off = "groupid ` set offline_groups"
  let ?s3 = "state_of (restore_each z ?off tgt pre s0)"
  have ne: "hosts \<noteq> []" using hosts by simp
  have a: "events_of (restore_host z ?off tgt h ?s3) = [Call ''host.get'' (host_groups_params (hostid h))]"
    and st: "state_of (restore_host z ?off tgt h ?s3) = snd (host_get z (host_groups_params (hostid h)) ?s3)"
    using restore_host_gone [OF gone] by simp_all
  show "events_of (restore_hosts_to_group z hosts tgt n s) =
      [Print (M_restore_start (length hosts) n), Call ''hostgroup.get'' offline_lookup_params] @
      events_of (restore_each z ?off tgt pre s0) @
      [Call ''host.get'' (host_groups_params (hostid h))] @
      events_of (restore_each z ?off tgt post (snd (host_get z (host_groups_params (hostid h)) ?s3)))"
    using ne lookup
    by (simp add: restore_hosts_events) (simp add: hosts restore_each_events_split a st)
  show "result_of (restore_hosts_to_group z hosts tgt n s) = Inr ()"
    using ne lookup by (simp add: restore_hosts_result)
  show "state_of (restore_hosts_to_group z hosts tgt n s) = state_of (restore_each z ?off tgt hosts s0)"
    using ne lookup by (simp add: restore_hosts_state)
qed

lemma rename_refusing_env_simps [simp]:
  "host_get rename_refusing_env = (\<lambda>p s. (web_hosts_reply p, Suc s))"
  "host_update rename_refusing_env = (\<lambda>p s. (Inr (), Suc s))"
  "hostgroup_get rename_refusing_env = (\<lambda>p s. (web_groups_reply p, Suc s))"
  "hostgroup_update rename_refusing_env = (\<lambda>p s. (Inl ConnectionError, Suc s))"
  by (simp_all add: rename_refusing_env_def web_env_def demo_env_def)

lemma web_by_id_40 [simp]: "web_groups_reply (by_id_params (ascii ''40'')) = Inr []"
  by (simp add: web_groups_reply_def by_id_params_def lookup_params_def offline_lookup_params_json
      ascii_def)

text \<open>
  C3, with the proviso it needs. For a group of the snapshot whose id still exists on
  the server (the lookup by id returns a group, with its current name), the actions of
  \<^verbatim>\<open>rollback_group_names\<close> for that group are the lookup by id, then the restoration of
  \<^verbatim>\<open>restore_hosts_to_group\<close>, whatever the names are, and only then the rename or the
  message that the name is unchanged. The restoration is spelled out: nothing but a
  message for an empty host list; otherwise the lookup of the groups named
  \<^verbatim>\<open>'\<close>U+4E0B U+7EBF\<^verbatim>\<open>'\<close> and, if it returns, the loop over the hosts, in which every host
  that \<^verbatim>\<open>host.get\<close> returns gets its \<^verbatim>\<open>host.update\<close> (current groups without the offline
  groups, plus the group of the snapshot) before any \<^verbatim>\<open>hostgroup.update\<close>. If the current
  name equals the name of the snapshot, no \<^verbatim>\<open>hostgroup.update\<close> is issued. If the
  restoration returns (the host list is empty, or the lookup of the offline groups
  returns), the \<^verbatim>\<open>hostgroup.update\<close> calls of the group are exactly one rename of the
  group id to the name of the snapshot when the names differ, and none when they are
  equal. If the lookup of the offline groups raises, no \<^verbatim>\<open>hostgroup.update\<close> is issued
  and the group is counted as a failure.
\<close>

theorem rollback_rename_iff:
  assumes grp: "hostgroup_get z
                  (JObj [(''output'', JList [JStr (ascii ''groupid''), JStr (ascii ''name'')]),
                         (''groupids'', JList [JStr (snap_groupid info)])]) s
                = (Inr (cur # others), s1)"
    and name: "groupname cur = Some current_name"
  shows "events_of (rollback_group z old_name info s) =
           (let rename = (\<lambda>st.
                  if current_name \<noteq> old_name
                  then Call ''hostgroup.update''
                         (JObj [(''groupid'', JStr (snap_groupid info)), (''name'', JStr old_name)]) #
                       (case fst (hostgroup_update z
                                    (JObj [(''groupid'', JStr (snap_groupid info)),
                                           (''name'', JStr old_name)]) st) of
                          Inl e \<Rightarrow> [Print (M_rollback_failed old_name e),
                                    Log ERROR (M_rollback_failed old_name e)]
                        | Inr u \<Rightarrow> [Print (M_rollback_renamed (Some current_name) old_name),
                                    Log INFO (M_rollback_renamed (Some current_name) old_name)])
                  else [Print (M_rollback_same_name old_name)])
            in [Print (M_rollback_check old_name (snap_groupid info)),
                Call ''hostgroup.get''
                  (JObj [(''output'', JList [JStr (ascii ''groupid''), JStr (ascii ''name'')]),
                         (''groupids'', JList [JStr (snap_groupid info)])]),
                Print (M_rollback_check_name (Some current_name) old_name)] @
               (if snap_hosts info = [] then Print (M_restore_skip old_name) # rename s1
                else [Print (M_restore_start (length (snap_hosts info)) old_name),
                      Call ''hostgroup.get''
                        (JObj [(''filter'', JObj [(''name'', JStr [19979, 32447])]),
                               (''output'', JList [JStr (ascii ''groupid'')])])] @
                     (case hostgroup_get z
                             (JObj [(''filter'', JObj [(''name'', JStr [19979, 32447])]),
                                    (''output'', JList [JStr (ascii ''groupid'')])]) s1 of
                        (Inl e, s2) \<Rightarrow> [Print (M_rollback_failed old_name e),
                                        Log ERROR (M_rollback_failed old_name e)]
                      | (Inr offline_groups, s2) \<Rightarrow>
                          events_of (restore_each z (groupid ` set offline_groups)
                                       (snap_groupid info) (snap_hosts info) s2) @
                          rename (state_of (restore_each z (groupid ` set offline_groups)
                                              (snap_groupid info) (snap_hosts info) s2))))) \<and>
         (\<forall>offline_groups s2 pre h post hinfo more s3.
            hostgroup_get z
              (JObj [(''filter'', JObj [(''name'', JStr [19979, 32447])]),
                     (''output'', JList [JStr (ascii ''groupid'')])]) s1 = (Inr offline_groups, s2) \<and>
            snap_hosts info = pre @ h # post \<and>
            host_get z
              (JObj [(''output'', JList [JStr (ascii ''hostid'')]),
                     (''selectGroups'', JList [JStr (ascii ''groupid'')]),
                     (''hostids'', JStr (hostid h))])
              (state_of (restore_each z (groupid ` set offline_groups) (snap_groupid info) pre s2))
              = (Inr (hinfo # more), s3) \<longrightarrow>
            (\<exists>before after.
               events_of (rollback_group z old_name info s) =
                 before @
                 [Call ''host.get''
                    (JObj [(''output'', JList [JStr (ascii ''hostid'')]),
                           (''selectGroups'', JList [JStr (ascii ''groupid'')]),
                           (''hostids'', JStr (hostid h))]),
                  Call ''host.update''
                    (JObj [(''hostid'', JStr (hostid h)),
                           (''groups'',
                            JList (map (\<lambda>gid. JObj [(''groupid'', JStr gid)])
                              (let kept = filter (\<lambda>gid. gid \<notin> groupid ` set offline_groups)
                                     (map groupid (case host_groups hinfo of None \<Rightarrow> []
                                                   | Some gs \<Rightarrow> gs))
                               in kept @ (if snap_groupid info \<in> set kept then []
                                          else [snap_groupid info]))))])] @
                 after \<and>
               ''hostgroup.update'' \<notin> set (methods_of before))) \<and>
         (current_name = old_name \<longrightarrow>
            ''hostgroup.update'' \<notin> set (methods_of (events_of (rollback_group z old_name info s)))) \<and>
         (snap_hosts info = [] \<or>
          (\<exists>offline_groups.
             fst (hostgroup_get z
                    (JObj [(''filter'', JObj [(''name'', JStr [19979, 32447])]),
                           (''output'', JList [JStr (ascii ''groupid'')])]) s1) = Inr offline_groups)
          \<longrightarrow>
            filter (\<lambda>c. fst c = ''hostgroup.update'')
                   (calls_of (events_of (rollback_group z old_name info s))) =
              (if current_name \<noteq> old_name
               then [(''hostgroup.update'',
                      JObj [(''groupid'', JStr (snap_groupid info)), (''name'', JStr old_name)])]
               else [])) \<and>
         (\<forall>e. snap_hosts info \<noteq> [] \<and>
               fst (hostgroup_get z
                      (JObj [(''filter'', JObj [(''name'', JStr [19979, 32447])]),
                             (''output'', JList [JStr (ascii ''groupid'')])]) s1) = Inl e \<longrightarrow>
               ''hostgroup.update'' \<notin> set (methods_of (events_of (rollback_group z old_name info s))) \<and>
               \<not> result_of (rollback_group z old_name info s))"
proof -
  let ?gid = "snap_groupid info"
  let ?hosts = "snap_hosts info"
  let ?r = "restore_hosts_to_group z ?hosts ?gid old_name s1"
  let ?RB = "rollback_group z old_name info s"
  have grp': "hostgroup_get z (by_id_params ?gid) s = (Inr (cur # others), s1)"
    using grp by (simp add: by_id_params_def)
  note ev = rollback_group_existing(1) [OF grp' name, of old_name]
  note res = rollback_group_existing(2) [OF grp' name, of old_name]
  have m: "set (methods_of (events_of ?r)) \<subseteq> {''hostgroup.get'', ''host.get'', ''host.update''}"
    by (rule restore_hosts_methods)
  have f: "filter (\<lambda>c. fst c = ''hostgroup.update'') (calls_of (events_of ?r)) = []"
    by (rule filter_calls_none [OF m]) simp
  have c1: "events_of ?RB =
           (let rename = (\<lambda>st.
                  if current_name \<noteq> old_name
                  then Call ''hostgroup.update''
                         (JObj [(''groupid'', JStr (snap_groupid info)), (''name'', JStr old_name)]) #
                       (case fst (hostgroup_update z
                                    (JObj [(''groupid'', JStr (snap_groupid info)),
                                           (''name'', JStr old_name)]) st) of
                          Inl e \<Rightarrow> [Print (M_rollback_failed old_name e),
                                    Log ERROR (M_rollback_failed old_name e)]
                        | Inr u \<Rightarrow> [Print (M_rollback_renamed (Some current_name) old_name),
                                    Log INFO (M_rollback_renamed (Some current_name) old_name)])
                  else [Print (M_rollback_same_name old_name)])
            in [Print (M_rollback_check old_name (snap_groupid info)),
                Call ''hostgroup.get''
                  (JObj [(''output'', JList [JStr (ascii ''groupid''), JStr (ascii ''name'')]),
                         (''groupids'', JList [JStr (snap_groupid info)])]),
                Print (M_rollback_check_name (Some current_name) old_name)] @
               (if snap_hosts info = [] then Print (M_restore_skip old_name) # rename s1
                else [Print (M_restore_start (length (snap_hosts info)) old_name),
                      Call ''hostgroup.get''
                        (JObj [(''filter'', JObj [(''name'', JStr [19979, 32447])]),
                               (''output'', JList [JStr (ascii ''groupid'')])])] @
                     (case hostgroup_get z
                             (JObj [(''filter'', JObj [(''name'', JStr [19979, 32447])]),
                                    (''output'', JList [JStr (ascii ''groupid'')])]) s1 of
                        (Inl e, s2) \<Rightarrow> [Print (M_rollback_failed old_name e),
                                        Log ERROR (M_rollback_failed old_name e)]
                      | (Inr offline_groups, s2) \<Rightarrow>
                          events_of (restore_each z (groupid ` set offline_groups)
                                       (snap_groupid info) (snap_hosts info) s2) @
                          rename (state_of (restore_each z (groupid ` set offline_groups)
                                              (snap_groupid info) (snap_hosts info) s2)))))"
    unfolding ev restore_hosts_events restore_hosts_state restore_hosts_result
    by (simp add: Let_def offline_lookup_params_json rename_params_def by_id_params_def
          split: sum.splits prod.splits)
  have c2: "\<exists>before after.
               events_of ?RB =
                 before @
                 [Call ''host.get''
                    (JObj [(''output'', JList [JStr (ascii ''hostid'')]),
                           (''selectGroups'', JList [JStr (ascii ''groupid'')]),
                           (''hostids'', JStr (hostid h))]),
                  Call ''host.update''
                    (JObj [(''hostid'', JStr (hostid h)),
                           (''groups'',
                            JList (map (\<lambda>gid. JObj [(''groupid'', JStr gid)])
                              (let kept = filter (\<lambda>gid. gid \<notin> groupid ` set offline_groups)
                                     (map groupid (case host_groups hinfo of None \<Rightarrow> []
                                                   | Some gs \<Rightarrow> gs))
                               in kept @ (if snap_groupid info \<in> set kept then []
                                          else [snap_groupid info]))))])] @
                 after \<and>
               ''hostgroup.update'' \<notin> set (methods_of before)"
    if a: "hostgroup_get z
              (JObj [(''filter'', JObj [(''name'', JStr [19979, 32447])]),
                     (''output'', JList [JStr (ascii ''groupid'')])]) s1 = (Inr offline_groups, s2) \<and>
            snap_hosts info = pre @ h # post \<and>
            host_get z
              (JObj [(''output'', JList [JStr (ascii ''hostid'')]),
                     (''selectGroups'', JList [JStr (ascii ''groupid'')]),
                     (''hostids'', JStr (hostid h))])
              (state_of (restore_each z (groupid ` set offline_groups) (snap_groupid info) pre s2))
              = (Inr (hinfo # more), s3)"
    for offline_groups s2 pre h post hinfo more s3
  proof -
    let ?off = "groupid ` set offline_groups"
    let ?cur = "map groupid (case host_groups hinfo of None \<Rightarrow> [] | Some gs \<Rightarrow> gs)"
    let ?s' = "state_of (restore_each z ?off ?gid pre s2)"
    have lookup: "hostgroup_get z offline_lookup_params s1 = (Inr offline_groups, s2)"
      using a by (simp add: offline_lookup_params_json)
    have hosts: "?hosts = pre @ h # post" using a by simp
    have found: "host_get z (host_groups_params (hostid h)) ?s' = (Inr (hinfo # more), s3)"
      using a by (simp add: host_groups_params_def)
    obtain aft where h: "events_of (restore_host z ?off ?gid h ?s') =
        [Call ''host.get'' (host_groups_params (hostid h)),
         Call ''host.update'' (host_update_params (hostid h) (new_group_ids ?off ?gid ?cur))] @ aft"
      using restore_host_found [OF found] by blast
    have n: "new_group_ids ?off ?gid ?cur =
               filter (\<lambda>gid. gid \<notin> ?off) ?cur @
               (if ?gid \<in> set (filter (\<lambda>gid. gid \<notin> ?off) ?cur) then [] else [?gid])"
      using new_group_ids_props [of ?off ?gid ?cur] by blast
    have ne: "?hosts \<noteq> []" using hosts by simp
    let ?before = "[Print (M_rollback_check old_name ?gid),
                    Call ''hostgroup.get'' (by_id_params ?gid),
                    Print (M_rollback_check_name (Some current_name) old_name),
                    Print (M_restore_start (length ?hosts) old_name),
                    Call ''hostgroup.get'' offline_lookup_params] @
                   events_of (restore_each z ?off ?gid pre s2)"
    have rev: "events_of ?r =
        [Print (M_restore_start (length ?hosts) old_name),
         Call ''hostgroup.get'' offline_lookup_params] @
        events_of (restore_each z ?off ?gid pre s2) @
        [Call ''host.get'' (host_groups_params (hostid h)),
         Call ''host.update'' (host_update_params (hostid h) (new_group_ids ?off ?gid ?cur))] @
        aft @ events_of (restore_each z ?off ?gid post (state_of (restore_host z ?off ?gid h ?s')))"
      using ne lookup h
      by (simp add: restore_hosts_events) (simp add: hosts restore_each_events_split)
    have mb: "''hostgroup.update'' \<notin> set (methods_of ?before)"
      using restore_each_methods [of z ?off ?gid pre s2] by auto
    have "\<exists>after. events_of ?RB =
        ?before @
        [Call ''host.get'' (host_groups_params (hostid h)),
         Call ''host.update'' (host_update_params (hostid h) (new_group_ids ?off ?gid ?cur))] @ after"
      unfolding ev rev by simp
    then obtain after where e: "events_of ?RB =
        ?before @
        [Call ''host.get'' (host_groups_params (hostid h)),
         Call ''host.update'' (host_update_params (hostid h) (new_group_ids ?off ?gid ?cur))] @ after"
      by blast
    show ?thesis
      unfolding Let_def
      by (rule exI [of _ ?before], rule exI [of _ after], rule conjI,
          rule e [unfolded n host_groups_params_def host_update_params_def], rule mb)
  qed
  have c3: "current_name = old_name \<longrightarrow> ''hostgroup.update'' \<notin> set (methods_of (events_of ?RB))"
    using m by (auto simp: ev split: sum.splits)
  have c4: "snap_hosts info = [] \<or>
          (\<exists>offline_groups.
             fst (hostgroup_get z
                    (JObj [(''filter'', JObj [(''name'', JStr [19979, 32447])]),
                           (''output'', JList [JStr (ascii ''groupid'')])]) s1) = Inr offline_groups)
          \<longrightarrow>
            filter (\<lambda>c. fst c = ''hostgroup.update'') (calls_of (events_of ?RB)) =
              (if current_name \<noteq> old_name
               then [(''hostgroup.update'',
                      JObj [(''groupid'', JStr (snap_groupid info)), (''name'', JStr old_name)])]
               else [])"
  proof
    assume "snap_hosts info = [] \<or>
          (\<exists>offline_groups.
             fst (hostgroup_get z
                    (JObj [(''filter'', JObj [(''name'', JStr [19979, 32447])]),
                           (''output'', JList [JStr (ascii ''groupid'')])]) s1) = Inr offline_groups)"
    then have ok: "result_of ?r = Inr ()"
      by (auto simp: restore_hosts_result offline_lookup_params_json)
    show "filter (\<lambda>c. fst c = ''hostgroup.update'') (calls_of (events_of ?RB)) =
              (if current_name \<noteq> old_name
               then [(''hostgroup.update'',
                      JObj [(''groupid'', JStr (snap_groupid info)), (''name'', JStr old_name)])]
               else [])"
      unfolding ev using ok f by (simp add: rename_params_def split: sum.splits)
  qed
  have c5: "''hostgroup.update'' \<notin> set (methods_of (events_of ?RB)) \<and> \<not> result_of ?RB"
    if a: "snap_hosts info \<noteq> [] \<and>
               fst (hostgroup_get z
                      (JObj [(''filter'', JObj [(''name'', JStr [19979, 32447])]),
                             (''output'', JList [JStr (ascii ''groupid'')])]) s1) = Inl e" for e
  proof -
    have bad: "result_of ?r = Inl e"
      using a by (simp add: restore_hosts_result offline_lookup_params_json)
    show ?thesis
      using m bad by (auto simp: ev res)
  qed
  show ?thesis
    using c1 c2 c3 c4 c5 by blast
qed

theorem rollback_rename_iff_witness:
  "filter (\<lambda>c. fst c = ''hostgroup.update'')
     (calls_of (events_of (rollback_group web_env (ascii ''web'')
        \<lparr>snap_groupid = ascii ''12'', snap_hosts = [h101]\<rparr> 0))) =
     [(''hostgroup.update'',
       JObj [(''groupid'', JStr (ascii ''12'')), (''name'', JStr (ascii ''web''))])] \<and>
   filter (\<lambda>c. fst c = ''hostgroup.update'')
     (calls_of (events_of (rollback_group web_env (ascii ''x_web'')
        \<lparr>snap_groupid = ascii ''12'', snap_hosts = [h101]\<rparr> 0))) = [] \<and>
   (\<exists>before after.
      events_of (rollback_group web_env (ascii ''x_web'')
        \<lparr>snap_groupid = ascii ''12'', snap_hosts = [h101]\<rparr> 0) =
        before @
        [Call ''host.get''
           (JObj [(''output'', JList [JStr (ascii ''hostid'')]),
                  (''selectGroups'', JList [JStr (ascii ''groupid'')]),
                  (''hostids'', JStr (ascii ''101''))]),
         Call ''host.update''
           (JObj [(''hostid'', JStr (ascii ''101'')),
                  (''groups'', JList [JObj [(''groupid'', JStr (ascii ''12''))]])])] @ after \<and>
      ''hostgroup.update'' \<notin> set (methods_of before)) \<and>
   calls_of (events_of (rollback_group web_env (ascii ''x_web'')
      \<lparr>snap_groupid = ascii ''12'', snap_hosts = [h101]\<rparr> 0)) =
     [(''hostgroup.get'',
       JObj [(''output'', JList [JStr (ascii ''groupid''), JStr (ascii ''name'')]),
             (''groupids'', JList [JStr (ascii ''12'')])]),
      (''hostgroup.get'',
       JObj [(''filter'', JObj [(''name'', JStr [19979, 32447])]),
             (''output'', JList [JStr (ascii ''groupid'')])]),
      (''host.get'',
       JObj [(''output'', JList [JStr (ascii ''hostid'')]),
             (''selectGroups'', JList [JStr (ascii ''groupid'')]),
             (''hostids'', JStr (ascii ''101''))]),
      (''host.update'',
       JObj [(''hostid'', JStr (ascii ''101'')),
             (''groups'', JList [JObj [(''groupid'', JStr (ascii ''12''))]])])] \<and>
   calls_of (events_of (rollback_group web_env (ascii ''web'')
      \<lparr>snap_groupid = ascii ''12'', snap_hosts = [h101]\<rparr> 0)) =
     [(''hostgroup.get'',
       JObj [(''output'', JList [JStr (ascii ''groupid''), JStr (ascii ''name'')]),
             (''groupids'', JList [JStr (ascii ''12'')])]),
      (''hostgroup.get'',
       JObj [(''filter'', JObj [(''name'', JStr [19979, 32447])]),
             (''output'', JList [JStr (ascii ''groupid'')])]),
      (''host.get'',
       JObj [(''output'', JList [JStr (ascii ''hostid'')]),
             (''selectGroups'', JList [JStr (ascii ''groupid'')]),
             (''hostids'', JStr (ascii ''101''))]),
      (''host.update'',
       JObj [(''hostid'', JStr (ascii ''101'')),
             (''groups'', JList [JObj [(''groupid'', JStr (ascii ''12''))]])]),
      (''hostgroup.update'',
       JObj [(''groupid'', JStr (ascii ''12'')), (''name'', JStr (ascii ''web''))])]"
proof -
  let ?info = "\<lparr>snap_groupid = ascii ''12'', snap_hosts = [h101]\<rparr>"
  let ?offline = "JObj [(''filter'', JObj [(''name'', JStr [19979, 32447])]),
                        (''output'', JList [JStr (ascii ''groupid'')])]"
  have grp: "hostgroup_get web_env
               (JObj [(''output'', JList [JStr (ascii ''groupid''), JStr (ascii ''name'')]),
                      (''groupids'', JList [JStr (snap_groupid ?info)])]) 0
             = (Inr (web_group # []), 1)"
    by (simp add: by_id_params_def [symmetric])
  have name: "groupname web_group = Some (ascii ''x_web'')" by (simp add: web_group_def)
  have lookup: "hostgroup_get web_env ?offline 1 = (Inr [offline_group], 2)"
    by (simp add: offline_lookup_params_json [symmetric])
  have ok: "snap_hosts ?info = [] \<or>
            (\<exists>offline_groups. fst (hostgroup_get web_env ?offline 1) = Inr offline_groups)"
    using lookup by simp
  have d: "ascii ''x_web'' \<noteq> ascii ''web''" by (simp add: ascii_def)
  have sel: "snap_groupid ?info = ascii ''12''" by simp
  note differ = rollback_rename_iff [OF grp name, where old_name = "ascii ''web''",
      THEN conjunct2, THEN conjunct2, THEN conjunct2, THEN conjunct1, THEN mp, OF ok]
  have first: "filter (\<lambda>c. fst c = ''hostgroup.update'')
     (calls_of (events_of (rollback_group web_env (ascii ''web'') ?info 0))) =
     [(''hostgroup.update'',
       JObj [(''groupid'', JStr (ascii ''12'')), (''name'', JStr (ascii ''web''))])]"
    using differ d unfolding sel by simp
  note same = rollback_rename_iff [OF grp name, where old_name = "ascii ''x_web''",
      THEN conjunct2, THEN conjunct2, THEN conjunct2, THEN conjunct1, THEN mp, OF ok]
  have second: "filter (\<lambda>c. fst c = ''hostgroup.update'')
     (calls_of (events_of (rollback_group web_env (ascii ''x_web'') ?info 0))) = []"
    using same by simp
  have hosts: "snap_hosts ?info = [] @ h101 # []" by simp
  have found: "host_get web_env
                  (JObj [(''output'', JList [JStr (ascii ''hostid'')]),
                         (''selectGroups'', JList [JStr (ascii ''groupid'')]),
                         (''hostids'', JStr (hostid h101))])
                  (state_of (restore_each web_env (groupid ` set [offline_group])
                     (snap_groupid ?info) [] 2))
                = (Inr (\<lparr>host_hostid = ascii ''101'', host_groups = Some [offline_group]\<rparr> # []), 3)"
    by (simp add: h101_def host_groups_params_def [symmetric])
  have off: "groupid ` set [offline_group] = {ascii ''7''}" by (simp add: offline_group_def)
  have cur: "map groupid (case host_groups \<lparr>host_hostid = ascii ''101'', host_groups = Some [offline_group]\<rparr>
                           of None \<Rightarrow> [] | Some gs \<Rightarrow> gs) = [ascii ''7'']"
    by (simp add: offline_group_def)
  have n: "filter (\<lambda>gid. gid \<notin> {ascii ''7''}) [ascii ''7''] @
              (if ascii ''12'' \<in> set (filter (\<lambda>gid. gid \<notin> {ascii ''7''}) [ascii ''7'']) then []
               else [ascii ''12'']) = [ascii ''12'']"
    by (simp add: ascii_def)
  have hid: "hostid h101 = ascii ''101''" by (simp add: h101_def)
  have mp1: "map (\<lambda>gid. JObj [(''groupid'', JStr gid)]) [ascii ''12''] =
              [JObj [(''groupid'', JStr (ascii ''12''))]]" by simp
  note restored = rollback_rename_iff [OF grp name, where old_name = "ascii ''x_web''",
      THEN conjunct2, THEN conjunct1, rule_format, OF conjI [OF lookup conjI [OF hosts found]]]
  have third: "\<exists>before after.
      events_of (rollback_group web_env (ascii ''x_web'') ?info 0) =
        before @
        [Call ''host.get''
           (JObj [(''output'', JList [JStr (ascii ''hostid'')]),
                  (''selectGroups'', JList [JStr (ascii ''groupid'')]),
                  (''hostids'', JStr (ascii ''101''))]),
         Call ''host.update''
           (JObj [(''hostid'', JStr (ascii ''101'')),
                  (''groups'', JList [JObj [(''groupid'', JStr (ascii ''12''))]])])] @ after \<and>
      ''hostgroup.update'' \<notin> set (methods_of before)"
    using restored unfolding Let_def sel cur off n hid mp1 .
  have calls: "calls_of (events_of (rollback_group web_env old ?info 0)) =
     [(''hostgroup.get'',
       JObj [(''output'', JList [JStr (ascii ''groupid''), JStr (ascii ''name'')]),
             (''groupids'', JList [JStr (ascii ''12'')])]),
      (''hostgroup.get'', ?offline),
      (''host.get'',
       JObj [(''output'', JList [JStr (ascii ''hostid'')]),
             (''selectGroups'', JList [JStr (ascii ''groupid'')]),
             (''hostids'', JStr (ascii ''101''))]),
      (''host.update'',
       JObj [(''hostid'', JStr (ascii ''101'')),
             (''groups'', JList [JObj [(''groupid'', JStr (ascii ''12''))]])])] @
     (if ascii ''x_web'' \<noteq> old
      then [(''hostgroup.update'', JObj [(''groupid'', JStr (ascii ''12'')), (''name'', JStr old)])]
      else [])" for old
    by (simp add: rollback_group_def restore_and_rename_def restore_hosts_to_group_def
          restore_host_def web_group_def h101_def Let_def new_group_ids_def offline_group_def)
       (simp add: offline_lookup_params_json host_groups_params_def host_update_params_def
          by_id_params_def rename_params_def ascii_def)
  have fourth: "calls_of (events_of (rollback_group web_env (ascii ''x_web'') ?info 0)) =
     [(''hostgroup.get'',
       JObj [(''output'', JList [JStr (ascii ''groupid''), JStr (ascii ''name'')]),
             (''groupids'', JList [JStr (ascii ''12'')])]),
      (''hostgroup.get'', ?offline),
      (''host.get'',
       JObj [(''output'', JList [JStr (ascii ''hostid'')]),
             (''selectGroups'', JList [JStr (ascii ''groupid'')]),
             (''hostids'', JStr (ascii ''101''))]),
      (''host.update'',
       JObj [(''hostid'', JStr (ascii ''101'')),
             (''groups'', JList [JObj [(''groupid'', JStr (ascii ''12''))]])])]"
    unfolding calls by simp
  have fifth: "calls_of (events_of (rollback_group web_env (ascii ''web'') ?info 0)) =
     [(''hostgroup.get'',
       JObj [(''output'', JList [JStr (ascii ''groupid''), JStr (ascii ''name'')]),
             (''groupids'', JList [JStr (ascii ''12'')])]),
      (''hostgroup.get'', ?offline),
      (''host.get'',
       JObj [(''output'', JList [JStr (ascii ''hostid'')]),
             (''selectGroups'', JList [JStr (ascii ''groupid'')]),
             (''hostids'', JStr (ascii ''101''))]),
      (''host.update'',
       JObj [(''hostid'', JStr (ascii ''101'')),
             (''groups'', JList [JObj [(''groupid'', JStr (ascii ''12''))]])]),
      (''hostgroup.update'',
       JObj [(''groupid'', JStr (ascii ''12'')), (''name'', JStr (ascii ''web''))])]"
    unfolding calls using d by simp
  show ?thesis
    by (intro conjI) (rule first, rule second, rule third, rule fourth, rule fifth)
qed

text \<open>
  Without the proviso the equivalence fails: on the server whose lookup of the offline
  groups fails, the group 12 exists under the name \<^verbatim>\<open>x_web\<close>, the snapshot calls it
  \<^verbatim>\<open>web\<close> and lists a host, and the rollback of the group issues the two lookups only, no
  \<^verbatim>\<open>hostgroup.update\<close>, and counts a failure.
\<close>

theorem rollback_without_rename:
  "fst (hostgroup_get offline_down_env
          (JObj [(''output'', JList [JStr (ascii ''groupid''), JStr (ascii ''name'')]),
                 (''groupids'', JList [JStr (ascii ''12'')])]) 0) =
     Inr [\<lparr>groupid = ascii ''12'', groupname = Some (ascii ''x_web''),
           grouphosts = Some [\<lparr>hostid = ascii ''101'', hostname = None\<rparr>]\<rparr>] \<and>
   ascii ''x_web'' \<noteq> ascii ''web'' \<and>
   calls_of (events_of (rollback_group offline_down_env (ascii ''web'')
      \<lparr>snap_groupid = ascii ''12'',
        snap_hosts = [\<lparr>hostid = ascii ''101'', hostname = None\<rparr>]\<rparr> 0)) =
     [(''hostgroup.get'',
       JObj [(''output'', JList [JStr (ascii ''groupid''), JStr (ascii ''name'')]),
             (''groupids'', JList [JStr (ascii ''12'')])]),
      (''hostgroup.get'',
       JObj [(''filter'', JObj [(''name'', JStr [19979, 32447])]),
             (''output'', JList [JStr (ascii ''groupid'')])])] \<and>
   \<not> result_of (rollback_group offline_down_env (ascii ''web'')
      \<lparr>snap_groupid = ascii ''12'',
        snap_hosts = [\<lparr>hostid = ascii ''101'', hostname = None\<rparr>]\<rparr> 0)"
proof -
  have a: "fst (hostgroup_get offline_down_env
          (JObj [(''output'', JList [JStr (ascii ''groupid''), JStr (ascii ''name'')]),
                 (''groupids'', JList [JStr (ascii ''12'')])]) 0) =
     Inr [\<lparr>groupid = ascii ''12'', groupname = Some (ascii ''x_web''),
           grouphosts = Some [\<lparr>hostid = ascii ''101'', hostname = None\<rparr>]\<rparr>]"
    by (simp add: by_id_params_def [symmetric] web_group_def)
  have b: "ascii ''x_web'' \<noteq> ascii ''web''" by (simp add: ascii_def)
  have c: "calls_of (events_of (rollback_group offline_down_env (ascii ''web'')
      \<lparr>snap_groupid = ascii ''12'',
        snap_hosts = [\<lparr>hostid = ascii ''101'', hostname = None\<rparr>]\<rparr> 0)) =
     [(''hostgroup.get'',
       JObj [(''output'', JList [JStr (ascii ''groupid''), JStr (ascii ''name'')]),
             (''groupids'', JList [JStr (ascii ''12'')])]),
      (''hostgroup.get'',
       JObj [(''filter'', JObj [(''name'', JStr [19979, 32447])]),
             (''output'', JList [JStr (ascii ''groupid'')])])]"
    by (simp add: rollback_group_def restore_and_rename_def restore_hosts_to_group_def web_group_def)
       (simp add: offline_lookup_params_json by_id_params_def)
  have d: "\<not> result_of (rollback_group offline_down_env (ascii ''web'')
      \<lparr>snap_groupid = ascii ''12'',
        snap_hosts = [\<lparr>hostid = ascii ''101'', hostname = None\<rparr>]\<rparr> 0)"
    by (simp add: rollback_group_def restore_and_rename_def restore_hosts_to_group_def web_group_def)
  show ?thesis using a b c d by (intro conjI)
qed

text \<open>
  C10, with the proviso it needs. If \<^verbatim>\<open>host.get\<close> returns an empty reply for a host of
  the snapshot, the loop of \<^verbatim>\<open>restore_hosts_to_group\<close> does nothing more for that host:
  its only action is the \<^verbatim>\<open>host.get\<close> call, so no \<^verbatim>\<open>host.update\<close>, nothing printed and
  nothing logged. The enclosing group is counted as a success in both branches of
  \<^verbatim>\<open>rollback_group_names\<close>: when the group id still exists, provided that the rename, if
  the names differ, does not raise; and when the group id is gone and the group is
  created again, without any proviso. In both branches the actions of the group are
  spelled out: around the restoration of the other hosts, the missing host contributes
  its \<^verbatim>\<open>host.get\<close> call alone, and no error is printed or logged.
\<close>

theorem missing_host_is_skipped:
  "(\<forall>off tgt s'.
      fst (host_get z
             (JObj [(''output'', JList [JStr (ascii ''hostid'')]),
                    (''selectGroups'', JList [JStr (ascii ''groupid'')]),
                    (''hostids'', JStr (hostid h))]) s') = Inr [] \<longrightarrow>
      events_of (restore_host z off tgt h s') =
        [Call ''host.get''
           (JObj [(''output'', JList [JStr (ascii ''hostid'')]),
                  (''selectGroups'', JList [JStr (ascii ''groupid'')]),
                  (''hostids'', JStr (hostid h))])]) \<and>
   (\<forall>cur others s1 current_name offline_groups s2 pre post.
      hostgroup_get z
        (JObj [(''output'', JList [JStr (ascii ''groupid''), JStr (ascii ''name'')]),
               (''groupids'', JList [JStr (snap_groupid info)])]) s = (Inr (cur # others), s1) \<and>
      groupname cur = Some current_name \<and>
      hostgroup_get z
        (JObj [(''filter'', JObj [(''name'', JStr [19979, 32447])]),
               (''output'', JList [JStr (ascii ''groupid'')])]) s1 = (Inr offline_groups, s2) \<and>
      snap_hosts info = pre @ h # post \<and>
      fst (host_get z
             (JObj [(''output'', JList [JStr (ascii ''hostid'')]),
                    (''selectGroups'', JList [JStr (ascii ''groupid'')]),
                    (''hostids'', JStr (hostid h))])
             (state_of (restore_each z (groupid ` set offline_groups) (snap_groupid info) pre s2)))
        = Inr [] \<and>
      (current_name \<noteq> old_name \<longrightarrow>
         fst (hostgroup_update z
                (JObj [(''groupid'', JStr (snap_groupid info)), (''name'', JStr old_name)])
                (state_of (restore_each z (groupid ` set offline_groups) (snap_groupid info)
                             (snap_hosts info) s2))) = Inr ()) \<longrightarrow>
      events_of (rollback_group z old_name info s) =
        [Print (M_rollback_check old_name (snap_groupid info)),
         Call ''hostgroup.get''
           (JObj [(''output'', JList [JStr (ascii ''groupid''), JStr (ascii ''name'')]),
                  (''groupids'', JList [JStr (snap_groupid info)])]),
         Print (M_rollback_check_name (Some current_name) old_name),
         Print (M_restore_start (length (snap_hosts info)) old_name),
         Call ''hostgroup.get''
           (JObj [(''filter'', JObj [(''name'', JStr [19979, 32447])]),
                  (''output'', JList [JStr (ascii ''groupid'')])])] @
        events_of (restore_each z (groupid ` set offline_groups) (snap_groupid info) pre s2) @
        [Call ''host.get''
           (JObj [(''output'', JList [JStr (ascii ''hostid'')]),
                  (''selectGroups'', JList [JStr (ascii ''groupid'')]),
                  (''hostids'', JStr (hostid h))])] @
        events_of (restore_each z (groupid ` set offline_groups) (snap_groupid info) post
           (snd (host_get z
                   (JObj [(''output'', JList [JStr (ascii ''hostid'')]),
                          (''selectGroups'', JList [JStr (ascii ''groupid'')]),
                          (''hostids'', JStr (hostid h))])
                   (state_of (restore_each z (groupid ` set offline_groups)
                                (snap_groupid info) pre s2))))) @
        (if current_name \<noteq> old_name
         then [Call ''hostgroup.update''
                 (JObj [(''groupid'', JStr (snap_groupid info)), (''name'', JStr old_name)]),
               Print (M_rollback_renamed (Some current_name) old_name),
               Log INFO (M_rollback_renamed (Some current_name) old_name)]
         else [Print (M_rollback_same_name old_name)]) \<and>
      result_of (rollback_group z old_name info s) \<and>
      result_of (rollback_each z [(old_name, info)] (success_count, error_count) s) =
        (success_count + 1, error_count)) \<and>
   (\<forall>s1 new_groupid ids s2 offline_groups s3 pre post.
      hostgroup_get z
        (JObj [(''output'', JList [JStr (ascii ''groupid''), JStr (ascii ''name'')]),
               (''groupids'', JList [JStr (snap_groupid info)])]) s = (Inr [], s1) \<and>
      hostgroup_create z (JObj [(''name'', JStr old_name)]) s1 = (Inr (new_groupid # ids), s2) \<and>
      hostgroup_get z
        (JObj [(''filter'', JObj [(''name'', JStr [19979, 32447])]),
               (''output'', JList [JStr (ascii ''groupid'')])]) s2 = (Inr offline_groups, s3) \<and>
      snap_hosts info = pre @ h # post \<and>
      fst (host_get z
             (JObj [(''output'', JList [JStr (ascii ''hostid'')]),
                    (''selectGroups'', JList [JStr (ascii ''groupid'')]),
                    (''hostids'', JStr (hostid h))])
             (state_of (restore_each z (groupid ` set offline_groups) new_groupid pre s3)))
        = Inr [] \<longrightarrow>
      events_of (rollback_group z old_name info s) =
        [Print (M_rollback_check old_name (snap_groupid info)),
         Call ''hostgroup.get''
           (JObj [(''output'', JList [JStr (ascii ''groupid''), JStr (ascii ''name'')]),
                  (''groupids'', JList [JStr (snap_groupid info)])]),
         Print (M_rollback_missing (snap_groupid info) old_name),
         Call ''hostgroup.create'' (JObj [(''name'', JStr old_name)]),
         Print (M_rollback_recreated old_name new_groupid),
         Log INFO (M_rollback_recreated old_name new_groupid),
         Print (M_restore_start (length (snap_hosts info)) old_name),
         Call ''hostgroup.get''
           (JObj [(''filter'', JObj [(''name'', JStr [19979, 32447])]),
                  (''output'', JList [JStr (ascii ''groupid'')])])] @
        events_of (restore_each z (groupid ` set offline_groups) new_groupid pre s3) @
        [Call ''host.get''
           (JObj [(''output'', JList [JStr (ascii ''hostid'')]),
                  (''selectGroups'', JList [JStr (ascii ''groupid'')]),
                  (''hostids'', JStr (hostid h))])] @
        events_of (restore_each z (groupid ` set offline_groups) new_groupid post
           (snd (host_get z
                   (JObj [(''output'', JList [JStr (ascii ''hostid'')]),
                          (''selectGroups'', JList [JStr (ascii ''groupid'')]),
                          (''hostids'', JStr (hostid h))])
                   (state_of (restore_each z (groupid ` set offline_groups) new_groupid pre s3))))) \<and>
      result_of (rollback_group z old_name info s) \<and>
      result_of (rollback_each z [(old_name, info)] (success_count, error_count) s) =
        (success_count + 1, error_count))"
proof (intro conjI allI impI)
  fix off tgt s'
  assume "fst (host_get z
             (JObj [(''output'', JList [JStr (ascii ''hostid'')]),
                    (''selectGroups'', JList [JStr (ascii ''groupid'')]),
                    (''hostids'', JStr (hostid h))]) s') = Inr []"
  then have "fst (host_get z (host_groups_params (hostid h)) s') = Inr []"
    by (simp add: host_groups_params_def)
  from restore_host_gone(1) [OF this, of off tgt]
  show "events_of (restore_host z off tgt h s') =
        [Call ''host.get''
           (JObj [(''output'', JList [JStr (ascii ''hostid'')]),
                  (''selectGroups'', JList [JStr (ascii ''groupid'')]),
                  (''hostids'', JStr (hostid h))])]"
    by (simp add: host_groups_params_def)
next
  fix cur others s1 current_name and offline_groups :: "hostgroup list" and s2 pre post
  let ?gid = "snap_groupid info"
  let ?off = "groupid ` set offline_groups"
  assume a: "hostgroup_get z
        (JObj [(''output'', JList [JStr (ascii ''groupid''), JStr (ascii ''name'')]),
               (''groupids'', JList [JStr (snap_groupid info)])]) s = (Inr (cur # others), s1) \<and>
      groupname cur = Some current_name \<and>
      hostgroup_get z
        (JObj [(''filter'', JObj [(''name'', JStr [19979, 32447])]),
               (''output'', JList [JStr (ascii ''groupid'')])]) s1 = (Inr offline_groups, s2) \<and>
      snap_hosts info = pre @ h # post \<and>
      fst (host_get z
             (JObj [(''output'', JList [JStr (ascii ''hostid'')]),
                    (''selectGroups'', JList [JStr (ascii ''groupid'')]),
                    (''hostids'', JStr (hostid h))])
             (state_of (restore_each z (groupid ` set offline_groups) (snap_groupid info) pre s2)))
        = Inr [] \<and>
      (current_name \<noteq> old_name \<longrightarrow>
         fst (hostgroup_update z
                (JObj [(''groupid'', JStr (snap_groupid info)), (''name'', JStr old_name)])
                (state_of (restore_each z (groupid ` set offline_groups) (snap_groupid info)
                             (snap_hosts info) s2))) = Inr ())"
  have grp: "hostgroup_get z (by_id_params ?gid) s = (Inr (cur # others), s1)"
    using a by (simp add: by_id_params_def)
  have name: "groupname cur = Some current_name" using a by simp
  have lookup: "hostgroup_get z offline_lookup_params s1 = (Inr offline_groups, s2)"
    using a by (simp add: offline_lookup_params_json)
  have hosts: "snap_hosts info = pre @ h # post" using a by simp
  have gone: "fst (host_get z (host_groups_params (hostid h))
                (state_of (restore_each z ?off ?gid pre s2))) = Inr []"
    using a by (simp add: host_groups_params_def)
  note rg = restore_hosts_gone [OF lookup hosts gone, of old_name]
  have rename: "current_name \<noteq> old_name \<longrightarrow>
         fst (hostgroup_update z (rename_params ?gid old_name)
                (state_of (restore_hosts_to_group z (snap_hosts info) ?gid old_name s1))) = Inr ()"
    unfolding rg(3) rename_params_def using a by blast
  show res: "result_of (rollback_group z old_name info s)"
    using rollback_group_existing(2) [OF grp name, of old_name] rg(2) rename by simp
  show "result_of (rollback_each z [(old_name, info)] (success_count, error_count) s) =
        (success_count + 1, error_count)"
    using res by simp
  show "events_of (rollback_group z old_name info s) =
        [Print (M_rollback_check old_name (snap_groupid info)),
         Call ''hostgroup.get''
           (JObj [(''output'', JList [JStr (ascii ''groupid''), JStr (ascii ''name'')]),
                  (''groupids'', JList [JStr (snap_groupid info)])]),
         Print (M_rollback_check_name (Some current_name) old_name),
         Print (M_restore_start (length (snap_hosts info)) old_name),
         Call ''hostgroup.get''
           (JObj [(''filter'', JObj [(''name'', JStr [19979, 32447])]),
                  (''output'', JList [JStr (ascii ''groupid'')])])] @
        events_of (restore_each z (groupid ` set offline_groups) (snap_groupid info) pre s2) @
        [Call ''host.get''
           (JObj [(''output'', JList [JStr (ascii ''hostid'')]),
                  (''selectGroups'', JList [JStr (ascii ''groupid'')]),
                  (''hostids'', JStr (hostid h))])] @
        events_of (restore_each z (groupid ` set offline_groups) (snap_groupid info) post
           (snd (host_get z
                   (JObj [(''output'', JList [JStr (ascii ''hostid'')]),
                          (''selectGroups'', JList [JStr (ascii ''groupid'')]),
                          (''hostids'', JStr (hostid h))])
                   (state_of (restore_each z (groupid ` set offline_groups)
                                (snap_groupid info) pre s2))))) @
        (if current_name \<noteq> old_name
         then [Call ''hostgroup.update''
                 (JObj [(''groupid'', JStr (snap_groupid info)), (''name'', JStr old_name)]),
               Print (M_rollback_renamed (Some current_name) old_name),
               Log INFO (M_rollback_renamed (Some current_name) old_name)]
         else [Print (M_rollback_same_name old_name)])"
    using rollback_group_existing(1) [OF grp name, of old_name] rg(1) rg(2) rename
    by (simp add: by_id_params_def offline_lookup_params_json host_groups_params_def
          rename_params_def)
next
  fix s1 new_groupid ids s2 and offline_groups :: "hostgroup list" and s3 pre post
  let ?gid = "snap_groupid info"
  let ?off = "groupid ` set offline_groups"
  assume a: "hostgroup_get z
        (JObj [(''output'', JList [JStr (ascii ''groupid''), JStr (ascii ''name'')]),
               (''groupids'', JList [JStr (snap_groupid info)])]) s = (Inr [], s1) \<and>
      hostgroup_create z (JObj [(''name'', JStr old_name)]) s1 = (Inr (new_groupid # ids), s2) \<and>
      hostgroup_get z
        (JObj [(''filter'', JObj [(''name'', JStr [19979, 32447])]),
               (''output'', JList [JStr (ascii ''groupid'')])]) s2 = (Inr offline_groups, s3) \<and>
      snap_hosts info = pre @ h # post \<and>
      fst (host_get z
             (JObj [(''output'', JList [JStr (ascii ''hostid'')]),
                    (''selectGroups'', JList [JStr (ascii ''groupid'')]),
                    (''hostids'', JStr (hostid h))])
             (state_of (restore_each z (groupid ` set offline_groups) new_groupid pre s3)))
        = Inr []"
  have gone_id: "hostgroup_get z (by_id_params ?gid) s = (Inr [], s1)"
    using a by (simp add: by_id_params_def)
  have created: "hostgroup_create z (create_params old_name) s1 = (Inr (new_groupid # ids), s2)"
    using a by (simp add: create_params_def)
  have lookup: "hostgroup_get z offline_lookup_params s2 = (Inr offline_groups, s3)"
    using a by (simp add: offline_lookup_params_json)
  have hosts: "snap_hosts info = pre @ h # post" using a by simp
  have gone: "fst (host_get z (host_groups_params (hostid h))
                (state_of (restore_each z ?off new_groupid pre s3))) = Inr []"
    using a by (simp add: host_groups_params_def)
  note rg = restore_hosts_gone [OF lookup hosts gone, of old_name]
  show res: "result_of (rollback_group z old_name info s)"
    using rollback_group_recreated(2) [OF gone_id created] rg(2) by simp
  show "result_of (rollback_each z [(old_name, info)] (success_count, error_count) s) =
        (success_count + 1, error_count)"
    using res by simp
  show "events_of (rollback_group z old_name info s) =
        [Print (M_rollback_check old_name (snap_groupid info)),
         Call ''hostgroup.get''
           (JObj [(''output'', JList [JStr (ascii ''groupid''), JStr (ascii ''name'')]),
                  (''groupids'', JList [JStr (snap_groupid info)])]),
         Print (M_rollback_missing (snap_groupid info) old_name),
         Call ''hostgroup.create'' (JObj [(''name'', JStr old_name)]),
         Print (M_rollback_recreated old_name new_groupid),
         Log INFO (M_rollback_recreated old_name new_groupid),
         Print (M_restore_start (length (snap_hosts info)) old_name),
         Call ''hostgroup.get''
           (JObj [(''filter'', JObj [(''name'', JStr [19979, 32447])]),
                  (''output'', JList [JStr (ascii ''groupid'')])])] @
        events_of (restore_each z (groupid ` set offline_groups) new_groupid pre s3) @
        [Call ''host.get''
           (JObj [(''output'', JList [JStr (ascii ''hostid'')]),
                  (''selectGroups'', JList [JStr (ascii ''groupid'')]),
                  (''hostids'', JStr (hostid h))])] @
        events_of (restore_each z (groupid ` set offline_groups) new_groupid post
           (snd (host_get z
                   (JObj [(''output'', JList [JStr (ascii ''hostid'')]),
                          (''selectGroups'', JList [JStr (ascii ''groupid'')]),
                          (''hostids'', JStr (hostid h))])
                   (state_of (restore_each z (groupid ` set offline_groups) new_groupid pre s3)))))"
    using rollback_group_recreated(1) [OF gone_id created] rg(1) rg(2)
    by (simp add: by_id_params_def offline_lookup_params_json host_groups_params_def
          create_params_def)
qed

theorem missing_host_is_skipped_witness:
  "events_of (restore_host web_env {} (ascii ''12'') h102 5) =
     [Call ''host.get''
        (JObj [(''output'', JList [JStr (ascii ''hostid'')]),
               (''selectGroups'', JList [JStr (ascii ''groupid'')]),
               (''hostids'', JStr (ascii ''102''))])] \<and>
   result_of (rollback_group web_env (ascii ''web'')
      \<lparr>snap_groupid = ascii ''12'', snap_hosts = [h101, h102]\<rparr> 0) \<and>
   result_of (rollback_each web_env
      [(ascii ''web'', \<lparr>snap_groupid = ascii ''12'', snap_hosts = [h101, h102]\<rparr>)] (0, 0) 0) = (1, 0) \<and>
   calls_of (events_of (rollback_group web_env (ascii ''web'')
      \<lparr>snap_groupid = ascii ''12'', snap_hosts = [h101, h102]\<rparr> 0)) =
     [(''hostgroup.get'',
       JObj [(''output'', JList [JStr (ascii ''groupid''), JStr (ascii ''name'')]),
             (''groupids'', JList [JStr (ascii ''12'')])]),
      (''hostgroup.get'',
       JObj [(''filter'', JObj [(''name'', JStr [19979, 32447])]),
             (''output'', JList [JStr (ascii ''groupid'')])]),
      (''host.get'',
       JObj [(''output'', JList [JStr (ascii ''hostid'')]),
             (''selectGroups'', JList [JStr (ascii ''groupid'')]),
             (''hostids'', JStr (ascii ''101''))]),
      (''host.update'',
       JObj [(''hostid'', JStr (ascii ''101'')),
             (''groups'', JList [JObj [(''groupid'', JStr (ascii ''12''))]])]),
      (''host.get'',
       JObj [(''output'', JList [JStr (ascii ''hostid'')]),
             (''selectGroups'', JList [JStr (ascii ''groupid'')]),
             (''hostids'', JStr (ascii ''102''))]),
      (''hostgroup.update'',
       JObj [(''groupid'', JStr (ascii ''12'')), (''name'', JStr (ascii ''web''))])] \<and>
   result_of (rollback_group web_env (ascii ''web'')
      \<lparr>snap_groupid = ascii ''40'', snap_hosts = [h101, h102]\<rparr> 0) \<and>
   result_of (rollback_each web_env
      [(ascii ''web'', \<lparr>snap_groupid = ascii ''40'', snap_hosts = [h101, h102]\<rparr>)] (0, 0) 0) = (1, 0) \<and>
   calls_of (events_of (rollback_group web_env (ascii ''web'')
      \<lparr>snap_groupid = ascii ''40'', snap_hosts = [h101, h102]\<rparr> 0)) =
     [(''hostgroup.get'',
       JObj [(''output'', JList [JStr (ascii ''groupid''), JStr (ascii ''name'')]),
             (''groupids'', JList [JStr (ascii ''40'')])]),
      (''hostgroup.create'', JObj [(''name'', JStr (ascii ''web''))]),
      (''hostgroup.get'',
       JObj [(''filter'', JObj [(''name'', JStr [19979, 32447])]),
             (''output'', JList [JStr (ascii ''groupid'')])]),
      (''host.get'',
       JObj [(''output'', JList [JStr (ascii ''hostid'')]),
             (''selectGroups'', JList [JStr (ascii ''groupid'')]),
             (''hostids'', JStr (ascii ''101''))]),
      (''host.update'',
       JObj [(''hostid'', JStr (ascii ''101'')),
             (''groups'', JList [JObj [(''groupid'', JStr (ascii ''99''))]])]),
      (''host.get'',
       JObj [(''output'', JList [JStr (ascii ''hostid'')]),
             (''selectGroups'', JList [JStr (ascii ''groupid'')]),
             (''hostids'', JStr (ascii ''102''))])]"
proof -
  let ?info12 = "\<lparr>snap_groupid = ascii ''12'', snap_hosts = [h101, h102]\<rparr>"
  let ?info40 = "\<lparr>snap_groupid = ascii ''40'', snap_hosts = [h101, h102]\<rparr>"
  let ?offline = "JObj [(''filter'', JObj [(''name'', JStr [19979, 32447])]),
                        (''output'', JList [JStr (ascii ''groupid'')])]"
  let ?get102 = "JObj [(''output'', JList [JStr (ascii ''hostid'')]),
                       (''selectGroups'', JList [JStr (ascii ''groupid'')]),
                       (''hostids'', JStr (hostid h102))]"
  have hid: "hostid h102 = ascii ''102''" by (simp add: h102_def)
  have gone: "fst (host_get web_env ?get102 st) = Inr []" for st
    by (simp add: h102_def host_groups_params_def [symmetric])
  note skip = missing_host_is_skipped [where z = web_env and h = h102,
      THEN conjunct1, rule_format, OF gone [of 5], where off = "{}" and tgt = "ascii ''12''"]
  have first: "events_of (restore_host web_env {} (ascii ''12'') h102 5) =
     [Call ''host.get''
        (JObj [(''output'', JList [JStr (ascii ''hostid'')]),
               (''selectGroups'', JList [JStr (ascii ''groupid'')]),
               (''hostids'', JStr (ascii ''102''))])]"
    using skip unfolding hid .
  have grp: "hostgroup_get web_env
               (JObj [(''output'', JList [JStr (ascii ''groupid''), JStr (ascii ''name'')]),
                      (''groupids'', JList [JStr (snap_groupid ?info12)])]) 0
             = (Inr (web_group # []), 1)"
    by (simp add: by_id_params_def [symmetric])
  have name: "groupname web_group = Some (ascii ''x_web'')" by (simp add: web_group_def)
  have lookup: "hostgroup_get web_env ?offline 1 = (Inr [offline_group], 2)"
    by (simp add: offline_lookup_params_json [symmetric])
  have hosts12: "snap_hosts ?info12 = [h101] @ h102 # []" by simp
  have rename: "ascii ''x_web'' \<noteq> ascii ''web'' \<longrightarrow>
         fst (hostgroup_update web_env
                (JObj [(''groupid'', JStr (snap_groupid ?info12)), (''name'', JStr (ascii ''web''))])
                (state_of (restore_each web_env (groupid ` set [offline_group]) (snap_groupid ?info12)
                             (snap_hosts ?info12) 2))) = Inr ()"
    by simp
  note existing = missing_host_is_skipped [where z = web_env and h = h102 and info = ?info12
      and old_name = "ascii ''web''" and s = 0 and success_count = 0 and error_count = 0,
      THEN conjunct2, THEN conjunct1, rule_format,
      OF conjI [OF grp conjI [OF name conjI [OF lookup conjI [OF hosts12 conjI [OF gone rename]]]]]]
  have second: "result_of (rollback_group web_env (ascii ''web'') ?info12 0)"
    using existing [THEN conjunct2, THEN conjunct1] .
  have third: "result_of (rollback_each web_env [(ascii ''web'', ?info12)] (0, 0) 0) = (1, 0)"
    using existing [THEN conjunct2, THEN conjunct2] by simp
  have fourth: "calls_of (events_of (rollback_group web_env (ascii ''web'') ?info12 0)) =
     [(''hostgroup.get'',
       JObj [(''output'', JList [JStr (ascii ''groupid''), JStr (ascii ''name'')]),
             (''groupids'', JList [JStr (ascii ''12'')])]),
      (''hostgroup.get'', ?offline),
      (''host.get'',
       JObj [(''output'', JList [JStr (ascii ''hostid'')]),
             (''selectGroups'', JList [JStr (ascii ''groupid'')]),
             (''hostids'', JStr (ascii ''101''))]),
      (''host.update'',
       JObj [(''hostid'', JStr (ascii ''101'')),
             (''groups'', JList [JObj [(''groupid'', JStr (ascii ''12''))]])]),
      (''host.get'',
       JObj [(''output'', JList [JStr (ascii ''hostid'')]),
             (''selectGroups'', JList [JStr (ascii ''groupid'')]),
             (''hostids'', JStr (ascii ''102''))]),
      (''hostgroup.update'',
       JObj [(''groupid'', JStr (ascii ''12'')), (''name'', JStr (ascii ''web''))])]"
    by (simp add: rollback_group_def restore_and_rename_def restore_hosts_to_group_def
          restore_host_def web_group_def h101_def h102_def Let_def new_group_ids_def offline_group_def)
       (simp add: offline_lookup_params_json host_groups_params_def host_update_params_def
          by_id_params_def rename_params_def ascii_def)
  have gone_id: "hostgroup_get web_env
               (JObj [(''output'', JList [JStr (ascii ''groupid''), JStr (ascii ''name'')]),
                      (''groupids'', JList [JStr (snap_groupid ?info40)])]) 0
             = (Inr [], 1)"
    by (simp add: by_id_params_def [symmetric])
  have created: "hostgroup_create web_env (JObj [(''name'', JStr (ascii ''web''))]) 1
                  = (Inr (ascii ''99'' # []), 2)"
    by simp
  have lookup2: "hostgroup_get web_env ?offline 2 = (Inr [offline_group], 3)"
    by (simp add: offline_lookup_params_json [symmetric])
  have hosts40: "snap_hosts ?info40 = [h101] @ h102 # []" by simp
  note recreated = missing_host_is_skipped [where z = web_env and h = h102 and info = ?info40
      and old_name = "ascii ''web''" and s = 0 and success_count = 0 and error_count = 0,
      THEN conjunct2, THEN conjunct2, rule_format,
      OF conjI [OF gone_id conjI [OF created conjI [OF lookup2 conjI [OF hosts40 gone]]]]]
  have fifth: "result_of (rollback_group web_env (ascii ''web'') ?info40 0)"
    using recreated [THEN conjunct2, THEN conjunct1] .
  have sixth: "result_of (rollback_each web_env [(ascii ''web'', ?info40)] (0, 0) 0) = (1, 0)"
    using recreated [THEN conjunct2, THEN conjunct2] by simp
  have seventh: "calls_of (events_of (rollback_group web_env (ascii ''web'') ?info40 0)) =
     [(''hostgroup.get'',
       JObj [(''output'', JList [JStr (ascii ''groupid''), JStr (ascii ''name'')]),
             (''groupids'', JList [JStr (ascii ''40'')])]),
      (''hostgroup.create'', JObj [(''name'', JStr (ascii ''web''))]),
      (''hostgroup.get'', ?offline),
      (''host.get'',
       JObj [(''output'', JList [JStr (ascii ''hostid'')]),
             (''selectGroups'', JList [JStr (ascii ''groupid'')]),
             (''hostids'', JStr (ascii ''101''))]),
      (''host.update'',
       JObj [(''hostid'', JStr (ascii ''101'')),
             (''groups'', JList [JObj [(''groupid'', JStr (ascii ''99''))]])]),
      (''host.get'',
       JObj [(''output'', JList [JStr (ascii ''hostid'')]),
             (''selectGroups'', JList [JStr (ascii ''groupid'')]),
             (''hostids'', JStr (ascii ''102''))])]"
    by (simp add: rollback_group_def recreate_group_def restore_hosts_to_group_def
          restore_host_def h101_def h102_def Let_def new_group_ids_def offline_group_def)
       (simp add: offline_lookup_params_json host_groups_params_def host_update_params_def
          by_id_params_def create_params_def ascii_def)
  show ?thesis
    by (intro conjI)
       (rule first, rule second, rule third, rule fourth, rule fifth, rule sixth, rule seventh)
qed

text \<open>
  Without the proviso the group is not always a success: on the server that refuses
  every \<^verbatim>\<open>hostgroup.update\<close>, the host 102 of the snapshot is missing and is skipped, the
  group 12 has another name than in the snapshot, the rename raises, and the group is
  counted as a failure.
\<close>

theorem missing_host_and_failed_rename:
  "fst (host_get rename_refusing_env
          (JObj [(''output'', JList [JStr (ascii ''hostid'')]),
                 (''selectGroups'', JList [JStr (ascii ''groupid'')]),
                 (''hostids'', JStr (ascii ''102''))]) 2) = Inr [] \<and>
   calls_of (events_of (rollback_group rename_refusing_env (ascii ''web'')
      \<lparr>snap_groupid = ascii ''12'',
        snap_hosts = [\<lparr>hostid = ascii ''102'', hostname = None\<rparr>]\<rparr> 0)) =
     [(''hostgroup.get'',
       JObj [(''output'', JList [JStr (ascii ''groupid''), JStr (ascii ''name'')]),
             (''groupids'', JList [JStr (ascii ''12'')])]),
      (''hostgroup.get'',
       JObj [(''filter'', JObj [(''name'', JStr [19979, 32447])]),
             (''output'', JList [JStr (ascii ''groupid'')])]),
      (''host.get'',
       JObj [(''output'', JList [JStr (ascii ''hostid'')]),
             (''selectGroups'', JList [JStr (ascii ''groupid'')]),
             (''hostids'', JStr (ascii ''102''))]),
      (''hostgroup.update'',
       JObj [(''groupid'', JStr (ascii ''12'')), (''name'', JStr (ascii ''web''))])] \<and>
   \<not> result_of (rollback_group rename_refusing_env (ascii ''web'')
      \<lparr>snap_groupid = ascii ''12'',
        snap_hosts = [\<lparr>hostid = ascii ''102'', hostname = None\<rparr>]\<rparr> 0) \<and>
   result_of (rollback_each rename_refusing_env
      [(ascii ''web'',
        \<lparr>snap_groupid = ascii ''12'',
          snap_hosts = [\<lparr>hostid = ascii ''102'', hostname = None\<rparr>]\<rparr>)] (0, 0) 0) = (0, 1)"
proof -
  let ?info = "\<lparr>snap_groupid = ascii ''12'',
                 snap_hosts = [\<lparr>hostid = ascii ''102'', hostname = None\<rparr>]\<rparr>"
  have d: "ascii ''x_web'' \<noteq> ascii ''web''" by (simp add: ascii_def)
  have a: "fst (host_get rename_refusing_env
          (JObj [(''output'', JList [JStr (ascii ''hostid'')]),
                 (''selectGroups'', JList [JStr (ascii ''groupid'')]),
                 (''hostids'', JStr (ascii ''102''))]) 2) = Inr []"
    by (simp add: host_groups_params_def [symmetric])
  have b: "calls_of (events_of (rollback_group rename_refusing_env (ascii ''web'') ?info 0)) =
     [(''hostgroup.get'',
       JObj [(''output'', JList [JStr (ascii ''groupid''), JStr (ascii ''name'')]),
             (''groupids'', JList [JStr (ascii ''12'')])]),
      (''hostgroup.get'',
       JObj [(''filter'', JObj [(''name'', JStr [19979, 32447])]),
             (''output'', JList [JStr (ascii ''groupid'')])]),
      (''host.get'',
       JObj [(''output'', JList [JStr (ascii ''hostid'')]),
             (''selectGroups'', JList [JStr (ascii ''groupid'')]),
             (''hostids'', JStr (ascii ''102''))]),
      (''hostgroup.update'',
       JObj [(''groupid'', JStr (ascii ''12'')), (''name'', JStr (ascii ''web''))])]"
    using d
    by (simp add: rollback_group_def restore_and_rename_def restore_hosts_to_group_def
          restore_host_def web_group_def Let_def)
       (simp add: offline_lookup_params_json host_groups_params_def
          by_id_params_def rename_params_def)
  have c: "\<not> result_of (rollback_group rename_refusing_env (ascii ''web'') ?info 0)"
    using d
    by (simp add: rollback_group_def restore_and_rename_def restore_hosts_to_group_def
          restore_host_def web_group_def Let_def)
  have e: "result_of (rollback_each rename_refusing_env [(ascii ''web'', ?info)] (0, 0) 0) = (0, 1)"
    using c by simp
  show ?thesis using a b c e by (intro conjI)
qed

section \<open>Renaming a group, and taking its hosts offline\<close>

lemma try_prefixes_methods:
  "set (methods_of (events_of (try_prefixes z ps n s))) \<subseteq> {''hostgroup.get''}"
proof (induction ps arbitrary: s)
  case Nil
  then show ?case by simp
next
  case (Cons p ps)
  show ?case
    using Cons.IH by (auto simp: Let_def split: sum.splits)
qed

lemma find_group_methods:
  "set (methods_of (events_of (find_group z n s))) \<subseteq> {''hostgroup.get''}"
  using try_prefixes_methods [of z group_prefixes n]
  by (auto simp: find_group_def split: sum.splits)

lemma move_each_calls:
  "result_of (move_each z t hs s) = Inr () \<Longrightarrow>
     calls_of (events_of (move_each z t hs s)) =
       map (\<lambda>hid. (''host.update'', move_params hid t)) hs"
  by (induction hs arbitrary: s) (auto split: sum.splits)

lemma move_each_methods:
  "set (methods_of (events_of (move_each z t hs s))) \<subseteq> {''host.update''}"
proof (induction hs arbitrary: s)
  case Nil
  then show ?case by simp
next
  case (Cons h hs)
  show ?case using Cons.IH by (auto split: sum.splits)
qed

lemma move_hosts_methods:
  "set (methods_of (events_of (move_hosts_to_group z hs n s)))
     \<subseteq> {''hostgroup.get'', ''hostgroup.create'', ''host.update''}"
  using move_each_methods [of z _ hs]
  by (auto simp: move_hosts_to_group_def split: sum.splits list.splits)

lemma takeWhile_first_underscore:
  "underscore \<notin> set stem \<Longrightarrow>
     takeWhile (\<lambda>c. c \<noteq> underscore) (stem @ underscore # rest) = stem"
  by (induction stem) auto

lemma rename_group_found:
  assumes "result_of (find_group z orig s) = Inr [grp]"
  shows "events_of (rename_group z orig new s) =
           events_of (find_group z orig s) @
           events_of (rename_found z grp new (state_of (find_group z orig s))) @
           (case result_of (rename_found z grp new (state_of (find_group z orig s))) of
              Inl e \<Rightarrow> [Log ERROR (M_rename_failed orig new e), Print (M_rename_failed orig new e)]
            | Inr v \<Rightarrow> [])"
    and "result_of (rename_group z orig new s) =
           (case result_of (rename_found z grp new (state_of (find_group z orig s))) of
              Inl e \<Rightarrow> None | Inr v \<Rightarrow> v)"
    and "state_of (rename_group z orig new s) =
           state_of (rename_found z grp new (state_of (find_group z orig s)))"
  using assms
  by (simp_all add: rename_group_def rename_group_try_def split: sum.splits)

lemma web_lookup [simp]:
  "web_groups_reply (lookup_params (ascii ''x_web'')) = Inr [web_group]"
  "web_groups_reply (target_lookup_params offline_name) = Inr [offline_group]"
  by (simp_all add: web_groups_reply_def offline_lookup_params_def
      target_lookup_params_def lookup_params_def by_id_params_def ascii_def)

lemma web_find [simp]:
  "result_of (find_group web_env (ascii ''x_web'') 0) = Inr [web_group]"
  "state_of (find_group web_env (ascii ''x_web'') 0) = 1"
  "events_of (find_group web_env (ascii ''x_web'') 0) =
     [Call ''hostgroup.get'' (lookup_params (ascii ''x_web''))]"
  by (simp_all add: find_group_def)

lemma web_lookup_more [simp]:
  "web_groups_reply (lookup_params (ascii ''db'')) = Inr [db_group]"
  by (simp add: web_groups_reply_def lookup_params_def by_id_params_def ascii_def)

text \<open>
  C7. Let the lookup of \<^verbatim>\<open>rename_group\<close> match exactly one group, and let the new name not
  be the offline sentinel. If the current name of the group is \<open>stem\<close>, an underscore and
  a rest, with no underscore in \<open>stem\<close>, then the only call after the lookup is the
  \<^verbatim>\<open>hostgroup.update\<close> whose \<^verbatim>\<open>params\<close> are the id of the group and, as the name, the new
  name itself when the new name starts with \<open>stem\<close> and the underscore, and \<open>stem\<close>, the
  underscore and the new name otherwise. If the current name has no underscore, the
  name sent is the new name. (95 is the underscore, 19979 and 32447 are the two
  characters of the sentinel.)
\<close>

theorem rename_keeps_prefix:
  assumes found: "result_of (find_group z orig s) = Inr [grp]"
    and name: "groupname grp = Some old_name"
    and rename: "new_name \<noteq> [19979, 32447]"
  shows "(\<forall>stem rest. old_name = stem @ 95 # rest \<and> 95 \<notin> set stem \<longrightarrow>
            calls_of (events_of (rename_group z orig new_name s)) =
              calls_of (events_of (find_group z orig s)) @
              [(''hostgroup.update'',
                JObj [(''groupid'', JStr (groupid grp)),
                      (''name'', JStr (if prefix (stem @ [95]) new_name then new_name
                                       else stem @ [95] @ new_name))])]) \<and>
         (95 \<notin> set old_name \<longrightarrow>
            calls_of (events_of (rename_group z orig new_name s)) =
              calls_of (events_of (find_group z orig s)) @
              [(''hostgroup.update'',
                JObj [(''groupid'', JStr (groupid grp)), (''name'', JStr new_name)])])"
proof -
  have r: "new_name \<noteq> offline_name" using rename by (simp add: offline_name_def)
  have tw: "95 \<notin> set stem \<Longrightarrow> takeWhile (\<lambda>c. c \<noteq> 95) (stem @ 95 # rest) = stem"
    for stem rest :: "nat list"
    using takeWhile_first_underscore [of stem rest] by (simp add: underscore_def)
  show ?thesis
    using name r
    by (auto simp: rename_group_found(1) [OF found] rename_found_def keep_prefix_def Let_def
          rename_params_def underscore_def tw split: sum.splits)
qed

theorem rename_keeps_prefix_witness:
  "calls_of (events_of (rename_group web_env (ascii ''x_web'') (ascii ''db'') 0)) =
     [(''hostgroup.get'',
       JObj [(''filter'', JObj [(''name'', JStr (ascii ''x_web''))]),
             (''output'', JList [JStr (ascii ''groupid''), JStr (ascii ''name'')]),
             (''selectHosts'', JList [JStr (ascii ''hostid'')])]),
      (''hostgroup.update'',
       JObj [(''groupid'', JStr (ascii ''12'')), (''name'', JStr (ascii ''x_db''))])] \<and>
   calls_of (events_of (rename_group web_env (ascii ''x_web'') (ascii ''x_db'') 0)) =
     [(''hostgroup.get'',
       JObj [(''filter'', JObj [(''name'', JStr (ascii ''x_web''))]),
             (''output'', JList [JStr (ascii ''groupid''), JStr (ascii ''name'')]),
             (''selectHosts'', JList [JStr (ascii ''hostid'')])]),
      (''hostgroup.update'',
       JObj [(''groupid'', JStr (ascii ''12'')), (''name'', JStr (ascii ''x_db''))])] \<and>
   calls_of (events_of (rename_group web_env (ascii ''db'') (ascii ''store'') 0)) =
     [(''hostgroup.get'',
       JObj [(''filter'', JObj [(''name'', JStr (ascii ''db''))]),
             (''output'', JList [JStr (ascii ''groupid''), JStr (ascii ''name'')]),
             (''selectHosts'', JList [JStr (ascii ''hostid'')])]),
      (''hostgroup.update'',
       JObj [(''groupid'', JStr (ascii ''15'')), (''name'', JStr (ascii ''store''))])]"
proof -
  have f: "result_of (find_group web_env (ascii ''x_web'') 0) = Inr [web_group]" by simp
  have fe: "calls_of (events_of (find_group web_env (ascii ''x_web'') 0)) =
     [(''hostgroup.get'',
       JObj [(''filter'', JObj [(''name'', JStr (ascii ''x_web''))]),
             (''output'', JList [JStr (ascii ''groupid''), JStr (ascii ''name'')]),
             (''selectHosts'', JList [JStr (ascii ''hostid'')])])]"
    by (simp add: lookup_params_def)
  have n: "groupname web_group = Some (ascii ''x_web'')" by (simp add: web_group_def)
  have g: "groupid web_group = ascii ''12''" by (simp add: web_group_def)
  have r: "ascii ''db'' \<noteq> [19979, 32447]" by (simp add: ascii_def)
  have r': "ascii ''x_db'' \<noteq> [19979, 32447]" by (simp add: ascii_def)
  have sp: "ascii ''x_web'' = ascii ''x'' @ 95 # ascii ''web'' \<and> 95 \<notin> set (ascii ''x'')"
    by (simp add: ascii_def)
  have p: "\<not> prefix (ascii ''x'' @ [95]) (ascii ''db'')"
    and p': "prefix (ascii ''x'' @ [95]) (ascii ''x_db'')"
    by (simp_all add: ascii_def)
  have e: "ascii ''x'' @ [95] @ ascii ''db'' = ascii ''x_db''"
    by (simp add: ascii_def)
  from rename_keeps_prefix [OF f n r] sp
  have "calls_of (events_of (rename_group web_env (ascii ''x_web'') (ascii ''db'') 0)) =
          calls_of (events_of (find_group web_env (ascii ''x_web'') 0)) @
          [(''hostgroup.update'',
            JObj [(''groupid'', JStr (groupid web_group)),
                  (''name'', JStr (if prefix (ascii ''x'' @ [95]) (ascii ''db'') then ascii ''db''
                                   else ascii ''x'' @ [95] @ ascii ''db''))])]"
    by blast
  then have first: "calls_of (events_of (rename_group web_env (ascii ''x_web'') (ascii ''db'') 0)) =
     [(''hostgroup.get'',
       JObj [(''filter'', JObj [(''name'', JStr (ascii ''x_web''))]),
             (''output'', JList [JStr (ascii ''groupid''), JStr (ascii ''name'')]),
             (''selectHosts'', JList [JStr (ascii ''hostid'')])]),
      (''hostgroup.update'',
       JObj [(''groupid'', JStr (ascii ''12'')), (''name'', JStr (ascii ''x_db''))])]"
    unfolding fe g using p e by simp
  from rename_keeps_prefix [OF f n r'] sp
  have "calls_of (events_of (rename_group web_env (ascii ''x_web'') (ascii ''x_db'') 0)) =
          calls_of (events_of (find_group web_env (ascii ''x_web'') 0)) @
          [(''hostgroup.update'',
            JObj [(''groupid'', JStr (groupid web_group)),
                  (''name'', JStr (if prefix (ascii ''x'' @ [95]) (ascii ''x_db'') then ascii ''x_db''
                                   else ascii ''x'' @ [95] @ ascii ''x_db''))])]"
    by blast
  then have kept: "calls_of (events_of (rename_group web_env (ascii ''x_web'') (ascii ''x_db'') 0)) =
     [(''hostgroup.get'',
       JObj [(''filter'', JObj [(''name'', JStr (ascii ''x_web''))]),
             (''output'', JList [JStr (ascii ''groupid''), JStr (ascii ''name'')]),
             (''selectHosts'', JList [JStr (ascii ''hostid'')])]),
      (''hostgroup.update'',
       JObj [(''groupid'', JStr (ascii ''12'')), (''name'', JStr (ascii ''x_db''))])]"
    unfolding fe g using p' by simp
  have f2: "result_of (find_group web_env (ascii ''db'') 0) = Inr [db_group]"
    and fe2: "calls_of (events_of (find_group web_env (ascii ''db'') 0)) =
     [(''hostgroup.get'',
       JObj [(''filter'', JObj [(''name'', JStr (ascii ''db''))]),
             (''output'', JList [JStr (ascii ''groupid''), JStr (ascii ''name'')]),
             (''selectHosts'', JList [JStr (ascii ''hostid'')])])]"
    by (simp_all add: find_group_def) (simp add: lookup_params_def)
  have n2: "groupname db_group = Some (ascii ''db'')" by (simp add: db_group_def)
  have g2: "groupid db_group = ascii ''15''" by (simp add: db_group_def)
  have r2: "ascii ''store'' \<noteq> [19979, 32447]" by (simp add: ascii_def)
  have u: "95 \<notin> set (ascii ''db'')" by (simp add: ascii_def)
  from rename_keeps_prefix [OF f2 n2 r2] u
  have "calls_of (events_of (rename_group web_env (ascii ''db'') (ascii ''store'') 0)) =
          calls_of (events_of (find_group web_env (ascii ''db'') 0)) @
          [(''hostgroup.update'',
            JObj [(''groupid'', JStr (groupid db_group)), (''name'', JStr (ascii ''store''))])]"
    by blast
  then have second: "calls_of (events_of (rename_group web_env (ascii ''db'') (ascii ''store'') 0)) =
     [(''hostgroup.get'',
       JObj [(''filter'', JObj [(''name'', JStr (ascii ''db''))]),
             (''output'', JList [JStr (ascii ''groupid''), JStr (ascii ''name'')]),
             (''selectHosts'', JList [JStr (ascii ''hostid'')])]),
      (''hostgroup.update'',
       JObj [(''groupid'', JStr (ascii ''15'')), (''name'', JStr (ascii ''store''))])]"
    unfolding fe2 g2 by simp
  show ?thesis using first kept second by simp
qed

lemma move_each_accepted:
  assumes "\<forall>p s'. fst (host_update z p s') = Inr ()"
  shows "result_of (move_each z t hs s) = Inr ()"
  using assms by (induction hs arbitrary: s) simp_all

lemma move_hosts_accepted:
  assumes updates: "\<forall>p s'. fst (host_update z p s') = Inr ()"
  shows "hostids = [] \<Longrightarrow>
           result_of (move_hosts_to_group z hostids n s) = Inr () \<and>
           calls_of (events_of (move_hosts_to_group z hostids n s)) = []"
    and "hostids \<noteq> [] \<Longrightarrow> fst (hostgroup_get z (target_lookup_params n) s) = Inr (g # gs) \<Longrightarrow>
           result_of (move_hosts_to_group z hostids n s) = Inr () \<and>
           calls_of (events_of (move_hosts_to_group z hostids n s)) =
             (''hostgroup.get'', target_lookup_params n) #
             map (\<lambda>hid. (''host.update'', move_params hid (groupid g))) hostids"
    and "hostids \<noteq> [] \<Longrightarrow> fst (hostgroup_get z (target_lookup_params n) s) = Inr [] \<Longrightarrow>
           fst (hostgroup_create z (create_params n) (snd (hostgroup_get z (target_lookup_params n) s)))
             = Inr (t # ids) \<Longrightarrow>
           result_of (move_hosts_to_group z hostids n s) = Inr () \<and>
           calls_of (events_of (move_hosts_to_group z hostids n s)) =
             (''hostgroup.get'', target_lookup_params n) #
             (''hostgroup.create'', create_params n) #
             map (\<lambda>hid. (''host.update'', move_params hid t)) hostids"
  using move_each_accepted [OF updates] move_each_calls [OF move_each_accepted [OF updates]]
  by (simp_all add: move_hosts_to_group_def)

lemma rename_group_offline:
  assumes found: "result_of (find_group z orig s) = Inr [grp]"
    and name: "groupname grp = Some old_name"
    and moved: "result_of (move_hosts_to_group z
                  (map hostid (case grouphosts grp of None \<Rightarrow> [] | Some hs \<Rightarrow> hs))
                  offline_name (state_of (find_group z orig s))) = Inr ()"
  shows "result_of (rename_group z orig offline_name s) = Some (groupid grp)"
    and "calls_of (events_of (rename_group z orig offline_name s)) =
           calls_of (events_of (find_group z orig s)) @
           calls_of (events_of (move_hosts_to_group z
              (map hostid (case grouphosts grp of None \<Rightarrow> [] | Some hs \<Rightarrow> hs))
              offline_name (state_of (find_group z orig s))))"
    and "result_of (rename_names z [orig] offline_name cleanup s) =
           (if groupid grp \<noteq> [] \<and> groupid grp \<notin> set cleanup
            then cleanup @ [groupid grp] else cleanup)"
proof -
  let ?hostids = "map hostid (case grouphosts grp of None \<Rightarrow> [] | Some hs \<Rightarrow> hs)"
  let ?s1 = "state_of (find_group z orig s)"
  let ?mv = "move_hosts_to_group z ?hostids offline_name ?s1"
  have rf_res: "result_of (rename_found z grp offline_name ?s1) = Inr (Some (groupid grp))"
    using name moved by (simp add: rename_found_def Let_def)
  have rf_ev: "events_of (rename_found z grp offline_name ?s1) =
      events_of ?mv @ [Print (M_moved old_name (length ?hostids)), Log INFO (M_moved old_name (length ?hostids))]"
    using name moved by (simp add: rename_found_def Let_def)
  show res: "result_of (rename_group z orig offline_name s) = Some (groupid grp)"
    using rename_group_found(2) [OF found, of offline_name] rf_res by simp
  show "result_of (rename_names z [orig] offline_name cleanup s) =
           (if groupid grp \<noteq> [] \<and> groupid grp \<notin> set cleanup
            then cleanup @ [groupid grp] else cleanup)"
    using res by simp
  have ev: "events_of (rename_group z orig offline_name s) =
      events_of (find_group z orig s) @ events_of ?mv @
      [Print (M_moved old_name (length ?hostids)), Log INFO (M_moved old_name (length ?hostids))]"
    using rename_group_found(1) [OF found, of offline_name] rf_res rf_ev by simp
  show "calls_of (events_of (rename_group z orig offline_name s)) =
      calls_of (events_of (find_group z orig s)) @ calls_of (events_of ?mv)"
    by (simp add: ev)
qed

lemma rename_group_offline_methods:
  assumes found: "result_of (find_group z orig s) = Inr [grp]"
    and name: "groupname grp = Some old_name"
  shows "set (methods_of (events_of (rename_group z orig offline_name s)))
           \<subseteq> {''hostgroup.get'', ''hostgroup.create'', ''host.update''}"
proof -
  let ?hostids = "map hostid (case grouphosts grp of None \<Rightarrow> [] | Some hs \<Rightarrow> hs)"
  let ?s1 = "state_of (find_group z orig s)"
  let ?mv = "move_hosts_to_group z ?hostids offline_name ?s1"
  have rf_m: "methods_of (events_of (rename_found z grp offline_name ?s1)) = methods_of (events_of ?mv)"
    using name by (simp add: rename_found_def Let_def split: sum.splits)
  have m: "methods_of (events_of (rename_group z orig offline_name s)) =
      methods_of (events_of (find_group z orig s)) @ methods_of (events_of ?mv)"
    using rf_m by (simp add: rename_group_found(1) [OF found] split: sum.splits)
  show ?thesis
    using find_group_methods [of z orig s] move_hosts_methods [of z ?hostids offline_name ?s1]
    by (auto simp: m)
qed

lemma no_offline_env_simps [simp]:
  "host_update no_offline_env = (\<lambda>p s. (Inr (), Suc s))"
  "hostgroup_create no_offline_env = (\<lambda>p s. (Inr [ascii ''99''], Suc s))"
  "hostgroup_get no_offline_env (lookup_params (ascii ''x_web'')) = (\<lambda>s. (Inr [web_group], Suc s))"
  "hostgroup_get no_offline_env (target_lookup_params offline_name) = (\<lambda>s. (Inr [], Suc s))"
  by (simp_all add: no_offline_env_def web_env_def demo_env_def target_lookup_params_def
      offline_name_def web_groups_reply_def lookup_params_def ascii_def)

lemma refusing_env_simps [simp]:
  "host_update refusing_env = (\<lambda>p s. (Inl ConnectionError, Suc s))"
  "hostgroup_get refusing_env = (\<lambda>p s. (web_groups_reply p, Suc s))"
  by (simp_all add: refusing_env_def web_env_def demo_env_def)

text \<open>
  C5, with the proviso it needs. Let the lookup of \<^verbatim>\<open>rename_group\<close> match exactly one
  group, let the new name be the sentinel \<^verbatim>\<open>'\<close>U+4E0B U+7EBF\<^verbatim>\<open>'\<close> (code points 19979 and
  32447), and let the server accept every \<^verbatim>\<open>host.update\<close>. Then \<^verbatim>\<open>rename_group\<close> issues no
  \<^verbatim>\<open>hostgroup.update\<close> and no \<^verbatim>\<open>hostgroup.delete\<close>. If the group has no host, it returns
  the id of the group without any further call. If the group has hosts and the lookup
  of the group named by the sentinel returns a group, it returns the id of the matched
  group, and its calls after the first lookup are that lookup and one \<^verbatim>\<open>host.update\<close> per
  host of the matched group, in order, whose \<^verbatim>\<open>groups\<close> is the single
  \<^verbatim>\<open>{"groupid": ...}\<close> of the group found. If that lookup returns nothing and the
  creation of the group named by the sentinel returns an id, the same holds with the
  creation call after the lookup and the new id in every \<^verbatim>\<open>host.update\<close>. In each case
  the loop of \<^verbatim>\<open>main\<close> adds the id returned to the groups to clean up.
\<close>

theorem offline_moves_hosts:
  assumes found: "result_of (find_group z orig s) = Inr [grp]"
    and name: "groupname grp = Some old_name"
    and updates: "\<forall>p s'. fst (host_update z p s') = Inr ()"
  shows "let hostids = map hostid (case grouphosts grp of None \<Rightarrow> [] | Some hs \<Rightarrow> hs);
             s1 = state_of (find_group z orig s);
             offline_query = JObj [(''filter'', JObj [(''name'', JStr [19979, 32447])]),
                                   (''output'', JList [JStr (ascii ''groupid'')])];
             creation = JObj [(''name'', JStr [19979, 32447])];
             moves = (\<lambda>target.
                        map (\<lambda>hid. (''host.update'',
                                     JObj [(''hostid'', JStr hid),
                                           (''groups'', JList [JObj [(''groupid'', JStr target)]])]))
                            hostids);
             moved = (\<lambda>calls.
                        result_of (rename_group z orig [19979, 32447] s) = Some (groupid grp) \<and>
                        result_of (rename_names z [orig] [19979, 32447] cleanup s) =
                          (if groupid grp \<noteq> [] \<and> groupid grp \<notin> set cleanup
                           then cleanup @ [groupid grp] else cleanup) \<and>
                        calls_of (events_of (rename_group z orig [19979, 32447] s)) =
                          calls_of (events_of (find_group z orig s)) @ calls)
         in ''hostgroup.update'' \<notin> set (methods_of (events_of (rename_group z orig [19979, 32447] s))) \<and>
            ''hostgroup.delete'' \<notin> set (methods_of (events_of (rename_group z orig [19979, 32447] s))) \<and>
            (hostids = [] \<longrightarrow> moved []) \<and>
            (\<forall>g gs. hostids \<noteq> [] \<and> fst (hostgroup_get z offline_query s1) = Inr (g # gs) \<longrightarrow>
                    moved ((''hostgroup.get'', offline_query) # moves (groupid g))) \<and>
            (\<forall>target ids.
               hostids \<noteq> [] \<and> fst (hostgroup_get z offline_query s1) = Inr [] \<and>
               fst (hostgroup_create z creation (snd (hostgroup_get z offline_query s1)))
                 = Inr (target # ids) \<longrightarrow>
               moved ((''hostgroup.get'', offline_query) # (''hostgroup.create'', creation) #
                      moves target))"
proof -
  let ?hostids = "map hostid (case grouphosts grp of None \<Rightarrow> [] | Some hs \<Rightarrow> hs)"
  let ?s1 = "state_of (find_group z orig s)"
  let ?mv = "move_hosts_to_group z ?hostids offline_name ?s1"
  let ?RG = "rename_group z orig [19979, 32447] s"
  have o: "[19979, 32447] = offline_name" by (simp add: offline_name_def)
  have tl: "target_lookup_params offline_name =
      JObj [(''filter'', JObj [(''name'', JStr [19979, 32447])]),
            (''output'', JList [JStr (ascii ''groupid'')])]"
    by (simp add: target_lookup_params_def offline_name_def)
  have cp: "create_params offline_name = JObj [(''name'', JStr [19979, 32447])]"
    by (simp add: create_params_def offline_name_def)
  have mp: "move_params hid t =
      JObj [(''hostid'', JStr hid), (''groups'', JList [JObj [(''groupid'', JStr t)]])]" for hid t
    by (simp add: move_params_def)
  have m1: "''hostgroup.update'' \<notin> set (methods_of (events_of ?RG))"
    and m2: "''hostgroup.delete'' \<notin> set (methods_of (events_of ?RG))"
    using rename_group_offline_methods [OF found name] unfolding o by auto
  have fin: "result_of ?RG = Some (groupid grp) \<and>
        result_of (rename_names z [orig] [19979, 32447] cleanup s) =
          (if groupid grp \<noteq> [] \<and> groupid grp \<notin> set cleanup
           then cleanup @ [groupid grp] else cleanup) \<and>
        calls_of (events_of ?RG) = calls_of (events_of (find_group z orig s)) @ calls"
    if h: "result_of ?mv = Inr () \<and> calls_of (events_of ?mv) = calls" for calls
  proof -
    have mv: "result_of ?mv = Inr ()" using h by blast
    have cs: "calls_of (events_of ?mv) = calls" using h by blast
    show ?thesis
      unfolding o
      using rename_group_offline(1) [OF found name mv] rename_group_offline(2) [OF found name mv]
        rename_group_offline(3) [OF found name mv, of cleanup] cs
      by simp
  qed
  have c1: "?hostids = [] \<longrightarrow>
        result_of ?RG = Some (groupid grp) \<and>
        result_of (rename_names z [orig] [19979, 32447] cleanup s) =
          (if groupid grp \<noteq> [] \<and> groupid grp \<notin> set cleanup
           then cleanup @ [groupid grp] else cleanup) \<and>
        calls_of (events_of ?RG) = calls_of (events_of (find_group z orig s)) @ []"
    using fin move_hosts_accepted(1) [OF updates] by blast
  have c2: "result_of ?RG = Some (groupid grp) \<and>
        result_of (rename_names z [orig] [19979, 32447] cleanup s) =
          (if groupid grp \<noteq> [] \<and> groupid grp \<notin> set cleanup
           then cleanup @ [groupid grp] else cleanup) \<and>
        calls_of (events_of ?RG) = calls_of (events_of (find_group z orig s)) @
          (''hostgroup.get'',
           JObj [(''filter'', JObj [(''name'', JStr [19979, 32447])]),
                 (''output'', JList [JStr (ascii ''groupid'')])]) #
          map (\<lambda>hid. (''host.update'',
                       JObj [(''hostid'', JStr hid),
                             (''groups'', JList [JObj [(''groupid'', JStr (groupid g))]])]))
              ?hostids"
    if a: "?hostids \<noteq> [] \<and>
           fst (hostgroup_get z
                  (JObj [(''filter'', JObj [(''name'', JStr [19979, 32447])]),
                         (''output'', JList [JStr (ascii ''groupid'')])]) ?s1) = Inr (g # gs)"
    for g gs
  proof -
    have ne: "?hostids \<noteq> []" using a by blast
    have l: "fst (hostgroup_get z (target_lookup_params offline_name) ?s1) = Inr (g # gs)"
      unfolding tl using a by blast
    show ?thesis
      by (rule fin) (rule move_hosts_accepted(2) [OF updates ne l, unfolded tl mp])
  qed
  have c3: "result_of ?RG = Some (groupid grp) \<and>
        result_of (rename_names z [orig] [19979, 32447] cleanup s) =
          (if groupid grp \<noteq> [] \<and> groupid grp \<notin> set cleanup
           then cleanup @ [groupid grp] else cleanup) \<and>
        calls_of (events_of ?RG) = calls_of (events_of (find_group z orig s)) @
          (''hostgroup.get'',
           JObj [(''filter'', JObj [(''name'', JStr [19979, 32447])]),
                 (''output'', JList [JStr (ascii ''groupid'')])]) #
          (''hostgroup.create'', JObj [(''name'', JStr [19979, 32447])]) #
          map (\<lambda>hid. (''host.update'',
                       JObj [(''hostid'', JStr hid),
                             (''groups'', JList [JObj [(''groupid'', JStr target)]])]))
              ?hostids"
    if a: "?hostids \<noteq> [] \<and>
           fst (hostgroup_get z
                  (JObj [(''filter'', JObj [(''name'', JStr [19979, 32447])]),
                         (''output'', JList [JStr (ascii ''groupid'')])]) ?s1) = Inr [] \<and>
           fst (hostgroup_create z (JObj [(''name'', JStr [19979, 32447])])
                  (snd (hostgroup_get z
                          (JObj [(''filter'', JObj [(''name'', JStr [19979, 32447])]),
                                 (''output'', JList [JStr (ascii ''groupid'')])]) ?s1)))
             = Inr (target # ids)"
    for target ids
  proof -
    have ne: "?hostids \<noteq> []" using a by blast
    have l: "fst (hostgroup_get z (target_lookup_params offline_name) ?s1) = Inr []"
      unfolding tl using a by blast
    have c: "fst (hostgroup_create z (create_params offline_name)
                    (snd (hostgroup_get z (target_lookup_params offline_name) ?s1)))
               = Inr (target # ids)"
      unfolding tl cp using a by blast
    show ?thesis
      by (rule fin) (rule move_hosts_accepted(3) [OF updates ne l c, unfolded tl cp mp])
  qed
  show ?thesis
    unfolding Let_def
    using m1 m2 c1 c2 c3 by blast
qed

theorem offline_moves_hosts_witness:
  "result_of (rename_group web_env (ascii ''x_web'') [19979, 32447] 0) = Some (ascii ''12'') \<and>
   result_of (rename_names web_env [ascii ''x_web''] [19979, 32447] [] 0) = [ascii ''12''] \<and>
   calls_of (events_of (rename_group web_env (ascii ''x_web'') [19979, 32447] 0)) =
     [(''hostgroup.get'',
       JObj [(''filter'', JObj [(''name'', JStr (ascii ''x_web''))]),
             (''output'', JList [JStr (ascii ''groupid''), JStr (ascii ''name'')]),
             (''selectHosts'', JList [JStr (ascii ''hostid'')])]),
      (''hostgroup.get'',
       JObj [(''filter'', JObj [(''name'', JStr [19979, 32447])]),
             (''output'', JList [JStr (ascii ''groupid'')])]),
      (''host.update'',
       JObj [(''hostid'', JStr (ascii ''101'')),
             (''groups'', JList [JObj [(''groupid'', JStr (ascii ''7''))]])])] \<and>
   result_of (rename_group no_offline_env (ascii ''x_web'') [19979, 32447] 0) = Some (ascii ''12'') \<and>
   result_of (rename_names no_offline_env [ascii ''x_web''] [19979, 32447] [] 0) = [ascii ''12''] \<and>
   calls_of (events_of (rename_group no_offline_env (ascii ''x_web'') [19979, 32447] 0)) =
     [(''hostgroup.get'',
       JObj [(''filter'', JObj [(''name'', JStr (ascii ''x_web''))]),
             (''output'', JList [JStr (ascii ''groupid''), JStr (ascii ''name'')]),
             (''selectHosts'', JList [JStr (ascii ''hostid'')])]),
      (''hostgroup.get'',
       JObj [(''filter'', JObj [(''name'', JStr [19979, 32447])]),
             (''output'', JList [JStr (ascii ''groupid'')])]),
      (''hostgroup.create'', JObj [(''name'', JStr [19979, 32447])]),
      (''host.update'',
       JObj [(''hostid'', JStr (ascii ''101'')),
             (''groups'', JList [JObj [(''groupid'', JStr (ascii ''99''))]])])] \<and>
   result_of (rename_group web_env (ascii ''db'') [19979, 32447] 0) = Some (ascii ''15'') \<and>
   calls_of (events_of (rename_group web_env (ascii ''db'') [19979, 32447] 0)) =
     [(''hostgroup.get'',
       JObj [(''filter'', JObj [(''name'', JStr (ascii ''db''))]),
             (''output'', JList [JStr (ascii ''groupid''), JStr (ascii ''name'')]),
             (''selectHosts'', JList [JStr (ascii ''hostid'')])])]"
proof -
  let ?offline = "JObj [(''filter'', JObj [(''name'', JStr [19979, 32447])]),
                        (''output'', JList [JStr (ascii ''groupid'')])]"
  let ?find_web = "(''hostgroup.get'',
       JObj [(''filter'', JObj [(''name'', JStr (ascii ''x_web''))]),
             (''output'', JList [JStr (ascii ''groupid''), JStr (ascii ''name'')]),
             (''selectHosts'', JList [JStr (ascii ''hostid'')])])"
  have tl: "?offline = target_lookup_params offline_name"
    by (simp add: target_lookup_params_def offline_name_def)
  have n: "groupname web_group = Some (ascii ''x_web'')" by (simp add: web_group_def)
  have hs: "map hostid (case grouphosts web_group of None \<Rightarrow> [] | Some hs \<Rightarrow> hs) = [ascii ''101'']"
    by (simp add: web_group_def)
  have gid: "groupid web_group = ascii ''12''" by (simp add: web_group_def)
  have ne: "ascii ''12'' \<noteq> []" by (simp add: ascii_def)
  have f: "result_of (find_group web_env (ascii ''x_web'') 0) = Inr [web_group]" by simp
  have fs: "state_of (find_group web_env (ascii ''x_web'') 0) = 1" by simp
  have fc: "calls_of (events_of (find_group web_env (ascii ''x_web'') 0)) = [?find_web]"
    by (simp add: lookup_params_def)
  have u: "\<forall>p s'. fst (host_update web_env p s') = Inr ()" by simp
  have l: "[ascii ''101''] \<noteq> [] \<and> fst (hostgroup_get web_env ?offline 1) = Inr (offline_group # [])"
    unfolding tl by simp
  have og: "groupid offline_group = ascii ''7''" by (simp add: offline_group_def)
  note t1 = offline_moves_hosts [OF f n u, where cleanup = "[]", unfolded Let_def hs fs,
      THEN conjunct2, THEN conjunct2, THEN conjunct2, THEN conjunct1, rule_format, OF l]
  have first: "result_of (rename_group web_env (ascii ''x_web'') [19979, 32447] 0) = Some (ascii ''12'') \<and>
     result_of (rename_names web_env [ascii ''x_web''] [19979, 32447] [] 0) = [ascii ''12''] \<and>
     calls_of (events_of (rename_group web_env (ascii ''x_web'') [19979, 32447] 0)) =
       [?find_web, (''hostgroup.get'', ?offline),
        (''host.update'',
         JObj [(''hostid'', JStr (ascii ''101'')),
               (''groups'', JList [JObj [(''groupid'', JStr (ascii ''7''))]])])]"
    using t1 ne unfolding gid og fc by (simp add: offline_name_def)
  have f2: "result_of (find_group no_offline_env (ascii ''x_web'') 0) = Inr [web_group]"
    and fs2: "state_of (find_group no_offline_env (ascii ''x_web'') 0) = 1"
    and fc2: "calls_of (events_of (find_group no_offline_env (ascii ''x_web'') 0)) = [?find_web]"
    by (simp_all add: find_group_def) (simp add: lookup_params_def)
  have u2: "\<forall>p s'. fst (host_update no_offline_env p s') = Inr ()" by simp
  have l2: "[ascii ''101''] \<noteq> [] \<and> fst (hostgroup_get no_offline_env ?offline 1) = Inr [] \<and>
            fst (hostgroup_create no_offline_env (JObj [(''name'', JStr [19979, 32447])])
                   (snd (hostgroup_get no_offline_env ?offline 1))) = Inr (ascii ''99'' # [])"
    unfolding tl by simp
  note t2 = offline_moves_hosts [OF f2 n u2, where cleanup = "[]", unfolded Let_def hs fs2,
      THEN conjunct2, THEN conjunct2, THEN conjunct2, THEN conjunct2, rule_format, OF l2]
  have second: "result_of (rename_group no_offline_env (ascii ''x_web'') [19979, 32447] 0) = Some (ascii ''12'') \<and>
     result_of (rename_names no_offline_env [ascii ''x_web''] [19979, 32447] [] 0) = [ascii ''12''] \<and>
     calls_of (events_of (rename_group no_offline_env (ascii ''x_web'') [19979, 32447] 0)) =
       [?find_web, (''hostgroup.get'', ?offline),
        (''hostgroup.create'', JObj [(''name'', JStr [19979, 32447])]),
        (''host.update'',
         JObj [(''hostid'', JStr (ascii ''101'')),
               (''groups'', JList [JObj [(''groupid'', JStr (ascii ''99''))]])])]"
    using t2 ne unfolding gid fc2 by (simp add: offline_name_def)
  have f3: "result_of (find_group web_env (ascii ''db'') 0) = Inr [db_group]"
    and fc3: "calls_of (events_of (find_group web_env (ascii ''db'') 0)) =
     [(''hostgroup.get'',
       JObj [(''filter'', JObj [(''name'', JStr (ascii ''db''))]),
             (''output'', JList [JStr (ascii ''groupid''), JStr (ascii ''name'')]),
             (''selectHosts'', JList [JStr (ascii ''hostid'')])])]"
    by (simp_all add: find_group_def) (simp add: lookup_params_def)
  have n3: "groupname db_group = Some (ascii ''db'')" by (simp add: db_group_def)
  have hs3: "map hostid (case grouphosts db_group of None \<Rightarrow> [] | Some hs \<Rightarrow> hs) = []"
    by (simp add: db_group_def)
  have gid3: "groupid db_group = ascii ''15''" by (simp add: db_group_def)
  note t3 = offline_moves_hosts [OF f3 n3 u, where cleanup = "[]", unfolded Let_def hs3,
      THEN conjunct2, THEN conjunct2, THEN conjunct1, THEN mp, OF refl]
  have third: "result_of (rename_group web_env (ascii ''db'') [19979, 32447] 0) = Some (ascii ''15'') \<and>
     calls_of (events_of (rename_group web_env (ascii ''db'') [19979, 32447] 0)) =
     [(''hostgroup.get'',
       JObj [(''filter'', JObj [(''name'', JStr (ascii ''db''))]),
             (''output'', JList [JStr (ascii ''groupid''), JStr (ascii ''name'')]),
             (''selectHosts'', JList [JStr (ascii ''hostid'')])])]"
    using t3 unfolding gid3 fc3 by (simp add: offline_name_def)
  show ?thesis using first second third by blast
qed

text \<open>
  Without the proviso the property fails: on the server that refuses every
  \<^verbatim>\<open>host.update\<close>, the group \<^verbatim>\<open>x_web\<close> is matched, its host is not moved, and
  \<^verbatim>\<open>rename_group\<close> returns \<^verbatim>\<open>None\<close>, so that nothing is added to the groups to clean up.
\<close>

theorem offline_move_refused:
  "result_of (find_group refusing_env (ascii ''x_web'') 0) =
     Inr [\<lparr>groupid = ascii ''12'', groupname = Some (ascii ''x_web''),
           grouphosts = Some [\<lparr>hostid = ascii ''101'', hostname = None\<rparr>]\<rparr>] \<and>
   result_of (rename_group refusing_env (ascii ''x_web'') [19979, 32447] 0) = None \<and>
   result_of (rename_names refusing_env [ascii ''x_web''] [19979, 32447] [] 0) = [] \<and>
   calls_of (events_of (rename_group refusing_env (ascii ''x_web'') [19979, 32447] 0)) =
     [(''hostgroup.get'',
       JObj [(''filter'', JObj [(''name'', JStr (ascii ''x_web''))]),
             (''output'', JList [JStr (ascii ''groupid''), JStr (ascii ''name'')]),
             (''selectHosts'', JList [JStr (ascii ''hostid'')])]),
      (''hostgroup.get'',
       JObj [(''filter'', JObj [(''name'', JStr [19979, 32447])]),
             (''output'', JList [JStr (ascii ''groupid'')])]),
      (''host.update'',
       JObj [(''hostid'', JStr (ascii ''101'')),
             (''groups'', JList [JObj [(''groupid'', JStr (ascii ''7''))]])])]"
proof -
  have o: "[19979, 32447] = offline_name" by (simp add: offline_name_def)
  have f: "result_of (find_group refusing_env (ascii ''x_web'') 0) = Inr [web_group]"
    by (simp add: find_group_def)
  have a: "result_of (find_group refusing_env (ascii ''x_web'') 0) =
     Inr [\<lparr>groupid = ascii ''12'', groupname = Some (ascii ''x_web''),
           grouphosts = Some [\<lparr>hostid = ascii ''101'', hostname = None\<rparr>]\<rparr>]"
    using f by (simp add: web_group_def)
  have b: "result_of (rename_group refusing_env (ascii ''x_web'') [19979, 32447] 0) = None"
    unfolding o
    by (simp add: rename_group_found(2) [OF f] rename_found_def web_group_def Let_def
          move_hosts_to_group_def find_group_def offline_group_def)
  have c: "result_of (rename_names refusing_env [ascii ''x_web''] [19979, 32447] [] 0) = []"
    using b by (simp add: offline_name_def)
  have d: "calls_of (events_of (rename_group refusing_env (ascii ''x_web'') [19979, 32447] 0)) =
     [(''hostgroup.get'',
       JObj [(''filter'', JObj [(''name'', JStr (ascii ''x_web''))]),
             (''output'', JList [JStr (ascii ''groupid''), JStr (ascii ''name'')]),
             (''selectHosts'', JList [JStr (ascii ''hostid'')])]),
      (''hostgroup.get'',
       JObj [(''filter'', JObj [(''name'', JStr [19979, 32447])]),
             (''output'', JList [JStr (ascii ''groupid'')])]),
      (''host.update'',
       JObj [(''hostid'', JStr (ascii ''101'')),
             (''groups'', JList [JObj [(''groupid'', JStr (ascii ''7''))]])])]"
    unfolding o
    by (simp add: rename_group_found(1) [OF f] rename_found_def web_group_def Let_def
          move_hosts_to_group_def find_group_def offline_group_def)
       (simp add: lookup_params_def target_lookup_params_def move_params_def offline_name_def)
  show ?thesis using a b c d by (intro conjI)
qed

section \<open>Looking a group up by name\<close>














section \<open>Rows that need no change\<close>

lemma read_rows_pure:
  "state_of (read_rows csv acc s) = s \<and> calls_of (events_of (read_rows csv acc s)) = []"
  by (induction csv arbitrary: acc) (simp_all add: Let_def split: option.splits)

lemma no_change_name_nonempty: "no_change_name \<noteq> []"
  by (simp add: no_change_name_def)

lemma read_rows_skip:
  assumes "new_col row = Some n" and "py_strip n = no_change_name"
  shows "result_of (read_rows (pre @ row # post) acc s) = result_of (read_rows (pre @ post) acc s)"
proof (induction pre arbitrary: acc)
  case Nil
  show ?case using assms by (simp add: Let_def no_change_name_nonempty)
next
  case (Cons r pre)
  show ?case by (simp add: Let_def Cons.IH split: option.splits)
qed

lemma web_login [simp]: "user_login web_env = (\<lambda>s. (Inr (Inr (ascii ''token'')), Suc s))"
  by (simp add: web_env_def demo_env_def)

lemma web_get_auth_token [simp]:
  "result_of (get_auth_token web_env s) = Inr (ascii ''token'')"
  "state_of (get_auth_token web_env s) = Suc s"
  "events_of (get_auth_token web_env s) = [Call ''user.login'' login_params, Print M_login_response]"
  by (simp_all add: get_auth_token_def result_of_def state_of_def events_of_def)

text \<open>
  C8. A row of the CSV file whose new-name column is the sentinel
  \<^verbatim>\<open>'\<close>U+65E0 U+9700 U+4FEE U+6539\<^verbatim>\<open>'\<close> (after \<^verbatim>\<open>strip()\<close>) is not collected into \<^verbatim>\<open>rows\<close>, so \<^verbatim>\<open>main\<close>
  behaves with the row as without it: it returns or raises the same, leaves the server
  in the same state and issues the same API calls in the same order. No call is made on
  behalf of the row.
\<close>

theorem no_change_row_is_skipped:
  assumes "new_col row = Some n" and "py_strip n = no_change_name"
  shows "result_of (read_rows (pre @ row # post) [] s) = result_of (read_rows (pre @ post) [] s) \<and>
         result_of (main z (pre @ row # post) ts s) = result_of (main z (pre @ post) ts s) \<and>
         state_of (main z (pre @ row # post) ts s) = state_of (main z (pre @ post) ts s) \<and>
         calls_of (events_of (main z (pre @ row # post) ts s)) =
           calls_of (events_of (main z (pre @ post) ts s))"
  by (simp add: main_def read_rows_skip [OF assms] read_rows_pure split: sum.splits)

theorem no_change_row_is_skipped_witness:
  "calls_of (events_of (main web_env [test_row] test_time 0)) =
     [(''user.login'', login_params),
      (''hostgroup.get'',
       JObj [(''output'', JList [JStr (ascii ''groupid''), JStr (ascii ''name'')]),
             (''selectHosts'', JList [JStr (ascii ''hostid''), JStr (ascii ''name'')])])] \<and>
   result_of (main web_env [test_row] test_time 0) = Inr ()"
proof -
  have n: "new_col test_row = Some no_change_name" by (simp add: test_row_def)
  have st: "py_strip no_change_name = no_change_name"
    by (simp add: py_strip_def py_isspace_def no_change_name_def)
  have b: "web_groups_reply
     (JObj [(''output'', JList [JStr (ascii ''groupid''), JStr (ascii ''name'')]),
            (''selectHosts'', JList [JStr (ascii ''hostid''), JStr (ascii ''name'')])]) = Inr []"
    by (simp add: web_groups_reply_def lookup_params_def by_id_params_def offline_lookup_params_def
        target_lookup_params_def)
  have e: "calls_of (events_of (main web_env [] test_time 0)) =
     [(''user.login'', login_params),
      (''hostgroup.get'',
       JObj [(''output'', JList [JStr (ascii ''groupid''), JStr (ascii ''name'')]),
             (''selectHosts'', JList [JStr (ascii ''hostid''), JStr (ascii ''name'')])])] \<and>
     result_of (main web_env [] test_time 0) = Inr ()"
    by (simp add: main_def backup_all_groups_and_hosts_def b Let_def)
  from no_change_row_is_skipped
         [OF n st, where pre = "[]" and post = "[]" and z = web_env and ts = test_time and s = 0] e
  show ?thesis by simp
qed

section \<open>When the API clients raise\<close>

lemma error_key_getitem:
  "k \<in> fst ` set kvs \<Longrightarrow> \<exists>v. py_getitem (JObj kvs) k = Inr v"
  by (cases "map_of kvs k") (auto simp: map_of_eq_None_iff)

lemma call_api_try_raises_iff:
  assumes "\<forall>st v. t = Response st (Some v) \<longrightarrow> (\<exists>kvs. v = JObj kvs)"
  shows "(\<exists>e. call_api_try t = Inl e) \<longleftrightarrow>
         t = TimedOut \<or> t = ConnectFailed \<or>
         (\<exists>st body. t = Response st body \<and>
            (raise_for_status st \<or> body = None \<or>
             (\<exists>kvs. body = Some (JObj kvs) \<and> ''error'' \<in> fst ` set kvs)))"
proof (cases t)
  case TimedOut
  then show ?thesis by (simp add: call_api_try_def)
next
  case ConnectFailed
  then show ?thesis by (simp add: call_api_try_def)
next
  case (Response st body)
  show ?thesis
  proof (cases body)
    case None
    then show ?thesis using Response by (simp add: call_api_try_def)
  next
    case (Some v)
    then obtain kvs where v: "v = JObj kvs" using assms Response by blast
    show ?thesis
    proof (cases "''error'' \<in> fst ` set kvs")
      case True
      then obtain err where g: "py_getitem (JObj kvs) ''error'' = Inr err"
        using error_key_getitem by blast
      show ?thesis
        using Response Some v True g
        by (auto simp: call_api_try_def split: sum.splits)
    next
      case False
      then show ?thesis
        using Response Some v
        by (auto simp: call_api_try_def split: option.splits)
    qed
  qed
qed

lemma ZabbixAPI_call_api_raises_iff:
  assumes "\<forall>st v. t = Response st (Some v) \<longrightarrow> (\<exists>kvs. v = JObj kvs)"
  shows "(\<exists>e. fst (ZabbixAPI_call_api (\<lambda>r. t) self method params auth_required) = Inl e) \<longleftrightarrow>
         t = TimedOut \<or> t = ConnectFailed \<or>
         (\<exists>st body. t = Response st body \<and>
            (raise_for_status st \<or> body = None \<or>
             (\<exists>kvs. body = Some (JObj kvs) \<and> ''error'' \<in> fst ` set kvs)))"
proof -
  have "(\<exists>e. fst (ZabbixAPI_call_api (\<lambda>r. t) self method params auth_required) = Inl e) \<longleftrightarrow>
        (\<exists>e. call_api_try t = Inl e)"
    by (auto simp: ZabbixAPI_call_api_def Let_def split: sum.splits exn.splits)
  then show ?thesis using call_api_try_raises_iff [OF assms] by simp
qed

lemma call_api_raises_iff:
  assumes "\<forall>st v. t = Response st (Some v) \<longrightarrow> (\<exists>kvs. v = JObj kvs)"
  shows "(\<exists>e. call_api (\<lambda>r. t) method params tok = Inl e) \<longleftrightarrow>
         t = TimedOut \<or> t = ConnectFailed \<or>
         (\<exists>st body. t = Response st body \<and>
            (body = None \<or>
             (\<exists>kvs. body = Some (JObj kvs) \<and>
                (''error'' \<in> fst ` set kvs \<or> ''result'' \<notin> fst ` set kvs))))"
proof (cases t)
  case TimedOut
  then show ?thesis by (simp add: call_api_def)
next
  case ConnectFailed
  then show ?thesis by (simp add: call_api_def)
next
  case (Response st body)
  show ?thesis
  proof (cases body)
    case None
    then show ?thesis using Response by (simp add: call_api_def)
  next
    case (Some v)
    then obtain kvs where v: "v = JObj kvs" using assms Response by blast
    show ?thesis
    proof (cases "''error'' \<in> fst ` set kvs")
      case True
      then obtain err where g: "py_getitem (JObj kvs) ''error'' = Inr err"
        using error_key_getitem by blast
      show ?thesis
        using Response Some v True g by (simp add: call_api_def)
    next
      case False
      then show ?thesis
        using Response Some v
        by (auto simp: call_api_def map_of_eq_None_iff split: option.splits
            dest!: map_of_SomeD intro: rev_image_eqI)
    qed
  qed
qed

text \<open>
  C1. An API-call function is to raise exactly when the transport times out, the
  connection fails, the HTTP status indicates failure, the body is not JSON, or the
  response has an \<^verbatim>\<open>error\<close> field. The method \<^verbatim>\<open>_call_api\<close> does so for a body that
  is a JSON object (\<open>ZabbixAPI_call_api_raises_iff\<close>). The free function \<^verbatim>\<open>call_api\<close>
  never looks at the HTTP status: for a reply with the status 500 and a body holding a
  \<^verbatim>\<open>result\<close> it returns that result, where \<^verbatim>\<open>_call_api\<close> raises; and for a reply with the
  status 200 and a body without \<^verbatim>\<open>result\<close> and without \<^verbatim>\<open>error\<close> it raises
  \<^verbatim>\<open>KeyError\<close>, where \<^verbatim>\<open>_call_api\<close> returns \<^verbatim>\<open>None\<close>.
\<close>

theorem call_api_ignores_http_status:
  "call_api status_500_with_result ''hostgroup.get'' (JObj []) (ascii ''token'') = Inr (JList []) \<and>
   fst (ZabbixAPI_call_api status_500_with_result test_client ''hostgroup.get'' (JObj []) True)
     = Inl (Exception_http 500) \<and>
   call_api status_200_without_result ''hostgroup.get'' (JObj []) (ascii ''token'')
     = Inl (KeyError ''result'') \<and>
   fst (ZabbixAPI_call_api status_200_without_result test_client ''hostgroup.get'' (JObj []) True)
     = Inr JNull"
  by (simp add: call_api_def ZabbixAPI_call_api_def call_api_try_def raise_for_status_def Let_def
      status_500_with_result_def status_200_without_result_def)

end
